theory Spec2Isabelle
  imports Complex_Main
begin

section \<open>The Jinja template interpreter of packages/jinja/src/runtime.ts\<close>

text \<open>
  A shallow embedding of the tree-walking evaluator: runtime values, environments,
  the expression and statement evaluators, the filters and the built-in methods.

  Conventions of the embedding.
  \<^item> A host string is a \<^typ>\<open>string\<close>; each \<^typ>\<open>char\<close> stands for one UTF-16 code
    unit below 256, so lengths and indices count what the host counts.
  \<^item> A host number is a \<^typ>\<open>rat\<close> or one of the three special doubles. Arithmetic on
    finite numbers is exact: rounding, overflow and the sign of zero are not modelled.
  \<^item> Arrays and maps live in a heap of cells and values hold addresses, because the
    host shares and mutates them in place.
  \<^item> An environment is the list of its frames, innermost first; the tail is the
    parent chain.
  \<^item> A thrown exception is an \<open>Inl\<close> outcome, returned with the state reached when it
    was thrown.
  \<^item> The recursion of \<open>evaluate\<close> is bounded by a depth budget, as the host's call
    stack is; running out is the host's stack-overflow \<open>RangeError\<close>.
  \<^item> What the host library and the absent \<open>utils\<close> module compute (case mapping,
    number parsing and printing, \<open>slice\<close>, \<open>replace\<close>, \<open>range\<close>, ...) is taken as a
    parameter, the record \<open>host\<close>.
\<close>

subsection \<open>Host strings\<close>

text \<open>White space as \<open>trim\<close>, \<open>trimStart\<close>, \<open>trimEnd\<close> and the regular expression
  classes \<open>\s\<close> and \<open>\S\<close> read it, for code units below 256.\<close>

definition is_space :: "char \<Rightarrow> bool" where
  "is_space c = (of_char c \<in> {9, 10, 11, 12, 13, 32, 160 :: nat})"

definition non_space :: "char \<Rightarrow> bool" where
  "non_space c = (\<not> is_space c)"

definition trimStart :: "string \<Rightarrow> string" where
  "trimStart s = dropWhile is_space s"

definition trimEnd :: "string \<Rightarrow> string" where
  "trimEnd s = rev (dropWhile is_space (rev s))"

definition trim :: "string \<Rightarrow> string" where
  "trim s = trimEnd (trimStart s)"

text \<open>\<open>parts.join(sep)\<close> on an array of strings.\<close>

fun join :: "string \<Rightarrow> string list \<Rightarrow> string" where
  "join sep [] = []"
| "join sep [x] = x"
| "join sep (x # y # ys) = x @ sep @ join sep (y # ys)"

text \<open>\<open>text.matchAll(/\S+/g)\<close>: the maximal runs of non-space code units, each with the
  index where it starts. \<open>i\<close> is the index of the first code unit of \<open>s\<close> in the whole
  text.\<close>

function matchAll_nonspace :: "nat \<Rightarrow> string \<Rightarrow> (string \<times> nat) list" where
  "matchAll_nonspace i s =
     (let t = dropWhile is_space s in
      if t = [] then []
      else let m = takeWhile non_space t; start = i + (length s - length t)
           in (m, start) # matchAll_nonspace (start + length m) (dropWhile non_space t))"
  by pat_completeness auto
termination
proof (relation "measure (\<lambda>(i, s). length s)")
  show "wf (measure (\<lambda>(i, s). length s))" by simp
next
  fix i :: nat and s t :: string and m :: string and start :: nat
  assume t: "t = dropWhile is_space s" and ne: "t \<noteq> []"
  from ne obtain c cs where c: "t = c # cs" by (cases t) auto
  have "\<not> is_space c" using t c hd_dropWhile[of is_space s] by (metis list.sel(1) ne)
  then have "length (dropWhile non_space t) < length t"
    using c by (simp add: non_space_def length_dropWhile_le le_imp_less_Suc)
  moreover have "length t \<le> length s" using t by (simp add: length_dropWhile_le)
  ultimately show "((start + length m, dropWhile non_space t), (i, s)) \<in> measure (\<lambda>(i, s). length s)"
    by simp
qed

text \<open>\<open>s.split(sep)\<close> for a non-empty string \<open>sep\<close>: cut at every occurrence, found
  left to right without overlap. \<open>find_sep sep s\<close> is the text before the first
  occurrence and the text after it.\<close>

fun find_sep :: "string \<Rightarrow> string \<Rightarrow> (string \<times> string) option" where
  "find_sep sep [] = (if sep = [] then Some ([], []) else None)"
| "find_sep sep (c # cs) =
     (if take (length sep) (c # cs) = sep then Some ([], drop (length sep) (c # cs))
      else (case find_sep sep cs of
              None \<Rightarrow> None
            | Some (before, after) \<Rightarrow> Some (c # before, after)))"

function js_split :: "string \<Rightarrow> string \<Rightarrow> string list" where
  "js_split sep s =
     (if sep = [] then map (\<lambda>c. [c]) s
      else (case find_sep sep s of
              None \<Rightarrow> [s]
            | Some (before, after) \<Rightarrow> before # js_split sep after))"
  by pat_completeness auto
termination
proof (relation "measure (\<lambda>(sep, s). length s)")
  show "wf (measure (\<lambda>(sep, s). length s))" by simp
next
  fix sep s :: string and x2 before after
  assume sep: "sep \<noteq> []" and found: "find_sep sep s = Some x2" "(before, after) = x2"
  have shorter: "find_sep sep t = Some (b, a) \<Longrightarrow> length a < length t" for t b a
  proof (induction t arbitrary: b a)
    case Nil
    then show ?case using sep by simp
  next
    case (Cons c cs)
    show ?case
    proof (cases "take (length sep) (c # cs) = sep")
      case True
      then show ?thesis using Cons.prems sep by (cases sep) auto
    next
      case False
      then show ?thesis using Cons by (fastforce split: option.splits)
    qed
  qed
  from found have "find_sep sep s = Some (before, after)" by simp
  then show "((sep, after), (sep, s)) \<in> measure (\<lambda>(sep, s). length s)"
    using shorter by simp
qed

subsection \<open>Host numbers\<close>

text \<open>A host number: a finite value, \<open>NaN\<close>, \<open>Infinity\<close> or \<open>-Infinity\<close>.\<close>

datatype jsnum = Fin rat | NaN | PosInf | NegInf

definition num_of_nat :: "nat \<Rightarrow> jsnum" where
  "num_of_nat n = Fin (of_nat n)"

definition num_of_int :: "int \<Rightarrow> jsnum" where
  "num_of_int n = Fin (of_int n)"

fun num_neg :: "jsnum \<Rightarrow> jsnum" where
  "num_neg (Fin a) = Fin (- a)"
| "num_neg NaN = NaN"
| "num_neg PosInf = NegInf"
| "num_neg NegInf = PosInf"

text \<open>\<open>a + b\<close>, \<open>a - b\<close>, \<open>a * b\<close>, \<open>a / b\<close> and \<open>a % b\<close> on numbers.\<close>

fun num_add :: "jsnum \<Rightarrow> jsnum \<Rightarrow> jsnum" where
  "num_add (Fin a) (Fin b) = Fin (a + b)"
| "num_add NaN b = NaN"
| "num_add a NaN = NaN"
| "num_add PosInf NegInf = NaN"
| "num_add NegInf PosInf = NaN"
| "num_add PosInf b = PosInf"
| "num_add NegInf b = NegInf"
| "num_add a PosInf = PosInf"
| "num_add a NegInf = NegInf"

definition num_sub :: "jsnum \<Rightarrow> jsnum \<Rightarrow> jsnum" where
  "num_sub a b = num_add a (num_neg b)"

text \<open>The sign of a number: 1, 0 or -1 (\<open>NaN\<close> has none and is handled before).\<close>

fun num_sign :: "jsnum \<Rightarrow> int" where
  "num_sign (Fin a) = (if a > 0 then 1 else if a < 0 then -1 else 0)"
| "num_sign NaN = 0"
| "num_sign PosInf = 1"
| "num_sign NegInf = -1"

definition inf_of_sign :: "int \<Rightarrow> jsnum" where
  "inf_of_sign s = (if s = 0 then NaN else if s > 0 then PosInf else NegInf)"

fun num_mul :: "jsnum \<Rightarrow> jsnum \<Rightarrow> jsnum" where
  "num_mul (Fin a) (Fin b) = Fin (a * b)"
| "num_mul NaN b = NaN"
| "num_mul a NaN = NaN"
| "num_mul a b = inf_of_sign (num_sign a * num_sign b)"

fun num_div :: "jsnum \<Rightarrow> jsnum \<Rightarrow> jsnum" where
  "num_div (Fin a) (Fin b) = (if b = 0 then inf_of_sign (num_sign (Fin a)) else Fin (a / b))"
| "num_div NaN b = NaN"
| "num_div a NaN = NaN"
| "num_div (Fin a) b = Fin 0"
| "num_div a (Fin b) = inf_of_sign (num_sign a * (if b < 0 then -1 else 1))"
| "num_div a b = NaN"

definition rat_trunc :: "rat \<Rightarrow> int" where
  "rat_trunc a = (if a \<ge> 0 then \<lfloor>a\<rfloor> else \<lceil>a\<rceil>)"

fun num_mod :: "jsnum \<Rightarrow> jsnum \<Rightarrow> jsnum" where
  "num_mod (Fin a) (Fin b) = (if b = 0 then NaN else Fin (a - b * of_int (rat_trunc (a / b))))"
| "num_mod (Fin a) PosInf = Fin a"
| "num_mod (Fin a) NegInf = Fin a"
| "num_mod a b = NaN"

text \<open>\<open>a < b\<close> and \<open>a <= b\<close>; a comparison with \<open>NaN\<close> is false.\<close>

fun num_lt :: "jsnum \<Rightarrow> jsnum \<Rightarrow> bool" where
  "num_lt (Fin a) (Fin b) = (a < b)"
| "num_lt NaN b = False"
| "num_lt a NaN = False"
| "num_lt a PosInf = (a \<noteq> PosInf)"
| "num_lt NegInf b = (b \<noteq> NegInf)"
| "num_lt a b = False"

text \<open>\<open>a === b\<close> on numbers.\<close>

definition num_eq :: "jsnum \<Rightarrow> jsnum \<Rightarrow> bool" where
  "num_eq a b = (a \<noteq> NaN \<and> a = b)"

definition num_le :: "jsnum \<Rightarrow> jsnum \<Rightarrow> bool" where
  "num_le a b = (num_lt a b \<or> num_eq a b)"

text \<open>\<open>!!a\<close> on a number.\<close>

definition num_truthy :: "jsnum \<Rightarrow> bool" where
  "num_truthy a = (a \<noteq> NaN \<and> a \<noteq> Fin 0)"

text \<open>\<open>Number.isInteger(a)\<close>, \<open>Math.floor(a)\<close>, \<open>Math.abs(a)\<close> and \<open>isNaN(a)\<close>.\<close>

fun num_isInteger :: "jsnum \<Rightarrow> bool" where
  "num_isInteger (Fin a) = (of_int \<lfloor>a\<rfloor> = a)"
| "num_isInteger a = False"

fun num_floor :: "jsnum \<Rightarrow> jsnum" where
  "num_floor (Fin a) = Fin (of_int \<lfloor>a\<rfloor>)"
| "num_floor a = a"

fun num_abs :: "jsnum \<Rightarrow> jsnum" where
  "num_abs (Fin a) = Fin \<bar>a\<bar>"
| "num_abs NaN = NaN"
| "num_abs a = PosInf"

text \<open>The host's conversion of a number to an index (\<open>ToIntegerOrInfinity\<close>): \<open>NaN\<close>
  is 0, a fraction is truncated; \<open>None\<close> stands for an infinity, whose sign the
  caller reads from the number.\<close>

fun num_toInteger :: "jsnum \<Rightarrow> int option" where
  "num_toInteger (Fin a) = Some (rat_trunc a)"
| "num_toInteger NaN = Some 0"
| "num_toInteger a = None"

text \<open>\<open>xs.at(n)\<close>: a negative index counts from the end; \<open>None\<close> is the host's
  \<open>undefined\<close> for an index out of range.\<close>

definition js_at :: "'a list \<Rightarrow> jsnum \<Rightarrow> 'a option" where
  "js_at xs n =
     (case num_toInteger n of
        None \<Rightarrow> None
      | Some k \<Rightarrow>
          (let j = (if k < 0 then int (length xs) + k else k)
           in if 0 \<le> j \<and> j < int (length xs) then Some (xs ! nat j) else None))"

text \<open>\<open>xs.splice(n)\<close>: removes the elements from index \<open>n\<close> on (counted from the end
  when negative) and returns them; the pair is what stays in \<open>xs\<close> and what is
  removed.\<close>

definition js_splice :: "'a list \<Rightarrow> jsnum \<Rightarrow> 'a list \<times> 'a list" where
  "js_splice xs n =
     (let len = int (length xs);
          k = (case num_toInteger n of
                 None \<Rightarrow> (if n = PosInf then len else 0)
               | Some k \<Rightarrow> (if k < 0 then max (len + k) 0 else min k len))
      in (take (nat k) xs, drop (nat k) xs))"

text \<open>Decimal digits of a natural number and of an integer, as \<open>String(n)\<close> prints
  an integer below \<open>10^21\<close> in absolute value.\<close>

fun nat_digits :: "nat \<Rightarrow> string" where
  "nat_digits n =
     (if n < 10 then [char_of (48 + n)] else nat_digits (n div 10) @ [char_of (48 + n mod 10)])"

definition int_digits :: "int \<Rightarrow> string" where
  "int_digits k = (if k < 0 then CHR ''-'' # nat_digits (nat (- k)) else nat_digits (nat k))"

subsection \<open>The syntax tree the evaluator consumes\<close>

text \<open>The node kinds of \<open>./ast\<close> with the fields the evaluator reads, in the order of
  the comments. \<open>OtherNode t\<close> is a node of any other type tag \<open>t\<close>.\<close>

datatype node =
    Program "node list"                                   \<comment> \<open>body\<close>
  | IfStatement node "node list" "node list"              \<comment> \<open>test, body, alternate\<close>
  | For node node "node list" "node list"                 \<comment> \<open>loopvar, iterable, body, defaultBlock\<close>
  | SetStatement node "node option" "node list"           \<comment> \<open>assignee, value, body\<close>
  | Macro string "node list" "node list"                  \<comment> \<open>name.value, args, body\<close>
  | CallStatement node "node list" "node list option" "node list"
                                                          \<comment> \<open>call.callee, call.args, callerArgs, body\<close>
  | FilterStatement node "node list"                      \<comment> \<open>filter, body\<close>
  | Break
  | Continue
  | Comment
  | IntegerLiteral jsnum
  | FloatLiteral jsnum
  | StringLiteral string
  | ArrayLiteral "node list"
  | TupleLiteral "node list"
  | ObjectLiteral "(node \<times> node) list"
  | Identifier string
  | MemberExpression node node bool                       \<comment> \<open>object, property, computed\<close>
  | CallExpression node "node list"                       \<comment> \<open>callee, args\<close>
  | BinaryExpression string node node                     \<comment> \<open>operator.value, left, right\<close>
  | UnaryExpression string node                           \<comment> \<open>operator.value, argument\<close>
  | FilterExpression node node                            \<comment> \<open>operand, filter\<close>
  | TestExpression node bool string                       \<comment> \<open>operand, negate, test.value\<close>
  | SelectExpression node node                            \<comment> \<open>lhs, test\<close>
  | Ternary node node node                                \<comment> \<open>condition, trueExpr, falseExpr\<close>
  | SliceExpression "node option" "node option" "node option"  \<comment> \<open>start, stop, step\<close>
  | KeywordArgumentExpression string node                 \<comment> \<open>key.value, value\<close>
  | SpreadExpression node                                 \<comment> \<open>argument\<close>
  | OtherNode string

text \<open>The \<open>type\<close> tag of a node.\<close>

fun node_type :: "node \<Rightarrow> string" where
  "node_type (Program _) = ''Program''"
| "node_type (IfStatement _ _ _) = ''If''"
| "node_type (For _ _ _ _) = ''For''"
| "node_type (SetStatement _ _ _) = ''Set''"
| "node_type (Macro _ _ _) = ''Macro''"
| "node_type (CallStatement _ _ _ _) = ''CallStatement''"
| "node_type (FilterStatement _ _) = ''FilterStatement''"
| "node_type Break = ''Break''"
| "node_type Continue = ''Continue''"
| "node_type Comment = ''Comment''"
| "node_type (IntegerLiteral _) = ''IntegerLiteral''"
| "node_type (FloatLiteral _) = ''FloatLiteral''"
| "node_type (StringLiteral _) = ''StringLiteral''"
| "node_type (ArrayLiteral _) = ''ArrayLiteral''"
| "node_type (TupleLiteral _) = ''TupleLiteral''"
| "node_type (ObjectLiteral _) = ''ObjectLiteral''"
| "node_type (Identifier _) = ''Identifier''"
| "node_type (MemberExpression _ _ _) = ''MemberExpression''"
| "node_type (CallExpression _ _) = ''CallExpression''"
| "node_type (BinaryExpression _ _ _) = ''BinaryExpression''"
| "node_type (UnaryExpression _ _) = ''UnaryExpression''"
| "node_type (FilterExpression _ _) = ''FilterExpression''"
| "node_type (TestExpression _ _ _) = ''TestExpression''"
| "node_type (SelectExpression _ _) = ''SelectExpression''"
| "node_type (Ternary _ _ _) = ''Ternary''"
| "node_type (SliceExpression _ _ _) = ''SliceExpression''"
| "node_type (KeywordArgumentExpression _ _) = ''KeywordArgumentExpression''"
| "node_type (SpreadExpression _) = ''SpreadExpression''"
| "node_type (OtherNode t) = t"

subsection \<open>Runtime values\<close>

text \<open>Functions the host passes in: the three of \<open>setupGlobals\<close> and the user's own,
  numbered.\<close>

datatype host_function = RaiseException | Range | StrftimeNow | UserFunction nat

text \<open>The payload of a \<open>FunctionValue\<close>: each closure the source creates, with what it
  captures. A macro's closure captures its node and no environment.\<close>

datatype func =
    MacroFunction string "node list" "node list"   \<comment> \<open>evaluateMacro: name, args, body of the node\<close>
  | CallerFunction "node list option" "node list"  \<comment> \<open>evaluateCallStatement: callerArgs, body\<close>
  | NamespaceFunction                              \<comment> \<open>the \<open>namespace\<close> of every Environment\<close>
  | StringBuiltin string string                    \<comment> \<open>a StringValue's text and the builtin's name\<close>
  | ObjectBuiltin nat string                       \<comment> \<open>an ObjectValue's map and the builtin's name\<close>
  | HostFunction host_function                     \<comment> \<open>convertToRuntimeValues on a function\<close>

text \<open>The classes of \<open>AnyRuntimeValue\<close>. An array or map payload is an address in the
  heap. \<open>HostUndefined\<close> is the host's \<open>undefined\<close>: not a runtime value, but what the
  source holds where it read a missing array element or map entry.\<close>

datatype runtime_value =
    IntegerValue jsnum
  | FloatValue jsnum
  | StringValue string
  | BooleanValue bool
  | ObjectValue nat
  | KeywordArgumentsValue nat
  | ArrayValue nat
  | TupleValue nat
  | FunctionValue func
  | NullValue
  | UndefinedValue
  | HostUndefined

datatype cell = ArrayCell "runtime_value list" | MapCell "(string \<times> runtime_value) list"

type_synonym heap = "cell list"

text \<open>Exceptions: the three error classes the source throws, the two the engine
  raises by itself (its message is the engine's; the model keeps a summary), and the
  two control signals.\<close>

datatype error =
    Error string
  | SyntaxError string
  | TypeError string
  | RangeError string
  | BreakControl
  | ContinueControl

definition undefined_access :: error where
  "undefined_access = TypeError ''Cannot read properties of undefined''"

definition stack_overflow :: error where
  "stack_overflow = RangeError ''Maximum call stack size exceeded''"

text \<open>The \<open>type\<close> field.\<close>

fun type_name :: "runtime_value \<Rightarrow> string" where
  "type_name (IntegerValue _) = ''IntegerValue''"
| "type_name (FloatValue _) = ''FloatValue''"
| "type_name (StringValue _) = ''StringValue''"
| "type_name (BooleanValue _) = ''BooleanValue''"
| "type_name (ObjectValue _) = ''ObjectValue''"
| "type_name (KeywordArgumentsValue _) = ''KeywordArgumentsValue''"
| "type_name (ArrayValue _) = ''ArrayValue''"
| "type_name (TupleValue _) = ''TupleValue''"
| "type_name (FunctionValue _) = ''FunctionValue''"
| "type_name NullValue = ''NullValue''"
| "type_name UndefinedValue = ''UndefinedValue''"
| "type_name HostUndefined = ''undefined''"

text \<open>Reading \<open>v.type\<close> or \<open>v.value\<close>: a \<open>TypeError\<close> when \<open>v\<close> is the host's
  \<open>undefined\<close>.\<close>

definition get_type :: "runtime_value \<Rightarrow> error + string" where
  "get_type v = (if v = HostUndefined then Inl undefined_access else Inr (type_name v))"

text \<open>\<open>v instanceof ArrayValue\<close> (a \<open>TupleValue\<close> is one) and \<open>v instanceof ObjectValue\<close>
  (a \<open>KeywordArgumentsValue\<close> is one), with the payload's address.\<close>

fun array_ref :: "runtime_value \<Rightarrow> nat option" where
  "array_ref (ArrayValue a) = Some a"
| "array_ref (TupleValue a) = Some a"
| "array_ref _ = None"

fun object_ref :: "runtime_value \<Rightarrow> nat option" where
  "object_ref (ObjectValue a) = Some a"
| "object_ref (KeywordArgumentsValue a) = Some a"
| "object_ref _ = None"

text \<open>\<open>v instanceof StringValue\<close>, \<open>v instanceof FloatValue\<close>, and a number of either
  class.\<close>

fun is_string :: "runtime_value \<Rightarrow> bool" where
  "is_string (StringValue _) = True"
| "is_string _ = False"

fun is_float :: "runtime_value \<Rightarrow> bool" where
  "is_float (FloatValue _) = True"
| "is_float _ = False"

fun is_numeric :: "runtime_value \<Rightarrow> bool" where
  "is_numeric (IntegerValue _) = True"
| "is_numeric (FloatValue _) = True"
| "is_numeric _ = False"

fun num_payload :: "runtime_value \<Rightarrow> jsnum" where
  "num_payload (IntegerValue n) = n"
| "num_payload (FloatValue n) = n"
| "num_payload _ = NaN"

subsection \<open>The heap\<close>

text \<open>An address is an index into the heap; allocation appends. An address that was
  never allocated reads as an empty array or map: the interpreter only holds
  addresses it allocated.\<close>

definition array_at :: "heap \<Rightarrow> nat \<Rightarrow> runtime_value list" where
  "array_at hp a =
     (if a < length hp then (case hp ! a of ArrayCell xs \<Rightarrow> xs | MapCell _ \<Rightarrow> []) else [])"

definition map_at :: "heap \<Rightarrow> nat \<Rightarrow> (string \<times> runtime_value) list" where
  "map_at hp a =
     (if a < length hp then (case hp ! a of MapCell m \<Rightarrow> m | ArrayCell _ \<Rightarrow> []) else [])"

definition alloc :: "cell \<Rightarrow> heap \<Rightarrow> nat \<times> heap" where
  "alloc c hp = (length hp, hp @ [c])"

definition new_array :: "runtime_value list \<Rightarrow> heap \<Rightarrow> runtime_value \<times> heap" where
  "new_array xs hp = (ArrayValue (length hp), hp @ [ArrayCell xs])"

definition new_object :: "(string \<times> runtime_value) list \<Rightarrow> heap \<Rightarrow> runtime_value \<times> heap" where
  "new_object m hp = (ObjectValue (length hp), hp @ [MapCell m])"

definition store :: "nat \<Rightarrow> cell \<Rightarrow> heap \<Rightarrow> heap" where
  "store a c hp = hp[a := c]"

text \<open>The host's \<open>Map\<close>, insertion-ordered: \<open>m.set(k, v)\<close> replaces in place or appends;
  \<open>m.get(k)\<close> is the host's \<open>undefined\<close> for a missing key; \<open>m.has(k)\<close>.\<close>

fun map_set :: "string \<Rightarrow> 'v \<Rightarrow> (string \<times> 'v) list \<Rightarrow> (string \<times> 'v) list" where
  "map_set k v [] = [(k, v)]"
| "map_set k v ((k', v') # m) = (if k' = k then (k, v) # m else (k', v') # map_set k v m)"

definition map_get :: "(string \<times> runtime_value) list \<Rightarrow> string \<Rightarrow> runtime_value" where
  "map_get m k = (case map_of m k of None \<Rightarrow> HostUndefined | Some v \<Rightarrow> v)"

definition map_has :: "(string \<times> 'v) list \<Rightarrow> string \<Rightarrow> bool" where
  "map_has m k = (map_of m k \<noteq> None)"

text \<open>\<open>new Map(entries)\<close>.\<close>

definition map_from_entries :: "(string \<times> 'v) list \<Rightarrow> (string \<times> 'v) list" where
  "map_from_entries es = foldl (\<lambda>m (k, v). map_set k v m) [] es"

text \<open>\<open>a ?? b\<close>: \<open>b\<close> when \<open>a\<close> is the host's \<open>undefined\<close>.\<close>

definition nullish_or :: "runtime_value \<Rightarrow> runtime_value \<Rightarrow> runtime_value" where
  "nullish_or a b = (if a = HostUndefined then b else a)"

text \<open>\<open>xs[i]\<close> on a host array.\<close>

definition js_index :: "runtime_value list \<Rightarrow> nat \<Rightarrow> runtime_value" where
  "js_index xs i = (if i < length xs then xs ! i else HostUndefined)"

subsection \<open>Environments\<close>

text \<open>A frame is the \<open>variables\<close> map of one \<open>Environment\<close>; an environment is its frame
  followed by its parent's chain. Every \<open>Environment\<close> is born with \<open>namespace\<close> bound.
  The empty chain reads as an environment with no binding and no parent.\<close>

type_synonym frame = "(string \<times> runtime_value) list"

type_synonym env = "frame list"

definition new_frame :: frame where
  "new_frame = [(''namespace'', FunctionValue NamespaceFunction)]"

text \<open>\<open>new Environment(parent)\<close>.\<close>

definition new_Environment :: "env \<Rightarrow> env" where
  "new_Environment parent = new_frame # parent"

text \<open>\<open>setVariable\<close> writes the current frame and does not walk the chain.\<close>

fun setVariable :: "string \<Rightarrow> runtime_value \<Rightarrow> env \<Rightarrow> env" where
  "setVariable name v [] = [[(name, v)]]"
| "setVariable name v (f # parents) = map_set name v f # parents"

text \<open>\<open>declareVariable\<close> refuses a name the current frame already has.\<close>

fun declareVariable :: "string \<Rightarrow> runtime_value \<Rightarrow> env \<Rightarrow> error + env" where
  "declareVariable name v [] = Inr [[(name, v)]]"
| "declareVariable name v (f # parents) =
     (if map_has f name then Inl (SyntaxError (''Variable already declared: '' @ name))
      else Inr (map_set name v f # parents))"

text \<open>\<open>resolve\<close>: the nearest environment of the chain that has the name, or the
  \<open>Unknown variable\<close> error.\<close>

fun resolve :: "string \<Rightarrow> env \<Rightarrow> error + env" where
  "resolve name [] = Inl (Error (''Unknown variable: '' @ name))"
| "resolve name (f # parents) =
     (if map_has f name then Inr (f # parents) else resolve name parents)"

text \<open>\<open>lookupVariable\<close> catches that error.\<close>

definition lookupVariable :: "string \<Rightarrow> env \<Rightarrow> runtime_value" where
  "lookupVariable name e =
     (case resolve name e of
        Inl _ \<Rightarrow> UndefinedValue
      | Inr [] \<Rightarrow> UndefinedValue
      | Inr (f # _) \<Rightarrow> nullish_or (map_get f name) UndefinedValue)"

subsection \<open>Results\<close>

text \<open>What a call returns: the value or the exception thrown, with the environment
  and the heap as the call left them.\<close>

type_synonym 'a res = "(error + 'a) \<times> env \<times> heap"

definition ok :: "'a \<Rightarrow> env \<Rightarrow> heap \<Rightarrow> 'a res" where
  "ok a e hp = (Inr a, e, hp)"

definition throw :: "error \<Rightarrow> env \<Rightarrow> heap \<Rightarrow> 'a res" where
  "throw err e hp = (Inl err, e, hp)"

text \<open>Sequencing: an exception skips the rest.\<close>

definition bind :: "'a res \<Rightarrow> ('a \<Rightarrow> env \<Rightarrow> heap \<Rightarrow> 'b res) \<Rightarrow> 'b res" where
  "bind r f = (case r of (Inl err, e, hp) \<Rightarrow> (Inl err, e, hp) | (Inr a, e, hp) \<Rightarrow> f a e hp)"

text \<open>A computation that cannot touch the state, run inside one that can.\<close>

definition lift :: "error + 'a \<Rightarrow> env \<Rightarrow> heap \<Rightarrow> 'a res" where
  "lift r e hp = (r, e, hp)"

text \<open>The first exception of a list of outcomes, or all the values.\<close>

fun sequence :: "(error + 'a) list \<Rightarrow> error + 'a list" where
  "sequence [] = Inr []"
| "sequence (Inl err # rs) = Inl err"
| "sequence (Inr a # rs) = (case sequence rs of Inl err \<Rightarrow> Inl err | Inr as \<Rightarrow> Inr (a # as))"

subsection \<open>The converter\<close>

text \<open>Host values as \<open>convertToRuntimeValues\<close> sees them: by \<open>typeof\<close>. It has no case
  for a bigint and a symbol. \<open>HOther\<close> is a bigint, carrying its rendering in the message
  of the error; for a symbol the host cannot build that message, and the template
  literal throws a \<open>TypeError\<close> of its own.\<close>

datatype hostval =
    HNumber jsnum
  | HString string
  | HBoolean bool
  | HUndefined
  | HNull
  | HArray "hostval list"
  | HObject "(string \<times> hostval) list"
  | HFunction host_function
  | HOther string
  | HSymbol

fun convertToRuntimeValues :: "hostval \<Rightarrow> heap \<Rightarrow> (error + runtime_value) \<times> heap"
  and convert_all :: "hostval list \<Rightarrow> heap \<Rightarrow> (error + runtime_value list) \<times> heap"
  and convert_entries ::
    "(string \<times> hostval) list \<Rightarrow> heap \<Rightarrow> (error + (string \<times> runtime_value) list) \<times> heap"
where
  "convertToRuntimeValues (HNumber n) hp =
     (Inr (if num_isInteger n then IntegerValue n else FloatValue n), hp)"
| "convertToRuntimeValues (HString s) hp = (Inr (StringValue s), hp)"
| "convertToRuntimeValues (HBoolean b) hp = (Inr (BooleanValue b), hp)"
| "convertToRuntimeValues HUndefined hp = (Inr UndefinedValue, hp)"
| "convertToRuntimeValues HNull hp = (Inr NullValue, hp)"
| "convertToRuntimeValues (HArray xs) hp =
     (case convert_all xs hp of
        (Inl err, hp') \<Rightarrow> (Inl err, hp')
      | (Inr vs, hp') \<Rightarrow> (case new_array vs hp' of (v, hp'') \<Rightarrow> (Inr v, hp'')))"
| "convertToRuntimeValues (HObject es) hp =
     (case convert_entries es hp of
        (Inl err, hp') \<Rightarrow> (Inl err, hp')
      | (Inr m, hp') \<Rightarrow> (case new_object (map_from_entries m) hp' of (v, hp'') \<Rightarrow> (Inr v, hp'')))"
| "convertToRuntimeValues (HFunction f) hp = (Inr (FunctionValue (HostFunction f)), hp)"
| "convertToRuntimeValues (HOther s) hp =
     (Inl (Error (''Cannot convert to runtime value: '' @ s)), hp)"
| "convertToRuntimeValues HSymbol hp =
     (Inl (TypeError ''Cannot convert a Symbol value to a string''), hp)"
| "convert_all [] hp = (Inr [], hp)"
| "convert_all (x # xs) hp =
     (case convertToRuntimeValues x hp of
        (Inl err, hp') \<Rightarrow> (Inl err, hp')
      | (Inr v, hp') \<Rightarrow>
          (case convert_all xs hp' of
             (Inl err, hp'') \<Rightarrow> (Inl err, hp'')
           | (Inr vs, hp'') \<Rightarrow> (Inr (v # vs), hp'')))"
| "convert_entries [] hp = (Inr [], hp)"
| "convert_entries ((k, x) # es) hp =
     (case convertToRuntimeValues x hp of
        (Inl err, hp') \<Rightarrow> (Inl err, hp')
      | (Inr v, hp') \<Rightarrow>
          (case convert_entries es hp' of
             (Inl err, hp'') \<Rightarrow> (Inl err, hp'')
           | (Inr m, hp'') \<Rightarrow> (Inr ((k, v) # m), hp'')))"

text \<open>\<open>Environment.set\<close>: the argument is converted first, then declared.\<close>

definition Environment_set :: "string \<Rightarrow> hostval \<Rightarrow> env \<Rightarrow> heap \<Rightarrow> runtime_value res" where
  "Environment_set name x e hp =
     (case convertToRuntimeValues x hp of
        (Inl err, hp') \<Rightarrow> (Inl err, e, hp')
      | (Inr v, hp') \<Rightarrow>
          (case declareVariable name v e of
             Inl err \<Rightarrow> (Inl err, e, hp')
           | Inr e' \<Rightarrow> (Inr v, e', hp')))"

subsection \<open>The \<open>split\<close> builtin of a string\<close>

text \<open>The loop over \<open>text.matchAll(/\S+/g)\<close> when \<open>sep\<close> is null: \<open>result\<close> is the array
  built so far.\<close>

fun split_loop :: "string \<Rightarrow> jsnum \<Rightarrow> (string \<times> nat) list \<Rightarrow> string list \<Rightarrow> string list" where
  "split_loop text maxsplit [] result = result"
| "split_loop text maxsplit ((m, index) # ms) result =
     (if \<not> num_eq maxsplit (num_of_int (- 1)) \<and> num_le maxsplit (num_of_nat (length result))
      then result @ [m @ drop (index + length m) text]
      else split_loop text maxsplit ms (result @ [m]))"

definition split_whitespace :: "string \<Rightarrow> jsnum \<Rightarrow> string list" where
  "split_whitespace v maxsplit =
     (let text = trimStart v in split_loop text maxsplit (matchAll_nonspace 0 text) [])"

text \<open>The branch for a string \<open>sep\<close>, after the check for the empty separator.\<close>

definition split_separator :: "string \<Rightarrow> string \<Rightarrow> jsnum \<Rightarrow> string list" where
  "split_separator v sep maxsplit =
     (let result = js_split sep v in
      if \<not> num_eq maxsplit (num_of_int (- 1)) \<and> num_lt maxsplit (num_of_nat (length result))
      then (case js_splice result maxsplit of (kept, removed) \<Rightarrow> kept @ [join sep removed])
      else result)"

definition string_split :: "string \<Rightarrow> runtime_value list \<Rightarrow> heap \<Rightarrow> (error + runtime_value) \<times> heap" where
  "string_split v args hp =
     (let sep = nullish_or (js_index args 0) NullValue in
      if \<not> (is_string sep \<or> sep = NullValue)
      then (Inl (Error ''sep argument must be a string or null''), hp)
      else
        let maxsplit = nullish_or (js_index args 1) (IntegerValue (num_of_int (- 1))) in
        (case maxsplit of
           IntegerValue n \<Rightarrow>
             (case sep of
                StringValue s \<Rightarrow>
                  if s = [] then (Inl (Error ''empty separator''), hp)
                  else (case new_array (map StringValue (split_separator v s n)) hp of
                          (r, hp') \<Rightarrow> (Inr r, hp'))
              | _ \<Rightarrow>
                  (case new_array (map StringValue (split_whitespace v n)) hp of
                     (r, hp') \<Rightarrow> (Inr r, hp')))
         | _ \<Rightarrow> (Inl (Error ''maxsplit argument must be a number''), hp)))"

subsection \<open>What the host provides\<close>

text \<open>The payload \<open>v.value\<close> of a runtime value, as the host sees it: a number, a
  string, a boolean, \<open>undefined\<close> (the payload of both \<open>NullValue\<close> and
  \<open>UndefinedValue\<close>, which are constructed without an argument), or a reference to an
  array, a map or a function. Two closures are compared by what they capture.\<close>

datatype payload =
    PNumber jsnum
  | PString string
  | PBoolean bool
  | PUndefined
  | PArray nat
  | PMap nat
  | PFunction func

fun payload_of :: "runtime_value \<Rightarrow> payload" where
  "payload_of (IntegerValue n) = PNumber n"
| "payload_of (FloatValue n) = PNumber n"
| "payload_of (StringValue s) = PString s"
| "payload_of (BooleanValue b) = PBoolean b"
| "payload_of (ObjectValue a) = PMap a"
| "payload_of (KeywordArgumentsValue a) = PMap a"
| "payload_of (ArrayValue a) = PArray a"
| "payload_of (TupleValue a) = PArray a"
| "payload_of (FunctionValue f) = PFunction f"
| "payload_of NullValue = PUndefined"
| "payload_of UndefinedValue = PUndefined"
| "payload_of HostUndefined = PUndefined"

text \<open>Reading \<open>v.value\<close>.\<close>

definition get_value :: "runtime_value \<Rightarrow> error + payload" where
  "get_value v = (if v = HostUndefined then Inl undefined_access else Inr (payload_of v))"

text \<open>The functions of the host library and of the \<open>utils\<close> module, which is not part
  of the sources at hand. \<open>h_numberToString\<close> prints a finite number that is not an
  integer below \<open>10^21\<close>; \<open>h_parseInt\<close> is \<open>parseInt(s, 10)\<close>; \<open>h_toNumber\<close> is the
  conversion \<open>==\<close> applies to a string; \<open>h_slice\<close> gives the indices \<open>slice\<close> selects from
  an array of the given length; \<open>h_call\<close> runs a function the host passed in on the
  payloads of its arguments.\<close>

record host =
  h_toUpperCase :: "string \<Rightarrow> string"
  h_toLowerCase :: "string \<Rightarrow> string"
  h_localeCompare :: "string \<Rightarrow> string \<Rightarrow> jsnum"
  h_parseInt :: "string \<Rightarrow> jsnum"
  h_parseFloat :: "string \<Rightarrow> jsnum"
  h_toNumber :: "string \<Rightarrow> jsnum"
  h_numberToString :: "rat \<Rightarrow> string"
  h_jsonString :: "string \<Rightarrow> string"
  h_jsonNode :: "node \<Rightarrow> string"
  h_functionSource :: "func \<Rightarrow> string"
  h_titleCase :: "string \<Rightarrow> string"
  h_replace :: "string \<Rightarrow> string \<Rightarrow> string \<Rightarrow> jsnum option \<Rightarrow> string"
  h_slice :: "nat \<Rightarrow> jsnum option \<Rightarrow> jsnum option \<Rightarrow> jsnum option \<Rightarrow> error + nat list"
  h_call :: "host_function \<Rightarrow> payload list \<Rightarrow> heap \<Rightarrow> error + hostval"

subsection \<open>Stringification and truthiness\<close>

text \<open>\<open>String(n)\<close> and \<open>n.toString()\<close> on a number.\<close>

fun num_toString :: "host \<Rightarrow> jsnum \<Rightarrow> string" where
  "num_toString h (Fin r) =
     (if of_int \<lfloor>r\<rfloor> = r \<and> \<bar>r\<bar> < 10 ^ 21 then int_digits \<lfloor>r\<rfloor> else h_numberToString h r)"
| "num_toString h NaN = ''NaN''"
| "num_toString h PosInf = ''Infinity''"
| "num_toString h NegInf = ''-Infinity''"

text \<open>\<open>FloatValue.toString\<close>: \<open>this.value % 1 === 0 ? this.value.toFixed(1) :
  this.value.toString()\<close>.\<close>

definition float_toString :: "host \<Rightarrow> jsnum \<Rightarrow> string" where
  "float_toString h n =
     (if num_eq (num_mod n (Fin 1)) (Fin 0)
      then (case n of
              Fin r \<Rightarrow> if \<bar>r\<bar> < 10 ^ 21 then int_digits \<lfloor>r\<rfloor> @ ''.0'' else h_numberToString h r
            | _ \<Rightarrow> num_toString h n)
      else num_toString h n)"

definition bool_toString :: "bool \<Rightarrow> string" where
  "bool_toString b = (if b then ''true'' else ''false'')"

text \<open>\<open>xs.join(sep)\<close> on a host array whose elements are stringified by \<open>f\<close>: an
  \<open>undefined\<close> element gives the empty string.\<close>

definition join_with ::
  "(runtime_value \<Rightarrow> error + string) \<Rightarrow> string \<Rightarrow> runtime_value list \<Rightarrow> error + string" where
  "join_with f sep xs =
     (case sequence (map (\<lambda>x. if x = HostUndefined then Inr [] else f x) xs) of
        Inl err \<Rightarrow> Inl err
      | Inr parts \<Rightarrow> Inr (join sep parts))"

text \<open>\<open>RuntimeValue.toString\<close>, that is \<open>String(this.value)\<close>, with the override of
  \<open>FloatValue\<close>. An array prints its elements' \<open>toString()\<close> joined by commas; \<open>k\<close>
  bounds the nesting that is followed.\<close>

primrec value_toString :: "host \<Rightarrow> heap \<Rightarrow> nat \<Rightarrow> runtime_value \<Rightarrow> error + string" where
  "value_toString h hp 0 v = Inl stack_overflow"
| "value_toString h hp (Suc k) v =
     (case v of
        IntegerValue n \<Rightarrow> Inr (num_toString h n)
      | FloatValue n \<Rightarrow> Inr (float_toString h n)
      | StringValue s \<Rightarrow> Inr s
      | BooleanValue b \<Rightarrow> Inr (bool_toString b)
      | ObjectValue a \<Rightarrow> Inr ''[object Map]''
      | KeywordArgumentsValue a \<Rightarrow> Inr ''[object Map]''
      | ArrayValue a \<Rightarrow> join_with (value_toString h hp k) '','' (array_at hp a)
      | TupleValue a \<Rightarrow> join_with (value_toString h hp k) '','' (array_at hp a)
      | FunctionValue f \<Rightarrow> Inr (h_functionSource h f)
      | NullValue \<Rightarrow> Inr ''undefined''
      | UndefinedValue \<Rightarrow> Inr ''undefined''
      | HostUndefined \<Rightarrow> Inl undefined_access)"

text \<open>Nesting deeper than the heap has cells is a cycle, on which the host overflows
  its stack.\<close>

definition toString :: "host \<Rightarrow> heap \<Rightarrow> runtime_value \<Rightarrow> error + string" where
  "toString h hp v = value_toString h hp (Suc (length hp)) v"

text \<open>\<open>v.value.toString()\<close>: as above, but a float prints as a number does and
  \<open>undefined\<close> has no method.\<close>

definition payload_toString :: "host \<Rightarrow> heap \<Rightarrow> runtime_value \<Rightarrow> error + string" where
  "payload_toString h hp v =
     (case v of
        FloatValue n \<Rightarrow> Inr (num_toString h n)
      | NullValue \<Rightarrow> Inl undefined_access
      | UndefinedValue \<Rightarrow> Inl undefined_access
      | _ \<Rightarrow> toString h hp v)"

text \<open>An element of \<open>xs.map((x) => x.value).join(sep)\<close>: an \<open>undefined\<close> payload gives the
  empty string.\<close>

definition payload_joined :: "host \<Rightarrow> heap \<Rightarrow> runtime_value \<Rightarrow> error + string" where
  "payload_joined h hp v =
     (case v of
        NullValue \<Rightarrow> Inr []
      | UndefinedValue \<Rightarrow> Inr []
      | _ \<Rightarrow> payload_toString h hp v)"

text \<open>\<open>v.__bool__().value\<close>: the base class tests the payload with \<open>!!\<close>; arrays and
  objects override it with "non-empty".\<close>

fun truthy :: "heap \<Rightarrow> runtime_value \<Rightarrow> bool" where
  "truthy hp (IntegerValue n) = num_truthy n"
| "truthy hp (FloatValue n) = num_truthy n"
| "truthy hp (StringValue s) = (s \<noteq> [])"
| "truthy hp (BooleanValue b) = b"
| "truthy hp (ObjectValue a) = (map_at hp a \<noteq> [])"
| "truthy hp (KeywordArgumentsValue a) = (map_at hp a \<noteq> [])"
| "truthy hp (ArrayValue a) = (array_at hp a \<noteq> [])"
| "truthy hp (TupleValue a) = (array_at hp a \<noteq> [])"
| "truthy hp (FunctionValue f) = True"
| "truthy hp NullValue = False"
| "truthy hp UndefinedValue = False"
| "truthy hp HostUndefined = False"

definition to_bool :: "heap \<Rightarrow> runtime_value \<Rightarrow> error + bool" where
  "to_bool hp v = (if v = HostUndefined then Inl undefined_access else Inr (truthy hp v))"

text \<open>\<open>!!v.value\<close>: the host's own truthiness of the payload, under which every array and
  map is true.\<close>

fun payload_truthy :: "payload \<Rightarrow> bool" where
  "payload_truthy (PNumber n) = num_truthy n"
| "payload_truthy (PString s) = (s \<noteq> [])"
| "payload_truthy (PBoolean b) = b"
| "payload_truthy PUndefined = False"
| "payload_truthy (PArray a) = True"
| "payload_truthy (PMap a) = True"
| "payload_truthy (PFunction f) = True"

subsection \<open>Equality of payloads\<close>

text \<open>\<open>a === b\<close>; the \<open>SameValueZero\<close> of a host \<open>Set\<close>; and \<open>a == b\<close>, which first turns a
  boolean into a number and, against a primitive, an array, map or function into its
  string.\<close>

definition strict_eq :: "payload \<Rightarrow> payload \<Rightarrow> bool" where
  "strict_eq p q = (case (p, q) of (PNumber a, PNumber b) \<Rightarrow> num_eq a b | _ \<Rightarrow> p = q)"

definition same_value_zero :: "payload \<Rightarrow> payload \<Rightarrow> bool" where
  "same_value_zero p q = (p = q)"

fun is_reference :: "payload \<Rightarrow> bool" where
  "is_reference (PArray a) = True"
| "is_reference (PMap a) = True"
| "is_reference (PFunction f) = True"
| "is_reference _ = False"

definition to_primitive :: "host \<Rightarrow> heap \<Rightarrow> payload \<Rightarrow> error + payload" where
  "to_primitive h hp p =
     (case p of
        PBoolean b \<Rightarrow> Inr (PNumber (Fin (if b then 1 else 0)))
      | PArray a \<Rightarrow> (case toString h hp (ArrayValue a) of
                       Inl err \<Rightarrow> Inl err | Inr s \<Rightarrow> Inr (PString s))
      | PMap a \<Rightarrow> Inr (PString ''[object Map]'')
      | PFunction f \<Rightarrow> Inr (PString (h_functionSource h f))
      | _ \<Rightarrow> Inr p)"

definition loose_eq :: "host \<Rightarrow> heap \<Rightarrow> payload \<Rightarrow> payload \<Rightarrow> error + bool" where
  "loose_eq h hp p q =
     (if is_reference p \<and> is_reference q then Inr (p = q)
      else if p = PUndefined \<or> q = PUndefined then Inr (p = q)
      else (case to_primitive h hp p of
              Inl err \<Rightarrow> Inl err
            | Inr p' \<Rightarrow>
                (case to_primitive h hp q of
                   Inl err \<Rightarrow> Inl err
                 | Inr q' \<Rightarrow>
                     Inr (case (p', q') of
                            (PNumber a, PNumber b) \<Rightarrow> num_eq a b
                          | (PString s, PString t) \<Rightarrow> s = t
                          | (PNumber a, PString t) \<Rightarrow> num_eq a (h_toNumber h t)
                          | (PString s, PNumber b) \<Rightarrow> num_eq (h_toNumber h s) b
                          | _ \<Rightarrow> False))))"

subsection \<open>The JSON serializer\<close>

text \<open>\<open>s.repeat(n)\<close>: a \<open>RangeError\<close> for a negative or infinite count.\<close>

definition js_repeat :: "string \<Rightarrow> jsnum \<Rightarrow> error + string" where
  "js_repeat s n =
     (case num_toInteger n of
        None \<Rightarrow> Inl (RangeError ''Invalid count value'')
      | Some k \<Rightarrow> if k < 0 then Inl (RangeError ''Invalid count value'')
                  else Inr (concat (replicate (nat k) s)))"

text \<open>\<open>JSON.stringify\<close> on a number: \<open>null\<close> for \<open>NaN\<close> and the infinities.\<close>

definition json_number :: "host \<Rightarrow> jsnum \<Rightarrow> string" where
  "json_number h n = (case n of Fin r \<Rightarrow> num_toString h n | _ \<Rightarrow> ''null'')"

text \<open>\<open>toJSON(input, indent, depth)\<close>; \<open>indent\<close> is \<open>None\<close> for null or undefined. \<open>k\<close>
  bounds the recursion as in \<open>value_toString\<close>.\<close>

primrec toJSON_rec ::
  "host \<Rightarrow> heap \<Rightarrow> nat \<Rightarrow> runtime_value \<Rightarrow> jsnum option \<Rightarrow> nat \<Rightarrow> error + string" where
  "toJSON_rec h hp 0 input indent currentDepth = Inl stack_overflow"
| "toJSON_rec h hp (Suc k) input indent currentDepth =
     (let indented = (case indent of None \<Rightarrow> False | Some n \<Rightarrow> num_truthy n);
          container = (\<lambda>render.
            (case (if indented then js_repeat '' '' (the indent) else Inr []) of
               Inl err \<Rightarrow> Inl err
             | Inr indentValue \<Rightarrow>
                 render (CHR 0x0A # concat (replicate currentDepth indentValue))
                        (CHR 0x0A # concat (replicate currentDepth indentValue) @ indentValue)))
      in case input of
        NullValue \<Rightarrow> Inr ''null''
      | UndefinedValue \<Rightarrow> Inr ''null''
      | IntegerValue n \<Rightarrow> Inr (json_number h n)
      | FloatValue n \<Rightarrow> Inr (json_number h n)
      | StringValue s \<Rightarrow> Inr (h_jsonString h s)
      | BooleanValue b \<Rightarrow> Inr (bool_toString b)
      | ArrayValue a \<Rightarrow>
          container (\<lambda>basePadding childrenPadding.
            case sequence (map (\<lambda>x. toJSON_rec h hp k x indent (currentDepth + 1)) (array_at hp a)) of
              Inl err \<Rightarrow> Inl err
            | Inr core \<Rightarrow>
                Inr (if indented
                     then ''['' @ childrenPadding @ join ('','' @ childrenPadding) core
                          @ basePadding @ '']''
                     else ''['' @ join '', '' core @ '']''))
      | ObjectValue a \<Rightarrow>
          container (\<lambda>basePadding childrenPadding.
            case sequence (map (\<lambda>(key, x).
                     case toJSON_rec h hp k x indent (currentDepth + 1) of
                       Inl err \<Rightarrow> Inl err
                     | Inr j \<Rightarrow>
                         (let v = [CHR 0x22] @ key @ [CHR 0x22] @ '': '' @ j
                          in Inr (if indented then childrenPadding @ v else v)))
                   (map_at hp a)) of
              Inl err \<Rightarrow> Inl err
            | Inr core \<Rightarrow>
                Inr (if indented then ''{'' @ join '','' core @ basePadding @ ''}''
                     else ''{'' @ join '', '' core @ ''}''))
      | HostUndefined \<Rightarrow> Inl undefined_access
      | _ \<Rightarrow> Inl (Error (''Cannot convert to JSON: '' @ type_name input)))"

definition toJSON :: "host \<Rightarrow> heap \<Rightarrow> runtime_value \<Rightarrow> jsnum option \<Rightarrow> error + string" where
  "toJSON h hp input indent = toJSON_rec h hp (Suc (length hp)) input indent 0"

subsection \<open>The test registry\<close>

text \<open>\<open>environment.tests.get(name)\<close>: each test takes the array of its arguments; a missing
  argument is the host's \<open>undefined\<close>.\<close>

definition is_type :: "runtime_value \<Rightarrow> string \<Rightarrow> error + bool" where
  "is_type v t = (case get_type v of Inl err \<Rightarrow> Inl err | Inr t' \<Rightarrow> Inr (t' = t))"

definition test_parity :: "string \<Rightarrow> bool \<Rightarrow> runtime_value \<Rightarrow> error + bool" where
  "test_parity name want_odd operand =
     (case operand of
        IntegerValue n \<Rightarrow>
          Inr (if want_odd then \<not> num_eq (num_mod n (Fin 2)) (Fin 0)
               else num_eq (num_mod n (Fin 2)) (Fin 0))
      | _ \<Rightarrow> (case get_type operand of
                Inl err \<Rightarrow> Inl err
              | Inr t \<Rightarrow> Inl (Error (''cannot '' @ name @ '' on '' @ t))))"

definition test_case :: "(string \<Rightarrow> string) \<Rightarrow> runtime_value \<Rightarrow> error + bool" where
  "test_case convert operand =
     (case operand of
        HostUndefined \<Rightarrow> Inl undefined_access
      | StringValue s \<Rightarrow> Inr (s = convert s)
      | _ \<Rightarrow> Inr False)"

definition test_equalto :: "runtime_value \<Rightarrow> runtime_value \<Rightarrow> error + bool" where
  "test_equalto a b =
     (case get_value a of
        Inl err \<Rightarrow> Inl err
      | Inr p \<Rightarrow> (case get_value b of Inl err \<Rightarrow> Inl err | Inr q \<Rightarrow> Inr (strict_eq p q)))"

definition tests_get :: "host \<Rightarrow> string \<Rightarrow> (runtime_value list \<Rightarrow> error + bool) option" where
  "tests_get h name =
     (if name = ''boolean'' then Some (\<lambda>args. is_type (js_index args 0) ''BooleanValue'')
      else if name = ''callable''
        then Some (\<lambda>args. Inr (case js_index args 0 of FunctionValue f \<Rightarrow> True | _ \<Rightarrow> False))
      else if name = ''odd'' then Some (\<lambda>args. test_parity ''odd'' True (js_index args 0))
      else if name = ''even'' then Some (\<lambda>args. test_parity ''even'' False (js_index args 0))
      else if name = ''false''
        then Some (\<lambda>args. case js_index args 0 of
                            HostUndefined \<Rightarrow> Inl undefined_access
                          | BooleanValue b \<Rightarrow> Inr (\<not> b)
                          | _ \<Rightarrow> Inr False)
      else if name = ''true''
        then Some (\<lambda>args. case js_index args 0 of
                            HostUndefined \<Rightarrow> Inl undefined_access
                          | BooleanValue b \<Rightarrow> Inr b
                          | _ \<Rightarrow> Inr False)
      else if name = ''none'' then Some (\<lambda>args. is_type (js_index args 0) ''NullValue'')
      else if name = ''string'' then Some (\<lambda>args. is_type (js_index args 0) ''StringValue'')
      else if name = ''number'' then Some (\<lambda>args. Inr (is_numeric (js_index args 0)))
      else if name = ''integer''
        then Some (\<lambda>args. Inr (case js_index args 0 of IntegerValue n \<Rightarrow> True | _ \<Rightarrow> False))
      else if name = ''iterable''
        then Some (\<lambda>args. case get_type (js_index args 0) of
                            Inl err \<Rightarrow> Inl err
                          | Inr t \<Rightarrow> Inr (t = ''ArrayValue'' \<or> t = ''StringValue''))
      else if name = ''mapping'' then Some (\<lambda>args. is_type (js_index args 0) ''ObjectValue'')
      else if name = ''lower'' then Some (\<lambda>args. test_case (h_toLowerCase h) (js_index args 0))
      else if name = ''upper'' then Some (\<lambda>args. test_case (h_toUpperCase h) (js_index args 0))
      else if name = ''defined''
        then Some (\<lambda>args. case get_type (js_index args 0) of
                            Inl err \<Rightarrow> Inl err
                          | Inr t \<Rightarrow> Inr (t \<noteq> ''UndefinedValue''))
      else if name = ''undefined''
        then Some (\<lambda>args. is_type (js_index args 0) ''UndefinedValue'')
      else if name = ''equalto'' \<or> name = ''eq''
        then Some (\<lambda>args. test_equalto (js_index args 0) (js_index args 1))
      else None)"

subsection \<open>Built-in members\<close>

text \<open>\<open>s.startsWith(p)\<close> and \<open>s.endsWith(p)\<close>.\<close>

definition startsWith :: "string \<Rightarrow> string \<Rightarrow> bool" where
  "startsWith s p = (take (length p) s = p)"

definition endsWith :: "string \<Rightarrow> string \<Rightarrow> bool" where
  "endsWith s p = (length p \<le> length s \<and> drop (length s - length p) s = p)"

text \<open>The loop of \<open>startswith\<close> and \<open>endswith\<close> over the elements of a tuple: it throws at
  an element that is not a string unless a match came first.\<close>

fun any_affix :: "string \<Rightarrow> (string \<Rightarrow> bool) \<Rightarrow> runtime_value list \<Rightarrow> error + bool" where
  "any_affix name matches [] = Inr False"
| "any_affix name matches (item # items) =
     (case item of
        StringValue p \<Rightarrow> if matches p then Inr True else any_affix name matches items
      | _ \<Rightarrow> Inl (Error (name @ ''() tuple elements must be strings'')))"

definition string_affix ::
  "string \<Rightarrow> (string \<Rightarrow> bool) \<Rightarrow> runtime_value list \<Rightarrow> heap \<Rightarrow> error + runtime_value" where
  "string_affix name matches args hp =
     (if args = [] then Inl (Error (name @ ''() requires at least one argument''))
      else (case hd args of
              StringValue p \<Rightarrow> Inr (BooleanValue (matches p))
            | ArrayValue a \<Rightarrow> map_sum id BooleanValue (any_affix name matches (array_at hp a))
            | TupleValue a \<Rightarrow> map_sum id BooleanValue (any_affix name matches (array_at hp a))
            | _ \<Rightarrow> Inl (Error (name @ ''() argument must be a string or tuple of strings''))))"

text \<open>The \<open>replace\<close> builtin: the count is the third argument, or the \<open>count\<close> entry of a
  trailing \<open>KeywordArgumentsValue\<close>.\<close>

definition string_replace ::
  "host \<Rightarrow> string \<Rightarrow> runtime_value list \<Rightarrow> heap \<Rightarrow> error + runtime_value" where
  "string_replace h v args hp =
     (if length args < 2 then Inl (Error ''replace() requires at least two arguments'')
      else (case (args ! 0, args ! 1) of
              (StringValue oldValue, StringValue newValue) \<Rightarrow>
                (case (if length args > 2
                       then (case args ! 2 of
                               HostUndefined \<Rightarrow> Inl undefined_access
                             | KeywordArgumentsValue a \<Rightarrow>
                                 Inr (nullish_or (map_get (map_at hp a) ''count'') NullValue)
                             | c \<Rightarrow> Inr c)
                       else Inr NullValue) of
                   Inl err \<Rightarrow> Inl err
                 | Inr (IntegerValue n) \<Rightarrow> Inr (StringValue (h_replace h v oldValue newValue (Some n)))
                 | Inr NullValue \<Rightarrow> Inr (StringValue (h_replace h v oldValue newValue None))
                 | Inr _ \<Rightarrow> Inl (Error ''replace() count argument must be a number or null''))
            | _ \<Rightarrow> Inl (Error ''replace() arguments must be strings'')))"

text \<open>Calling the function stored under \<open>name\<close> in the \<open>builtins\<close> of the \<open>StringValue\<close> with
  text \<open>v\<close>.\<close>

definition string_builtin ::
  "host \<Rightarrow> string \<Rightarrow> string \<Rightarrow> runtime_value list \<Rightarrow> heap \<Rightarrow> (error + runtime_value) \<times> heap" where
  "string_builtin h v name args hp =
     (if name = ''upper'' then (Inr (StringValue (h_toUpperCase h v)), hp)
      else if name = ''lower'' then (Inr (StringValue (h_toLowerCase h v)), hp)
      else if name = ''strip'' then (Inr (StringValue (trim v)), hp)
      else if name = ''title'' then (Inr (StringValue (h_titleCase h v)), hp)
      else if name = ''capitalize''
        then (Inr (StringValue (h_toUpperCase h (take 1 v) @ drop 1 v)), hp)
      else if name = ''rstrip'' then (Inr (StringValue (trimEnd v)), hp)
      else if name = ''lstrip'' then (Inr (StringValue (trimStart v)), hp)
      else if name = ''startswith'' then (string_affix ''startswith'' (startsWith v) args hp, hp)
      else if name = ''endswith'' then (string_affix ''endswith'' (endsWith v) args hp, hp)
      else if name = ''split'' then string_split v args hp
      else if name = ''replace'' then (string_replace h v args hp, hp)
      else (Inl (TypeError ''not a function''), hp))"

text \<open>\<open>ObjectValue.items\<close>, \<open>keys\<close> and \<open>values\<close>: fresh arrays; \<open>items\<close> makes one
  two-element array per entry first.\<close>

fun new_pairs ::
  "(string \<times> runtime_value) list \<Rightarrow> heap \<Rightarrow> runtime_value list \<times> heap" where
  "new_pairs [] hp = ([], hp)"
| "new_pairs ((k, v) # m) hp =
     (case new_array [StringValue k, v] hp of
        (pair, hp') \<Rightarrow> (case new_pairs m hp' of (pairs, hp'') \<Rightarrow> (pair # pairs, hp'')))"

definition object_items :: "nat \<Rightarrow> heap \<Rightarrow> runtime_value \<times> heap" where
  "object_items a hp = (case new_pairs (map_at hp a) hp of (pairs, hp') \<Rightarrow> new_array pairs hp')"

definition object_keys :: "nat \<Rightarrow> heap \<Rightarrow> runtime_value \<times> heap" where
  "object_keys a hp = new_array (map (\<lambda>(k, v). StringValue k) (map_at hp a)) hp"

definition object_values :: "nat \<Rightarrow> heap \<Rightarrow> runtime_value \<times> heap" where
  "object_values a hp = new_array (map snd (map_at hp a)) hp"

text \<open>Calling the function stored under \<open>name\<close> in the \<open>builtins\<close> of the \<open>ObjectValue\<close> whose
  map is at \<open>a\<close>.\<close>

definition object_builtin ::
  "nat \<Rightarrow> string \<Rightarrow> runtime_value list \<Rightarrow> heap \<Rightarrow> (error + runtime_value) \<times> heap" where
  "object_builtin a name args hp =
     (if name = ''get''
      then (case js_index args 0 of
              StringValue key \<Rightarrow>
                (Inr (nullish_or (map_get (map_at hp a) key)
                        (nullish_or (js_index args 1) NullValue)), hp)
            | HostUndefined \<Rightarrow> (Inl undefined_access, hp)
            | key \<Rightarrow> (Inl (Error (''Object key must be a string: got '' @ type_name key)), hp))
      else if name = ''items'' then (case object_items a hp of (r, hp') \<Rightarrow> (Inr r, hp'))
      else if name = ''keys'' then (case object_keys a hp of (r, hp') \<Rightarrow> (Inr r, hp'))
      else if name = ''values'' then (case object_values a hp of (r, hp') \<Rightarrow> (Inr r, hp'))
      else (Inl (TypeError ''not a function''), hp))"

text \<open>\<open>v.builtins.get(name)\<close>: the host's \<open>undefined\<close> when the table has no such entry.
  The \<open>length\<close> of an array is stored when the value is constructed; no code path changes
  the length of an array that a value holds, so reading it from the heap gives the same
  number.\<close>

definition builtins_get :: "heap \<Rightarrow> runtime_value \<Rightarrow> string \<Rightarrow> runtime_value" where
  "builtins_get hp v name =
     (case v of
        StringValue s \<Rightarrow>
          if name = ''length'' then IntegerValue (num_of_nat (length s))
          else if name \<in> set [''upper'', ''lower'', ''strip'', ''title'', ''capitalize'', ''rstrip'',
                               ''lstrip'', ''startswith'', ''endswith'', ''split'', ''replace'']
          then FunctionValue (StringBuiltin s name)
          else HostUndefined
      | ObjectValue a \<Rightarrow>
          if name \<in> set [''get'', ''items'', ''keys'', ''values'']
          then FunctionValue (ObjectBuiltin a name) else HostUndefined
      | KeywordArgumentsValue a \<Rightarrow>
          if name \<in> set [''get'', ''items'', ''keys'', ''values'']
          then FunctionValue (ObjectBuiltin a name) else HostUndefined
      | ArrayValue a \<Rightarrow>
          if name = ''length'' then IntegerValue (num_of_nat (length (array_at hp a)))
          else HostUndefined
      | TupleValue a \<Rightarrow>
          if name = ''length'' then IntegerValue (num_of_nat (length (array_at hp a)))
          else HostUndefined
      | _ \<Rightarrow> HostUndefined)"

subsection \<open>Binary expressions\<close>

text \<open>\<open>new StringValue(left.value.toString() + right.value.toString())\<close>.\<close>

definition string_concat :: "host \<Rightarrow> heap \<Rightarrow> runtime_value \<Rightarrow> runtime_value \<Rightarrow> error + runtime_value" where
  "string_concat h hp left right =
     (case payload_toString h hp left of
        Inl err \<Rightarrow> Inl err
      | Inr a \<Rightarrow> (case payload_toString h hp right of
                    Inl err \<Rightarrow> Inl err
                  | Inr b \<Rightarrow> Inr (StringValue (a @ b))))"

text \<open>The \<open>switch\<close> on the operator for two numeric operands; \<open>None\<close> when it has no case
  for the operator, so that control leaves the \<open>if\<close> chain.\<close>

definition numeric_operation :: "string \<Rightarrow> runtime_value \<Rightarrow> runtime_value \<Rightarrow> runtime_value option" where
  "numeric_operation op left right =
     (let a = num_payload left; b = num_payload right;
          isFloat = (is_float left \<or> is_float right);
          number = (\<lambda>res. if isFloat then FloatValue res else IntegerValue res)
      in if op = ''+'' then Some (number (num_add a b))
         else if op = ''-'' then Some (number (num_sub a b))
         else if op = ''*'' then Some (number (num_mul a b))
         else if op = ''/'' then Some (FloatValue (num_div a b))
         else if op = ''%'' then Some (number (num_mod a b))
         else if op = ''<'' then Some (BooleanValue (num_lt a b))
         else if op = ''>'' then Some (BooleanValue (num_lt b a))
         else if op = ''>='' then Some (BooleanValue (num_le b a))
         else if op = ''<='' then Some (BooleanValue (num_le a b))
         else None)"

text \<open>\<open>right.value.find((x) => x.value === left.value) !== undefined\<close>.\<close>

fun array_member :: "runtime_value \<Rightarrow> runtime_value list \<Rightarrow> error + bool" where
  "array_member left [] = Inr False"
| "array_member left (x # xs) =
     (case get_value x of
        Inl err \<Rightarrow> Inl err
      | Inr p \<Rightarrow> (case get_value left of
                    Inl err \<Rightarrow> Inl err
                  | Inr q \<Rightarrow> if strict_eq p q then Inr True else array_member left xs))"

text \<open>\<open>s.str_includes(t)\<close>.\<close>

definition str_includes :: "string \<Rightarrow> string \<Rightarrow> bool" where
  "str_includes s t = (find_sep t s \<noteq> None)"

text \<open>The \<open>if\<close> chain on the operand classes, from the numeric branch on: the outcome of
  the branch that returns or throws, \<open>None\<close> when control falls through to the string
  cases.\<close>

definition operand_chain ::
  "string \<Rightarrow> runtime_value \<Rightarrow> runtime_value \<Rightarrow> heap \<Rightarrow> ((error + runtime_value) \<times> heap) option" where
  "operand_chain op left right hp =
     (if is_numeric left \<and> is_numeric right
      then map_option (\<lambda>v. (Inr v, hp)) (numeric_operation op left right)
      else (case (array_ref left, array_ref right) of
              (Some a, Some b) \<Rightarrow>
                if op = ''+''
                then (case new_array (array_at hp a @ array_at hp b) hp of
                        (v, hp') \<Rightarrow> Some (Inr v, hp'))
                else None
            | (None, Some b) \<Rightarrow>
                (case array_member left (array_at hp b) of
                   Inl err \<Rightarrow> Some (Inl err, hp)
                 | Inr member \<Rightarrow>
                     if op = ''in'' then Some (Inr (BooleanValue member), hp)
                     else if op = ''not in'' then Some (Inr (BooleanValue (\<not> member)), hp)
                     else None)
            | _ \<Rightarrow> None))"

text \<open>The three string cases after the chain, and the final \<open>SyntaxError\<close>.\<close>

definition dquote :: string where
  "dquote = [CHR 0x22]"

definition string_operations ::
  "host \<Rightarrow> string \<Rightarrow> runtime_value \<Rightarrow> runtime_value \<Rightarrow> heap \<Rightarrow> error + runtime_value" where
  "string_operations h op left right hp =
     (if (is_string left \<or> is_string right) \<and> op = ''+''
      then string_concat h hp left right
      else (case (left, right) of
              (StringValue l, StringValue r) \<Rightarrow>
                if op = ''in'' then Inr (BooleanValue (str_includes r l))
                else if op = ''not in'' then Inr (BooleanValue (\<not> str_includes r l))
                else Inl (SyntaxError (''Unknown operator '' @ dquote @ op @ dquote @ '' between StringValue and StringValue''))
            | _ \<Rightarrow>
                (case (left, object_ref right) of
                   (StringValue l, Some b) \<Rightarrow>
                     if op = ''in'' then Inr (BooleanValue (map_has (map_at hp b) l))
                     else if op = ''not in'' then Inr (BooleanValue (\<not> map_has (map_at hp b) l))
                     else Inl (SyntaxError (''Unknown operator '' @ dquote @ op @ dquote @ '' between StringValue and ''
                                  @ type_name right))
                 | _ \<Rightarrow>
                     (case get_type left of
                        Inl err \<Rightarrow> Inl err
                      | Inr lt \<Rightarrow>
                          (case get_type right of
                             Inl err \<Rightarrow> Inl err
                           | Inr rt \<Rightarrow>
                               Inl (SyntaxError (''Unknown operator '' @ dquote @ op @ dquote @ '' between '' @ lt
                                      @ '' and '' @ rt)))))))"

text \<open>What \<open>evaluateBinaryExpression\<close> does with the two operand values once \<open>and\<close>, \<open>or\<close>,
  \<open>==\<close> and \<open>!=\<close> are out of the way.\<close>

definition binary_operation ::
  "host \<Rightarrow> string \<Rightarrow> runtime_value \<Rightarrow> runtime_value \<Rightarrow> heap \<Rightarrow> (error + runtime_value) \<times> heap" where
  "binary_operation h op left right hp =
     (if left = UndefinedValue \<or> right = UndefinedValue
      then (if right = UndefinedValue \<and> (op = ''in'' \<or> op = ''not in'')
            then (Inr (BooleanValue (op = ''not in'')), hp)
            else (Inl (Error (''Cannot perform operation '' @ op @ '' on undefined values'')), hp))
      else if left = NullValue \<or> right = NullValue
      then (Inl (Error ''Cannot perform operation on null values''), hp)
      else if op = ''~'' then (string_concat h hp left right, hp)
      else (case operand_chain op left right hp of
              Some r \<Rightarrow> r
            | None \<Rightarrow> (string_operations h op left right hp, hp)))"

text \<open>\<open>new BooleanValue(left.value == right.value)\<close>, negated for \<open>!=\<close>.\<close>

definition equality :: "host \<Rightarrow> heap \<Rightarrow> bool \<Rightarrow> runtime_value \<Rightarrow> runtime_value \<Rightarrow> error + runtime_value" where
  "equality h hp negated left right =
     (case get_value left of
        Inl err \<Rightarrow> Inl err
      | Inr p \<Rightarrow>
          (case get_value right of
             Inl err \<Rightarrow> Inl err
           | Inr q \<Rightarrow>
               (case loose_eq h hp p q of
                  Inl err \<Rightarrow> Inl err
                | Inr b \<Rightarrow> Inr (BooleanValue (if negated then \<not> b else b)))))"

text \<open>The evaluators below take \<open>ev\<close>, the evaluator of a single node (\<open>this.evaluate\<close>), as
  a parameter; \<open>evaluate\<close> ties the knot at the end.\<close>

type_synonym evaluator = "node \<Rightarrow> env \<Rightarrow> heap \<Rightarrow> runtime_value res"

definition evaluateBinaryExpression ::
  "host \<Rightarrow> evaluator \<Rightarrow> string \<Rightarrow> node \<Rightarrow> node \<Rightarrow> env \<Rightarrow> heap \<Rightarrow> runtime_value res" where
  "evaluateBinaryExpression h ev op leftNode rightNode e hp =
     bind (ev leftNode e hp) (\<lambda>left e hp.
       if op = ''and''
       then (case to_bool hp left of
               Inl err \<Rightarrow> throw err e hp
             | Inr b \<Rightarrow> if b then ev rightNode e hp else ok left e hp)
       else if op = ''or''
       then (case to_bool hp left of
               Inl err \<Rightarrow> throw err e hp
             | Inr b \<Rightarrow> if b then ok left e hp else ev rightNode e hp)
       else bind (ev rightNode e hp) (\<lambda>right e hp.
         if op = ''=='' then lift (equality h hp False left right) e hp
         else if op = ''!='' then lift (equality h hp True left right) e hp
         else (case binary_operation h op left right hp of (r, hp') \<Rightarrow> (r, e, hp'))))"

subsection \<open>Arguments of a call\<close>

text \<open>The loop of \<open>evaluateArguments\<close>: \<open>pos\<close> and \<open>kw\<close> are the positional array and the
  keyword map built so far.\<close>

fun evaluateArguments_loop ::
  "evaluator \<Rightarrow> node list \<Rightarrow> runtime_value list \<Rightarrow> (string \<times> runtime_value) list \<Rightarrow>
   env \<Rightarrow> heap \<Rightarrow> (runtime_value list \<times> (string \<times> runtime_value) list) res" where
  "evaluateArguments_loop ev [] pos kw e hp = ok (pos, kw) e hp"
| "evaluateArguments_loop ev (argument # args) pos kw e hp =
     (case argument of
        SpreadExpression inner \<Rightarrow>
          bind (ev inner e hp) (\<lambda>val e hp.
            case array_ref val of
              Some a \<Rightarrow> evaluateArguments_loop ev args (pos @ array_at hp a) kw e hp
            | None \<Rightarrow>
                (case get_type val of
                   Inl err \<Rightarrow> throw err e hp
                 | Inr t \<Rightarrow> throw (Error (''Cannot unpack non-iterable type: '' @ t)) e hp))
      | KeywordArgumentExpression key inner \<Rightarrow>
          bind (ev inner e hp) (\<lambda>val e hp.
            evaluateArguments_loop ev args pos (map_set key val kw) e hp)
      | _ \<Rightarrow>
          if kw \<noteq> [] then throw (Error ''Positional arguments must come before keyword arguments'') e hp
          else bind (ev argument e hp) (\<lambda>val e hp.
                 evaluateArguments_loop ev args (pos @ [val]) kw e hp))"

definition evaluateArguments ::
  "evaluator \<Rightarrow> node list \<Rightarrow> env \<Rightarrow> heap \<Rightarrow> (runtime_value list \<times> (string \<times> runtime_value) list) res" where
  "evaluateArguments ev args e hp = evaluateArguments_loop ev args [] [] e hp"

text \<open>\<open>new KeywordArgumentsValue(kwargs)\<close>.\<close>

definition new_kwargs :: "(string \<times> runtime_value) list \<Rightarrow> heap \<Rightarrow> runtime_value \<times> heap" where
  "new_kwargs m hp = (KeywordArgumentsValue (length hp), hp @ [MapCell m])"

subsection \<open>Filters\<close>

text \<open>The comparator that the \<open>sort\<close> filter passes to the host's \<open>sort\<close>.\<close>

definition sort_compare :: "host \<Rightarrow> runtime_value \<Rightarrow> runtime_value \<Rightarrow> error + jsnum" where
  "sort_compare h a b =
     (if type_name a \<noteq> type_name b
      then Inl (Error (''Cannot compare different types: '' @ type_name a @ '' and '' @ type_name b))
      else (case (a, b) of
              (IntegerValue x, _) \<Rightarrow> Inr (num_sub x (num_payload b))
            | (FloatValue x, _) \<Rightarrow> Inr (num_sub x (num_payload b))
            | (StringValue s, StringValue t) \<Rightarrow> Inr (h_localeCompare h s t)
            | _ \<Rightarrow> Inl (Error (''Cannot compare type: '' @ type_name a))))"

text \<open>The host's \<open>xs.sort(compare)\<close>, as a stable insertion sort: \<open>undefined\<close> elements go
  last without being compared, and the comparator is called with the later element
  first, \<open>compare(later, earlier)\<close>, the later one moving in front when the result is
  negative. Which pairs an engine compares, and so which of two possible errors it
  meets first, is the engine's choice; this is one such choice.\<close>

fun sort_insert :: "host \<Rightarrow> runtime_value \<Rightarrow> runtime_value list \<Rightarrow> error + runtime_value list" where
  "sort_insert h x [] = Inr [x]"
| "sort_insert h x (y # ys) =
     (case sort_compare h x y of
        Inl err \<Rightarrow> Inl err
      | Inr c \<Rightarrow>
          if num_lt c (Fin 0) then Inr (x # y # ys)
          else (case sort_insert h x ys of Inl err \<Rightarrow> Inl err | Inr r \<Rightarrow> Inr (y # r)))"

fun sort_into :: "host \<Rightarrow> runtime_value list \<Rightarrow> runtime_value list \<Rightarrow> error + runtime_value list" where
  "sort_into h acc [] = Inr acc"
| "sort_into h acc (x # xs) =
     (case sort_insert h x acc of Inl err \<Rightarrow> Inl err | Inr s \<Rightarrow> sort_into h s xs)"

definition js_sort :: "host \<Rightarrow> runtime_value list \<Rightarrow> error + runtime_value list" where
  "js_sort h xs =
     (case sort_into h [] (filter (\<lambda>x. x \<noteq> HostUndefined) xs) of
        Inl err \<Rightarrow> Inl err
      | Inr s \<Rightarrow> Inr (s @ filter (\<lambda>x. x = HostUndefined) xs))"

text \<open>The loop of the \<open>unique\<close> filter; \<open>seen\<close> is the host \<open>Set\<close> of payloads.\<close>

fun unique_loop :: "payload list \<Rightarrow> runtime_value list \<Rightarrow> error + runtime_value list" where
  "unique_loop seen [] = Inr []"
| "unique_loop seen (item # items) =
     (case get_value item of
        Inl err \<Rightarrow> Inl err
      | Inr p \<Rightarrow>
          if list_ex (same_value_zero p) seen then unique_loop seen items
          else (case unique_loop (seen @ [p]) items of
                  Inl err \<Rightarrow> Inl err
                | Inr output \<Rightarrow> Inr (item # output)))"

text \<open>\<open>lines.map((x, i) => (!first && i === 0) || (!blank && x.length === 0) ? x : indent
  + x)\<close>, on the lines of \<open>v.split("\n")\<close>, joined again.\<close>

definition indent_lines :: "string \<Rightarrow> bool \<Rightarrow> bool \<Rightarrow> string \<Rightarrow> string" where
  "indent_lines indent first blank v =
     (let lines = js_split [CHR 0x0A] v
      in join [CHR 0x0A]
           (map (\<lambda>(i, x). if (\<not> first \<and> i = 0) \<or> (\<not> blank \<and> x = []) then x else indent @ x)
                (zip [0..<length lines] lines)))"

text \<open>\<open>applyFilter\<close> for a filter written as an identifier, \<open>x | name\<close>, after the test for
  \<open>tojson\<close>: the dispatch on the operand's class.\<close>

definition array_filter ::
  "host \<Rightarrow> string \<Rightarrow> runtime_value \<Rightarrow> nat \<Rightarrow> heap \<Rightarrow> (error + runtime_value) \<times> heap" where
  "array_filter h name operand a hp =
     (let xs = array_at hp a in
      if name = ''list'' then (Inr operand, hp)
      else if name = ''first'' then (Inr (js_index xs 0), hp)
      else if name = ''last''
        then (Inr (if xs = [] then HostUndefined else js_index xs (length xs - 1)), hp)
      else if name = ''length'' then (Inr (IntegerValue (num_of_nat (length xs))), hp)
      else if name = ''reverse'' then (Inr (ArrayValue a), store a (ArrayCell (rev xs)) hp)
      else if name = ''sort''
        then (case js_sort h xs of
                Inl err \<Rightarrow> (Inl err, hp)
              | Inr ys \<Rightarrow> (Inr (ArrayValue a), store a (ArrayCell ys) hp))
      else if name = ''join''
        then (case sequence (map (\<lambda>x. map_sum id (\<lambda>p. x) (get_value x)) xs) of
                Inl err \<Rightarrow> (Inl err, hp)
              | Inr ys \<Rightarrow>
                  (case sequence (map (payload_joined h hp) ys) of
                     Inl err \<Rightarrow> (Inl err, hp)
                   | Inr parts \<Rightarrow> (Inr (StringValue (join [] parts)), hp)))
      else if name = ''string''
        then (map_sum id StringValue (toJSON h hp operand None), hp)
      else if name = ''unique''
        then (case unique_loop [] xs of
                Inl err \<Rightarrow> (Inl err, hp)
              | Inr output \<Rightarrow> (case new_array output hp of (v, hp') \<Rightarrow> (Inr v, hp')))
      else (Inl (Error (''Unknown ArrayValue filter: '' @ name)), hp))"

definition string_filter ::
  "host \<Rightarrow> string \<Rightarrow> string \<Rightarrow> heap \<Rightarrow> (error + runtime_value) \<times> heap" where
  "string_filter h name v hp =
     (if name \<in> set [''length'', ''upper'', ''lower'', ''title'', ''capitalize'']
      then (case builtins_get hp (StringValue v) name of
              FunctionValue f \<Rightarrow> string_builtin h v name [] hp
            | IntegerValue n \<Rightarrow> (Inr (IntegerValue n), hp)
            | _ \<Rightarrow> (Inl (Error (''Unknown StringValue filter: '' @ name)), hp))
      else if name = ''trim'' then (Inr (StringValue (trim v)), hp)
      else if name = ''indent'' then (Inr (StringValue (indent_lines ''    '' False False v)), hp)
      else if name = ''join'' \<or> name = ''string'' then (Inr (StringValue v), hp)
      else if name = ''int''
        then (let val = h_parseInt h v
              in (Inr (IntegerValue (if val = NaN then Fin 0 else val)), hp))
      else if name = ''float''
        then (let val = h_parseFloat h v
              in (Inr (FloatValue (if val = NaN then Fin 0 else val)), hp))
      else (Inl (Error (''Unknown StringValue filter: '' @ name)), hp))"

definition numeric_filter :: "string \<Rightarrow> runtime_value \<Rightarrow> error + runtime_value" where
  "numeric_filter name operand =
     (if name = ''abs''
      then Inr (case operand of
                  IntegerValue n \<Rightarrow> IntegerValue (num_abs n)
                | _ \<Rightarrow> FloatValue (num_abs (num_payload operand)))
      else if name = ''int'' then Inr (IntegerValue (num_floor (num_payload operand)))
      else if name = ''float'' then Inr (FloatValue (num_payload operand))
      else Inl (Error (''Unknown NumericValue filter: '' @ name)))"

definition object_filter :: "string \<Rightarrow> nat \<Rightarrow> heap \<Rightarrow> (error + runtime_value) \<times> heap" where
  "object_filter name a hp =
     (if name = ''items'' then (case object_items a hp of (v, hp') \<Rightarrow> (Inr v, hp'))
      else if name = ''length'' then (Inr (IntegerValue (num_of_nat (length (map_at hp a)))), hp)
      else (Inl (Error (''Unknown ObjectValue filter: '' @ name)), hp))"

definition boolean_filter :: "string \<Rightarrow> bool \<Rightarrow> error + runtime_value" where
  "boolean_filter name b =
     (if name = ''bool'' then Inr (BooleanValue b)
      else if name = ''int'' then Inr (IntegerValue (Fin (if b then 1 else 0)))
      else if name = ''float'' then Inr (FloatValue (Fin (if b then 1 else 0)))
      else if name = ''string'' then Inr (StringValue (bool_toString b))
      else Inl (Error (''Unknown BooleanValue filter: '' @ name)))"

definition cannot_apply :: "string \<Rightarrow> runtime_value \<Rightarrow> error" where
  "cannot_apply name operand =
     (case get_type operand of
        Inl err \<Rightarrow> err
      | Inr t \<Rightarrow> Error (''Cannot apply filter '' @ dquote @ name @ dquote @ '' to type: '' @ t))"

definition applyFilter_identifier ::
  "host \<Rightarrow> string \<Rightarrow> runtime_value \<Rightarrow> heap \<Rightarrow> (error + runtime_value) \<times> heap" where
  "applyFilter_identifier h name operand hp =
     (if name = ''tojson'' then (map_sum id StringValue (toJSON h hp operand None), hp)
      else (case operand of
              ArrayValue a \<Rightarrow> array_filter h name operand a hp
            | TupleValue a \<Rightarrow> array_filter h name operand a hp
            | StringValue v \<Rightarrow> string_filter h name v hp
            | IntegerValue n \<Rightarrow> (numeric_filter name operand, hp)
            | FloatValue n \<Rightarrow> (numeric_filter name operand, hp)
            | ObjectValue a \<Rightarrow> object_filter name a hp
            | KeywordArgumentsValue a \<Rightarrow> object_filter name a hp
            | BooleanValue b \<Rightarrow> (boolean_filter name b, hp)
            | _ \<Rightarrow> (Inl (cannot_apply name operand), hp)))"

text \<open>Evaluating a list of nodes in order, as \<open>nodes.map((x) => this.evaluate(x,
  environment))\<close> does.\<close>

fun evaluate_all :: "evaluator \<Rightarrow> node list \<Rightarrow> env \<Rightarrow> heap \<Rightarrow> runtime_value list res" where
  "evaluate_all ev [] e hp = ok [] e hp"
| "evaluate_all ev (n # ns) e hp =
     bind (ev n e hp) (\<lambda>v e hp.
       bind (evaluate_all ev ns e hp) (\<lambda>vs e hp. ok (v # vs) e hp))"

text \<open>\<open>args.at(i) ?? kwargs.get(name) ?? fallback\<close>.\<close>

definition argument_or ::
  "runtime_value list \<Rightarrow> nat \<Rightarrow> (string \<times> runtime_value) list \<Rightarrow> string \<Rightarrow> runtime_value \<Rightarrow> runtime_value" where
  "argument_or args i kwargs name fallback =
     nullish_or (js_index args i) (nullish_or (map_get kwargs name) fallback)"

text \<open>The call form \<open>x | name(args)\<close>: the filters that apply to every operand class.\<close>

definition tojson_filter ::
  "host \<Rightarrow> evaluator \<Rightarrow> runtime_value \<Rightarrow> node list \<Rightarrow> env \<Rightarrow> heap \<Rightarrow> runtime_value res" where
  "tojson_filter h ev operand args e hp =
     bind (evaluateArguments ev args e hp) (\<lambda>(pos, kwargs) e hp.
       case nullish_or (map_get kwargs ''indent'') NullValue of
         IntegerValue n \<Rightarrow> lift (map_sum id StringValue (toJSON h hp operand (Some n))) e hp
       | NullValue \<Rightarrow> lift (map_sum id StringValue (toJSON h hp operand None)) e hp
       | _ \<Rightarrow> throw (Error ''If set, indent must be a number'') e hp)"

definition join_filter ::
  "host \<Rightarrow> evaluator \<Rightarrow> runtime_value \<Rightarrow> node list \<Rightarrow> env \<Rightarrow> heap \<Rightarrow> runtime_value res" where
  "join_filter h ev operand args e hp =
     (let finish = (\<lambda>parts e hp.
            bind (evaluateArguments ev args e hp) (\<lambda>(pos, kwargs) e hp.
              case argument_or pos 0 kwargs ''separator'' (StringValue []) of
                StringValue separator \<Rightarrow>
                  (case parts hp of
                     Inl err \<Rightarrow> throw err e hp
                   | Inr ps \<Rightarrow> ok (StringValue (join separator ps)) e hp)
              | _ \<Rightarrow> throw (Error ''separator must be a string'') e hp))
      in case operand of
        StringValue v \<Rightarrow> finish (\<lambda>hp. Inr (map (\<lambda>c. [c]) v)) e hp
      | _ \<Rightarrow>
          (case array_ref operand of
             Some a \<Rightarrow>
               (case sequence (map (\<lambda>x. map_sum id (\<lambda>p. x) (get_value x)) (array_at hp a)) of
                  Inl err \<Rightarrow> throw err e hp
                | Inr xs \<Rightarrow> finish (\<lambda>hp. sequence (map (payload_joined h hp) xs)) e hp)
           | None \<Rightarrow> throw (cannot_apply ''join'' operand) e hp))"

definition int_float_filter ::
  "host \<Rightarrow> evaluator \<Rightarrow> string \<Rightarrow> runtime_value \<Rightarrow> node list \<Rightarrow> env \<Rightarrow> heap \<Rightarrow> runtime_value res" where
  "int_float_filter h ev filterName operand args e hp =
     bind (evaluateArguments ev args e hp) (\<lambda>(pos, kwargs) e hp.
       let isInt = (filterName = ''int'');
           defaultValue = argument_or pos 0 kwargs ''default''
                            (if isInt then IntegerValue (Fin 0) else FloatValue (Fin 0))
       in case operand of
            StringValue v \<Rightarrow>
              (let val = (if isInt then h_parseInt h v else h_parseFloat h v)
               in ok (if val = NaN then defaultValue
                      else if isInt then IntegerValue val else FloatValue val) e hp)
          | IntegerValue n \<Rightarrow> ok operand e hp
          | FloatValue n \<Rightarrow> ok operand e hp
          | BooleanValue b \<Rightarrow>
              ok (if isInt then IntegerValue (Fin (if b then 1 else 0))
                  else FloatValue (Fin (if b then 1 else 0))) e hp
          | _ \<Rightarrow> throw (cannot_apply filterName operand) e hp)"

definition default_filter ::
  "evaluator \<Rightarrow> runtime_value \<Rightarrow> node list \<Rightarrow> env \<Rightarrow> heap \<Rightarrow> runtime_value res" where
  "default_filter ev operand args e hp =
     bind (evaluateArguments ev args e hp) (\<lambda>(pos, kwargs) e hp.
       let defaultValue = nullish_or (js_index pos 0) (StringValue []);
           booleanValue = argument_or pos 1 kwargs ''boolean'' (BooleanValue False)
       in case booleanValue of
            BooleanValue flag \<Rightarrow>
              if operand = UndefinedValue then ok defaultValue e hp
              else if flag
              then (case to_bool hp operand of
                      Inl err \<Rightarrow> throw err e hp
                    | Inr b \<Rightarrow> ok (if \<not> b then defaultValue else operand) e hp)
              else ok operand e hp
          | _ \<Rightarrow> throw (Error (''`default` filter flag must be a boolean'')) e hp)"

text \<open>\<open>selectattr\<close> and \<open>rejectattr\<close>: the callback of \<open>operand.value.filter\<close>, item by
  item.\<close>

fun selectattr_loop ::
  "heap \<Rightarrow> bool \<Rightarrow> runtime_value \<Rightarrow> (runtime_value list \<Rightarrow> error + bool) \<Rightarrow> runtime_value \<Rightarrow>
   runtime_value list \<Rightarrow> error + runtime_value list" where
  "selectattr_loop hp select attr testFunction val [] = Inr []"
| "selectattr_loop hp select attr testFunction val (item # items) =
     (case attr of
        StringValue name \<Rightarrow>
          (let a = (case object_ref item of
                      Some addr \<Rightarrow> map_get (map_at hp addr) name
                    | None \<Rightarrow> HostUndefined)
           in case (if a = HostUndefined then Inr False else testFunction [a, val]) of
                Inl err \<Rightarrow> Inl err
              | Inr result \<Rightarrow>
                  (case selectattr_loop hp select attr testFunction val items of
                     Inl err \<Rightarrow> Inl err
                   | Inr rest \<Rightarrow>
                       Inr (if (if select then result else \<not> result) then item # rest else rest)))
      | HostUndefined \<Rightarrow> Inl undefined_access
      | _ \<Rightarrow>
          (case selectattr_loop hp select attr testFunction val items of
             Inl err \<Rightarrow> Inl err
           | Inr rest \<Rightarrow> Inr (if select then rest else item # rest)))"

definition selectattr_filter ::
  "host \<Rightarrow> evaluator \<Rightarrow> string \<Rightarrow> nat \<Rightarrow> node list \<Rightarrow> env \<Rightarrow> heap \<Rightarrow> runtime_value res" where
  "selectattr_filter h ev filterName a args e hp =
     (if list_ex (\<lambda>x. object_ref x = None) (array_at hp a)
      then throw (Error (''`'' @ filterName @ ''` can only be applied to array of objects'')) e hp
      else if list_ex (\<lambda>x. node_type x \<noteq> ''StringLiteral'') args
      then throw (Error (''arguments of `'' @ filterName @ ''` must be strings'')) e hp
      else bind (evaluate_all ev args e hp) (\<lambda>vals e hp.
        let attr = js_index vals 0; testName = js_index vals 1; val = js_index vals 2;
            run = (\<lambda>testFunction.
              case selectattr_loop hp (filterName = ''selectattr'') attr testFunction val
                     (array_at hp a) of
                Inl err \<Rightarrow> throw err e hp
              | Inr filtered \<Rightarrow> (case new_array filtered hp of (v, hp') \<Rightarrow> ok v e hp'))
        in case testName of
             HostUndefined \<Rightarrow> run (\<lambda>x. to_bool hp (js_index x 0))
           | StringValue t \<Rightarrow>
               (case tests_get h t of
                  None \<Rightarrow> throw (Error (''Unknown test: '' @ t)) e hp
                | Some test \<Rightarrow> run test)
           | _ \<Rightarrow>
               (case payload_toString h hp testName of
                  Inl err \<Rightarrow> throw err e hp
                | Inr t \<Rightarrow> throw (Error (''Unknown test: '' @ t)) e hp)))"

text \<open>\<open>map(attribute=..., default=...)\<close>: the callback of \<open>operand.value.map\<close>.\<close>

fun map_attribute ::
  "heap \<Rightarrow> string \<Rightarrow> runtime_value \<Rightarrow> runtime_value list \<Rightarrow> error + runtime_value list" where
  "map_attribute hp attr defaultValue [] = Inr []"
| "map_attribute hp attr defaultValue (item # items) =
     (case object_ref item of
        None \<Rightarrow> Inl (Error ''items in map must be an object'')
      | Some addr \<Rightarrow>
          (case map_attribute hp attr defaultValue items of
             Inl err \<Rightarrow> Inl err
           | Inr rest \<Rightarrow>
               Inr (nullish_or (map_get (map_at hp addr) attr)
                      (nullish_or defaultValue UndefinedValue) # rest)))"

definition map_filter_call ::
  "evaluator \<Rightarrow> nat \<Rightarrow> node list \<Rightarrow> env \<Rightarrow> heap \<Rightarrow> runtime_value res" where
  "map_filter_call ev a args e hp =
     bind (evaluateArguments ev args e hp) (\<lambda>(pos, kwargs) e hp.
       if map_has kwargs ''attribute''
       then (case map_get kwargs ''attribute'' of
               StringValue attr \<Rightarrow>
                 (case map_attribute hp attr (map_get kwargs ''default'') (array_at hp a) of
                    Inl err \<Rightarrow> throw err e hp
                  | Inr mapped \<Rightarrow> (case new_array mapped hp of (v, hp') \<Rightarrow> ok v e hp'))
             | _ \<Rightarrow> throw (Error ''attribute must be a string'') e hp)
       else throw (Error ''`map` expressions without `attribute` set are not currently supported.'')
              e hp)"

definition indent_filter ::
  "evaluator \<Rightarrow> string \<Rightarrow> node list \<Rightarrow> env \<Rightarrow> heap \<Rightarrow> runtime_value res" where
  "indent_filter ev v args e hp =
     bind (evaluateArguments ev args e hp) (\<lambda>(pos, kwargs) e hp.
       case argument_or pos 0 kwargs ''width'' (IntegerValue (Fin 4)) of
         IntegerValue width \<Rightarrow>
           (let first = argument_or pos 1 kwargs ''first'' (BooleanValue False);
                blank = argument_or pos 2 kwargs ''blank'' (BooleanValue False)
            in case js_repeat '' '' width of
                 Inl err \<Rightarrow> throw err e hp
               | Inr indent \<Rightarrow>
                   ok (StringValue (indent_lines indent (payload_truthy (payload_of first))
                                      (payload_truthy (payload_of blank)) v)) e hp)
       | _ \<Rightarrow> throw (Error ''width must be a number'') e hp)"

definition replace_filter ::
  "host \<Rightarrow> evaluator \<Rightarrow> string \<Rightarrow> node list \<Rightarrow> env \<Rightarrow> heap \<Rightarrow> runtime_value res" where
  "replace_filter h ev v args e hp =
     bind (evaluateArguments ev args e hp) (\<lambda>(pos, kwargs) e hp.
       case new_kwargs kwargs hp of
         (kw, hp') \<Rightarrow> lift (string_replace h v (pos @ [kw]) hp') e hp')"

text \<open>\<open>applyFilter\<close> for a filter written as a call; \<open>callee\<close> and \<open>args\<close> are those of the
  \<open>CallExpression\<close>.\<close>

definition applyFilter_call ::
  "host \<Rightarrow> evaluator \<Rightarrow> runtime_value \<Rightarrow> node \<Rightarrow> node list \<Rightarrow> env \<Rightarrow> heap \<Rightarrow> runtime_value res" where
  "applyFilter_call h ev operand callee args e hp =
     (case callee of
        Identifier filterName \<Rightarrow>
          if filterName = ''tojson'' then tojson_filter h ev operand args e hp
          else if filterName = ''join'' then join_filter h ev operand args e hp
          else if filterName = ''int'' \<or> filterName = ''float''
            then int_float_filter h ev filterName operand args e hp
          else if filterName = ''default'' then default_filter ev operand args e hp
          else (case operand of
                  StringValue v \<Rightarrow>
                    if filterName = ''indent'' then indent_filter ev v args e hp
                    else if filterName = ''replace'' then replace_filter h ev v args e hp
                    else throw (Error (''Unknown StringValue filter: '' @ filterName)) e hp
                | _ \<Rightarrow>
                    (case array_ref operand of
                       Some a \<Rightarrow>
                         if filterName = ''selectattr'' \<or> filterName = ''rejectattr''
                           then selectattr_filter h ev filterName a args e hp
                         else if filterName = ''map'' then map_filter_call ev a args e hp
                         else throw (Error (''Unknown ArrayValue filter: '' @ filterName)) e hp
                     | None \<Rightarrow> throw (cannot_apply filterName operand) e hp))
      | _ \<Rightarrow> throw (Error (''Unknown filter: '' @ node_type callee)) e hp)"

definition applyFilter ::
  "host \<Rightarrow> evaluator \<Rightarrow> runtime_value \<Rightarrow> node \<Rightarrow> env \<Rightarrow> heap \<Rightarrow> runtime_value res" where
  "applyFilter h ev operand filterNode e hp =
     (case filterNode of
        Identifier name \<Rightarrow>
          (case applyFilter_identifier h name operand hp of (r, hp') \<Rightarrow> (r, e, hp'))
      | CallExpression callee args \<Rightarrow> applyFilter_call h ev operand callee args e hp
      | _ \<Rightarrow> throw (Error (''Unknown filter: '' @ node_type filterNode)) e hp)"

subsection \<open>Blocks\<close>

text \<open>The loop of \<open>evaluateBlock\<close>; \<open>result\<close> is the string accumulated so far. The result
  of a statement is skipped when its \<open>type\<close> is \<open>NullValue\<close> or \<open>UndefinedValue\<close>, and
  appended as \<open>toString()\<close> gives it otherwise.\<close>

fun evaluateBlock_loop ::
  "host \<Rightarrow> evaluator \<Rightarrow> node list \<Rightarrow> string \<Rightarrow> env \<Rightarrow> heap \<Rightarrow> runtime_value res" where
  "evaluateBlock_loop h ev [] result e hp = ok (StringValue result) e hp"
| "evaluateBlock_loop h ev (statement # statements) result e hp =
     bind (ev statement e hp) (\<lambda>lastEvaluated e hp.
       case get_type lastEvaluated of
         Inl err \<Rightarrow> throw err e hp
       | Inr t \<Rightarrow>
           if t \<noteq> ''NullValue'' \<and> t \<noteq> ''UndefinedValue''
           then (case toString h hp lastEvaluated of
                   Inl err \<Rightarrow> throw err e hp
                 | Inr s \<Rightarrow> evaluateBlock_loop h ev statements (result @ s) e hp)
           else evaluateBlock_loop h ev statements result e hp)"

definition evaluateBlock ::
  "host \<Rightarrow> evaluator \<Rightarrow> node list \<Rightarrow> env \<Rightarrow> heap \<Rightarrow> runtime_value res" where
  "evaluateBlock h ev statements e hp = evaluateBlock_loop h ev statements [] e hp"

definition evalProgram ::
  "host \<Rightarrow> evaluator \<Rightarrow> node list \<Rightarrow> env \<Rightarrow> heap \<Rightarrow> runtime_value res" where
  "evalProgram h ev body e hp = evaluateBlock h ev body e hp"

text \<open>The text of a \<open>StringValue\<close>, as \<open>evaluated.value\<close> reads it from the result of
  \<open>evaluateBlock\<close>.\<close>

definition string_payload :: "runtime_value \<Rightarrow> string" where
  "string_payload v = (case v of StringValue s \<Rightarrow> s | _ \<Rightarrow> [])"

text \<open>Leaving a scope made by \<open>new Environment(parent)\<close>: the caller goes on with the
  parent, whether the callee returned or threw.\<close>

definition leave_scope :: "'a res \<Rightarrow> 'a res" where
  "leave_scope r = (case r of (outcome, e, hp) \<Rightarrow> (outcome, tl e, hp))"

subsection \<open>Functions\<close>

text \<open>The closure that \<open>evaluateMacro\<close> stores. \<open>split_kwargs\<close> is the \<open>args.pop()\<close> of a
  trailing \<open>KeywordArgumentsValue\<close>; \<open>bind_macro_argument\<close> is the body of the loop over
  the declared parameters, with \<open>passedArg = args[i]\<close>.\<close>

definition split_kwargs :: "runtime_value list \<Rightarrow> runtime_value list \<times> nat option" where
  "split_kwargs args =
     (if args = [] then ([], None)
      else (case last args of
              KeywordArgumentsValue a \<Rightarrow> (butlast args, Some a)
            | _ \<Rightarrow> (args, None)))"

definition bind_macro_argument ::
  "evaluator \<Rightarrow> node \<Rightarrow> runtime_value \<Rightarrow> nat option \<Rightarrow> env \<Rightarrow> heap \<Rightarrow> unit res" where
  "bind_macro_argument ev nodeArg passedArg kwargs macroScope hp =
     (case nodeArg of
        Identifier name \<Rightarrow>
          if passedArg = HostUndefined
          then throw (Error (''Missing positional argument: '' @ name)) macroScope hp
          else ok () (setVariable name passedArg macroScope) hp
      | KeywordArgumentExpression key defaultNode \<Rightarrow>
          (let passed = nullish_or passedArg
                          (case kwargs of
                             None \<Rightarrow> HostUndefined
                           | Some a \<Rightarrow> map_get (map_at hp a) key)
           in if passed \<noteq> HostUndefined then ok () (setVariable key passed macroScope) hp
              else bind (ev defaultNode macroScope hp) (\<lambda>val e hp.
                     ok () (setVariable key val e) hp))
      | _ \<Rightarrow> throw (Error (''Unknown argument type: '' @ node_type nodeArg)) macroScope hp)"

fun bind_macro_arguments ::
  "evaluator \<Rightarrow> node list \<Rightarrow> nat \<Rightarrow> runtime_value list \<Rightarrow> nat option \<Rightarrow> env \<Rightarrow> heap \<Rightarrow> unit res" where
  "bind_macro_arguments ev [] i args kwargs macroScope hp = ok () macroScope hp"
| "bind_macro_arguments ev (nodeArg # nodeArgs) i args kwargs macroScope hp =
     bind (bind_macro_argument ev nodeArg (js_index args i) kwargs macroScope hp) (\<lambda>_ e hp.
       bind_macro_arguments ev nodeArgs (i + 1) args kwargs e hp)"

definition macro_call ::
  "host \<Rightarrow> evaluator \<Rightarrow> node list \<Rightarrow> node list \<Rightarrow> runtime_value list \<Rightarrow> env \<Rightarrow> heap \<Rightarrow> runtime_value res" where
  "macro_call h ev nodeArgs body args scope hp =
     (let macroScope = new_Environment scope in
      case split_kwargs args of
        (positional, kwargs) \<Rightarrow>
          leave_scope
            (bind (bind_macro_arguments ev nodeArgs 0 positional kwargs macroScope hp) (\<lambda>_ e hp.
               evaluateBlock h ev body e hp)))"

text \<open>The \<open>caller\<close> closure of \<open>evaluateCallStatement\<close>.\<close>

fun bind_caller_parameters ::
  "node list \<Rightarrow> nat \<Rightarrow> runtime_value list \<Rightarrow> env \<Rightarrow> heap \<Rightarrow> unit res" where
  "bind_caller_parameters [] i callerArgs e hp = ok () e hp"
| "bind_caller_parameters (param # params) i callerArgs e hp =
     (case param of
        Identifier name \<Rightarrow>
          bind_caller_parameters params (i + 1) callerArgs
            (setVariable name (nullish_or (js_index callerArgs i) UndefinedValue) e) hp
      | _ \<Rightarrow> throw (Error (''Caller parameter must be an identifier, got '' @ node_type param)) e hp)"

definition caller_call ::
  "host \<Rightarrow> evaluator \<Rightarrow> node list option \<Rightarrow> node list \<Rightarrow> runtime_value list \<Rightarrow> env \<Rightarrow> heap \<Rightarrow>
   runtime_value res" where
  "caller_call h ev callerParams body callerArgs callerEnv hp =
     (let callBlockEnv = new_Environment callerEnv in
      leave_scope
        (bind (case callerParams of
                 None \<Rightarrow> ok () callBlockEnv hp
               | Some params \<Rightarrow> bind_caller_parameters params 0 callerArgs callBlockEnv hp)
           (\<lambda>_ e hp. evaluateBlock h ev body e hp)))"

text \<open>The \<open>namespace\<close> function.\<close>

definition namespace_call :: "runtime_value list \<Rightarrow> heap \<Rightarrow> (error + runtime_value) \<times> heap" where
  "namespace_call args hp =
     (if args = [] then (case new_object [] hp of (v, hp') \<Rightarrow> (Inr v, hp'))
      else if length args \<noteq> 1 \<or> object_ref (hd args) = None
      then (Inl (Error ''`namespace` expects either zero arguments or a single object argument''), hp)
      else (Inr (hd args), hp))"

text \<open>The wrapper \<open>convertToRuntimeValues\<close> puts around a host function: it passes the
  payloads, turns an \<open>undefined\<close> result into \<open>null\<close> and converts the result.
  \<open>raise_exception\<close> is the function \<open>setupGlobals\<close> defines, which throws its argument as
  an \<open>Error\<close>.\<close>

definition host_call ::
  "host \<Rightarrow> host_function \<Rightarrow> runtime_value list \<Rightarrow> heap \<Rightarrow> (error + runtime_value) \<times> heap" where
  "host_call h f args hp =
     (case sequence (map get_value args) of
        Inl err \<Rightarrow> (Inl err, hp)
      | Inr payloads \<Rightarrow>
          (case f of
             RaiseException \<Rightarrow>
               (case (if args = [] then Inr [] else payload_joined h hp (hd args)) of
                  Inl err \<Rightarrow> (Inl err, hp)
                | Inr message \<Rightarrow> (Inl (Error message), hp))
           | _ \<Rightarrow>
               (case h_call h f payloads hp of
                  Inl err \<Rightarrow> (Inl err, hp)
                | Inr r \<Rightarrow> convertToRuntimeValues (if r = HUndefined then HNull else r) hp)))"

text \<open>\<open>fn.value(args, scope)\<close>.\<close>

definition call_function ::
  "host \<Rightarrow> evaluator \<Rightarrow> func \<Rightarrow> runtime_value list \<Rightarrow> env \<Rightarrow> heap \<Rightarrow> runtime_value res" where
  "call_function h ev f args scope hp =
     (case f of
        MacroFunction name nodeArgs body \<Rightarrow> macro_call h ev nodeArgs body args scope hp
      | CallerFunction callerParams body \<Rightarrow> caller_call h ev callerParams body args scope hp
      | NamespaceFunction \<Rightarrow> (case namespace_call args hp of (r, hp') \<Rightarrow> (r, scope, hp'))
      | StringBuiltin v name \<Rightarrow> (case string_builtin h v name args hp of (r, hp') \<Rightarrow> (r, scope, hp'))
      | ObjectBuiltin a name \<Rightarrow> (case object_builtin a name args hp of (r, hp') \<Rightarrow> (r, scope, hp'))
      | HostFunction hf \<Rightarrow> (case host_call h hf args hp of (r, hp') \<Rightarrow> (r, scope, hp')))"

text \<open>The check both call sites make on the callee.\<close>

definition call_value ::
  "host \<Rightarrow> evaluator \<Rightarrow> runtime_value \<Rightarrow> runtime_value list \<Rightarrow> env \<Rightarrow> heap \<Rightarrow> runtime_value res" where
  "call_value h ev fn args scope hp =
     (case fn of
        FunctionValue f \<Rightarrow> call_function h ev f args scope hp
      | _ \<Rightarrow>
          (case get_type fn of
             Inl err \<Rightarrow> throw err scope hp
           | Inr t \<Rightarrow>
               throw (Error (''Cannot call something that is not a function: got '' @ t)) scope hp))"

definition evaluateCallExpression ::
  "host \<Rightarrow> evaluator \<Rightarrow> node \<Rightarrow> node list \<Rightarrow> env \<Rightarrow> heap \<Rightarrow> runtime_value res" where
  "evaluateCallExpression h ev callee args e hp =
     bind (evaluateArguments ev args e hp) (\<lambda>(pos, kwargs) e hp.
       case (if kwargs \<noteq> []
             then (case new_kwargs kwargs hp of (kw, hp') \<Rightarrow> (pos @ [kw], hp'))
             else (pos, hp)) of
         (args', hp') \<Rightarrow>
           bind (ev callee e hp') (\<lambda>fn e hp. call_value h ev fn args' e hp))"

definition evaluateMacro ::
  "string \<Rightarrow> node list \<Rightarrow> node list \<Rightarrow> env \<Rightarrow> heap \<Rightarrow> runtime_value res" where
  "evaluateMacro name nodeArgs body e hp =
     ok NullValue (setVariable name (FunctionValue (MacroFunction name nodeArgs body)) e) hp"

definition evaluateCallStatement ::
  "host \<Rightarrow> evaluator \<Rightarrow> node \<Rightarrow> node list \<Rightarrow> node list option \<Rightarrow> node list \<Rightarrow> env \<Rightarrow> heap \<Rightarrow>
   runtime_value res" where
  "evaluateCallStatement h ev callee args callerParams body e hp =
     (let callerFn = FunctionValue (CallerFunction callerParams body) in
      bind (evaluateArguments ev args e hp) (\<lambda>(macroArgs, macroKwargs) e hp.
        case new_kwargs macroKwargs hp of
          (kw, hp') \<Rightarrow>
            bind (ev callee e hp') (\<lambda>fn e hp.
              case fn of
                FunctionValue f \<Rightarrow>
                  leave_scope
                    (call_function h ev f (macroArgs @ [kw])
                       (setVariable ''caller'' callerFn (new_Environment e)) hp)
              | _ \<Rightarrow> call_value h ev fn (macroArgs @ [kw]) e hp)))"

subsection \<open>Member access and slices\<close>

text \<open>\<open>this.evaluate(node, environment)\<close> on a node that may be absent.\<close>

definition evaluate_optional :: "evaluator \<Rightarrow> node option \<Rightarrow> env \<Rightarrow> heap \<Rightarrow> runtime_value res" where
  "evaluate_optional ev statement e hp =
     (case statement of None \<Rightarrow> ok UndefinedValue e hp | Some n \<Rightarrow> ev n e hp)"

text \<open>A bound of a slice: an \<open>IntegerValue\<close> gives its number, an \<open>UndefinedValue\<close> the
  host's \<open>undefined\<close>; anything else is refused with the bound's name.\<close>

definition slice_bound :: "string \<Rightarrow> runtime_value \<Rightarrow> error + jsnum option" where
  "slice_bound name v =
     (case v of
        IntegerValue n \<Rightarrow> Inr (Some n)
      | UndefinedValue \<Rightarrow> Inr None
      | _ \<Rightarrow> Inl (Error (''Slice '' @ name @ '' must be numeric or undefined'')))"

definition evaluateSliceExpression ::
  "host \<Rightarrow> evaluator \<Rightarrow> runtime_value \<Rightarrow> node option \<Rightarrow> node option \<Rightarrow> node option \<Rightarrow>
   env \<Rightarrow> heap \<Rightarrow> runtime_value res" where
  "evaluateSliceExpression h ev object startNode stopNode stepNode e hp =
     (if array_ref object = None \<and> \<not> is_string object
      then throw (Error ''Slice object must be an array or string'') e hp
      else
        bind (evaluate_optional ev startNode e hp) (\<lambda>start e hp.
        bind (evaluate_optional ev stopNode e hp) (\<lambda>stop e hp.
        bind (evaluate_optional ev stepNode e hp) (\<lambda>step e hp.
          case slice_bound ''start'' start of Inl err \<Rightarrow> throw err e hp | Inr a \<Rightarrow>
          case slice_bound ''stop'' stop of Inl err \<Rightarrow> throw err e hp | Inr b \<Rightarrow>
          case slice_bound ''step'' step of Inl err \<Rightarrow> throw err e hp | Inr c \<Rightarrow>
            (case object of
               StringValue s \<Rightarrow>
                 (case h_slice h (length s) a b c of
                    Inl err \<Rightarrow> throw err e hp
                  | Inr indices \<Rightarrow>
                      ok (StringValue (concat (map (\<lambda>i. if i < length s then [s ! i] else []) indices)))
                        e hp)
             | _ \<Rightarrow>
                 (let xs = array_at hp (the (array_ref object)) in
                  case h_slice h (length xs) a b c of
                    Inl err \<Rightarrow> throw err e hp
                  | Inr indices \<Rightarrow>
                      (case new_array (map (js_index xs) indices) hp of
                         (v, hp') \<Rightarrow> ok v e hp')))))))"

text \<open>The lookup of \<open>evaluateMemberExpression\<close>, once object and property are values. A
  string index out of range constructs a \<open>StringValue\<close> from \<open>undefined\<close>, whose \<open>length\<close>
  builtin cannot be computed.\<close>

definition member_lookup :: "heap \<Rightarrow> runtime_value \<Rightarrow> runtime_value \<Rightarrow> error + runtime_value" where
  "member_lookup hp object property =
     (let non_string = (\<lambda>what.
            case get_type property of
              Inl err \<Rightarrow> Inl err
            | Inr t \<Rightarrow> Inl (Error (''Cannot access property with '' @ what @ '': got '' @ t)));
          found = (\<lambda>v. Inr (nullish_or v UndefinedValue))
      in case object_ref object of
           Some a \<Rightarrow>
             (case property of
                StringValue key \<Rightarrow>
                  found (nullish_or (map_get (map_at hp a) key) (builtins_get hp object key))
              | _ \<Rightarrow> non_string ''non-string'')
         | None \<Rightarrow>
             (case (array_ref object, object) of
                (Some a, _) \<Rightarrow>
                  (case property of
                     IntegerValue n \<Rightarrow>
                       found (case js_at (array_at hp a) n of None \<Rightarrow> HostUndefined | Some v \<Rightarrow> v)
                   | StringValue key \<Rightarrow> found (builtins_get hp object key)
                   | _ \<Rightarrow> non_string ''non-string/non-number'')
              | (None, StringValue s) \<Rightarrow>
                  (case property of
                     IntegerValue n \<Rightarrow>
                       (case js_at s n of
                          None \<Rightarrow> Inl undefined_access
                        | Some c \<Rightarrow> Inr (StringValue [c]))
                   | StringValue key \<Rightarrow> found (builtins_get hp object key)
                   | _ \<Rightarrow> non_string ''non-string/non-number'')
              | _ \<Rightarrow>
                  (case property of
                     StringValue key \<Rightarrow>
                       if object = HostUndefined then Inl undefined_access
                       else found (builtins_get hp object key)
                   | _ \<Rightarrow> non_string ''non-string'')))"

text \<open>A property that is not computed is an \<open>Identifier\<close> by the parser's contract; the
  source reads its \<open>value\<close> field without a check, which for a \<open>StringLiteral\<close> is its text
  and is not modelled for the other kinds.\<close>

definition evaluateMemberExpression ::
  "host \<Rightarrow> evaluator \<Rightarrow> node \<Rightarrow> node \<Rightarrow> bool \<Rightarrow> env \<Rightarrow> heap \<Rightarrow> runtime_value res" where
  "evaluateMemberExpression h ev objectNode propertyNode computed e hp =
     bind (ev objectNode e hp) (\<lambda>object e hp.
       case (computed, propertyNode) of
         (True, SliceExpression start stop step) \<Rightarrow>
           evaluateSliceExpression h ev object start stop step e hp
       | (True, _) \<Rightarrow>
           bind (ev propertyNode e hp) (\<lambda>property e hp.
             lift (member_lookup hp object property) e hp)
       | (False, Identifier name) \<Rightarrow> lift (member_lookup hp object (StringValue name)) e hp
       | (False, StringLiteral name) \<Rightarrow> lift (member_lookup hp object (StringValue name)) e hp
       | (False, _) \<Rightarrow> throw (TypeError ''property is not an identifier'') e hp)"

subsection \<open>Statements\<close>

text \<open>Destructuring: binding the names of a \<open>TupleLiteral\<close> to the elements of a host
  array, from index \<open>j\<close> on. \<open>what\<close> is the wording of the error for an element that is
  not an identifier; the bindings made before it stay.\<close>

fun unpack_into :: "string \<Rightarrow> node list \<Rightarrow> nat \<Rightarrow> runtime_value list \<Rightarrow> env \<Rightarrow> heap \<Rightarrow> unit res" where
  "unpack_into what [] j xs e hp = ok () e hp"
| "unpack_into what (elem # elems) j xs e hp =
     (case elem of
        Identifier name \<Rightarrow> unpack_into what elems (j + 1) xs (setVariable name (js_index xs j) e) hp
      | _ \<Rightarrow> throw (Error (what @ node_type elem)) e hp)"

definition too_few_or_many :: "nat \<Rightarrow> nat \<Rightarrow> string" where
  "too_few_or_many wanted given = ''Too '' @ (if wanted > given then ''few'' else ''many'') @ '' items to unpack''"

definition evaluateSet ::
  "host \<Rightarrow> evaluator \<Rightarrow> node \<Rightarrow> node option \<Rightarrow> node list \<Rightarrow> env \<Rightarrow> heap \<Rightarrow> runtime_value res" where
  "evaluateSet h ev assignee valueNode body e hp =
     bind (case valueNode of
             Some n \<Rightarrow> ev n e hp
           | None \<Rightarrow> evaluateBlock h ev body e hp) (\<lambda>rhs e hp.
       case assignee of
         Identifier variableName \<Rightarrow> ok NullValue (setVariable variableName rhs e) hp
       | TupleLiteral elems \<Rightarrow>
           (case array_ref rhs of
              None \<Rightarrow>
                (case get_type rhs of
                   Inl err \<Rightarrow> throw err e hp
                 | Inr t \<Rightarrow> throw (Error (''Cannot unpack non-iterable type in set: '' @ t)) e hp)
            | Some a \<Rightarrow>
                (let arr = array_at hp a in
                 if length arr \<noteq> length elems
                 then throw (Error (too_few_or_many (length elems) (length arr) @ '' in set'')) e hp
                 else bind (unpack_into ''Cannot unpack to non-identifier in set: '' elems 0 arr e hp)
                        (\<lambda>_ e hp. ok NullValue e hp)))
       | MemberExpression objectNode propertyNode computed \<Rightarrow>
           bind (ev objectNode e hp) (\<lambda>object e hp.
             case object_ref object of
               None \<Rightarrow> throw (Error ''Cannot assign to member of non-object'') e hp
             | Some a \<Rightarrow>
                 (case propertyNode of
                    Identifier name \<Rightarrow>
                      ok NullValue e (store a (MapCell (map_set name rhs (map_at hp a))) hp)
                  | _ \<Rightarrow> throw (Error ''Cannot assign to member with non-identifier property'') e hp))
       | _ \<Rightarrow>
           throw (Error (''Invalid LHS inside assignment expression: '' @ h_jsonNode h assignee)) e hp)"

definition evaluateIf ::
  "host \<Rightarrow> evaluator \<Rightarrow> node \<Rightarrow> node list \<Rightarrow> node list \<Rightarrow> env \<Rightarrow> heap \<Rightarrow> runtime_value res" where
  "evaluateIf h ev test body alternate e hp =
     bind (ev test e hp) (\<lambda>t e hp.
       case to_bool hp t of
         Inl err \<Rightarrow> throw err e hp
       | Inr b \<Rightarrow> evaluateBlock h ev (if b then body else alternate) e hp)"

subsection \<open>The for loop\<close>

text \<open>The checks \<open>evaluateFor\<close> makes on the loop variable and the current element when
  it builds the \<open>scopeUpdateFunction\<close> of an iteration: \<open>None\<close> when they pass.\<close>

definition loopvar_check :: "node \<Rightarrow> runtime_value \<Rightarrow> heap \<Rightarrow> error option" where
  "loopvar_check loopvar current hp =
     (case loopvar of
        Identifier name \<Rightarrow> None
      | TupleLiteral elems \<Rightarrow>
          (case current of
             HostUndefined \<Rightarrow> Some undefined_access
           | ArrayValue a \<Rightarrow>
               if length elems \<noteq> length (array_at hp a)
               then Some (Error (too_few_or_many (length elems) (length (array_at hp a))))
               else None
           | _ \<Rightarrow> Some (Error (''Cannot unpack non-iterable type: '' @ type_name current)))
      | _ \<Rightarrow> Some (Error (''Invalid loop variable(s): '' @ node_type loopvar)))"

text \<open>Running that \<open>scopeUpdateFunction\<close> on a scope.\<close>

definition scopeUpdate :: "node \<Rightarrow> runtime_value \<Rightarrow> env \<Rightarrow> heap \<Rightarrow> unit res" where
  "scopeUpdate loopvar current scope hp =
     (case loopvar of
        Identifier name \<Rightarrow> ok () (setVariable name current scope) hp
      | TupleLiteral elems \<Rightarrow>
          (case array_ref current of
             Some a \<Rightarrow> unpack_into ''Cannot unpack non-identifier type: '' elems 0 (array_at hp a) scope hp
           | None \<Rightarrow> ok () scope hp)
      | _ \<Rightarrow> ok () scope hp)"

text \<open>The first loop: over the indices of the iterable at address \<open>a\<close>, it keeps in
  \<open>items\<close> the elements that pass the checks and, when the iterable is a select
  expression, the test, which is evaluated in a scope of its own.\<close>

fun for_collect ::
  "evaluator \<Rightarrow> node \<Rightarrow> node option \<Rightarrow> nat \<Rightarrow> nat list \<Rightarrow> runtime_value list \<Rightarrow> env \<Rightarrow> heap \<Rightarrow>
   runtime_value list res" where
  "for_collect ev loopvar test a [] items scope hp = ok items scope hp"
| "for_collect ev loopvar test a (i # indices) items scope hp =
     (let current = js_index (array_at hp a) i in
      case loopvar_check loopvar current hp of
        Some err \<Rightarrow> throw err scope hp
      | None \<Rightarrow>
          (case test of
             None \<Rightarrow> for_collect ev loopvar test a indices (items @ [current]) scope hp
           | Some t \<Rightarrow>
               (case leave_scope
                       (bind (scopeUpdate loopvar current (new_Environment scope) hp)
                          (\<lambda>_ loopScope hp. ev t loopScope hp)) of
                  (Inl err, scope', hp') \<Rightarrow> (Inl err, scope', hp')
                | (Inr testValue, scope', hp') \<Rightarrow>
                    (case to_bool hp' testValue of
                       Inl err \<Rightarrow> throw err scope' hp'
                     | Inr b \<Rightarrow>
                         for_collect ev loopvar test a indices
                           (if b then items @ [current] else items) scope' hp'))))"

text \<open>The fields of the \<open>loop\<close> object at iteration \<open>i\<close> over \<open>items\<close>.\<close>

definition loop_fields :: "runtime_value list \<Rightarrow> nat \<Rightarrow> (string \<times> runtime_value) list" where
  "loop_fields items i =
     map_from_entries
       [(''index'', IntegerValue (num_of_int (int i + 1))),
        (''index0'', IntegerValue (num_of_int (int i))),
        (''revindex'', IntegerValue (num_of_int (int (length items) - int i))),
        (''revindex0'', IntegerValue (num_of_int (int (length items) - int i - 1))),
        (''first'', BooleanValue (i = 0)),
        (''last'', BooleanValue (int i = int (length items) - 1)),
        (''length'', IntegerValue (num_of_int (int (length items)))),
        (''previtem'', if i > 0 then js_index items (i - 1) else UndefinedValue),
        (''nextitem'', if int i < int (length items) - 1 then js_index items (i + 1)
                       else UndefinedValue)]"

text \<open>The second loop: \<open>result\<close> and \<open>noIteration\<close> are the two variables it updates. A
  \<open>ContinueControl\<close> drops what the body rendered and leaves \<open>noIteration\<close> as it is; a
  \<open>BreakControl\<close> ends the loop; both keep the state the body reached.\<close>

fun for_render ::
  "host \<Rightarrow> evaluator \<Rightarrow> node \<Rightarrow> node list \<Rightarrow> runtime_value list \<Rightarrow> nat list \<Rightarrow> string \<Rightarrow> bool \<Rightarrow>
   env \<Rightarrow> heap \<Rightarrow> (string \<times> bool) res" where
  "for_render h ev loopvar body items [] result noIteration scope hp =
     ok (result, noIteration) scope hp"
| "for_render h ev loopvar body items (i # indices) result noIteration scope hp =
     (case new_object (loop_fields items i) hp of
        (loop, hp1) \<Rightarrow>
          (case scopeUpdate loopvar (js_index items i) (setVariable ''loop'' loop scope) hp1 of
             (Inl err, scope2, hp2) \<Rightarrow> (Inl err, scope2, hp2)
           | (Inr _, scope2, hp2) \<Rightarrow>
               (case evaluateBlock h ev body scope2 hp2 of
                  (Inr evaluated, scope3, hp3) \<Rightarrow>
                    for_render h ev loopvar body items indices
                      (result @ string_payload evaluated) False scope3 hp3
                | (Inl ContinueControl, scope3, hp3) \<Rightarrow>
                    for_render h ev loopvar body items indices result noIteration scope3 hp3
                | (Inl BreakControl, scope3, hp3) \<Rightarrow> ok (result, noIteration) scope3 hp3
                | (Inl err, scope3, hp3) \<Rightarrow> (Inl err, scope3, hp3))))"

definition evaluateFor ::
  "host \<Rightarrow> evaluator \<Rightarrow> node \<Rightarrow> node \<Rightarrow> node list \<Rightarrow> node list \<Rightarrow> env \<Rightarrow> heap \<Rightarrow> runtime_value res" where
  "evaluateFor h ev loopvar iterableNode body defaultBlock environment hp =
     (let scope = new_Environment environment;
          (source, test) = (case iterableNode of
                              SelectExpression lhs t \<Rightarrow> (lhs, Some t)
                            | _ \<Rightarrow> (iterableNode, None))
      in leave_scope
           (bind (ev source scope hp) (\<lambda>iterable scope hp.
              case (case array_ref iterable of
                      Some a \<Rightarrow> Inr (a, hp)
                    | None \<Rightarrow>
                        (case object_ref iterable of
                           Some m \<Rightarrow> (case object_keys m hp of
                                        (keys, hp') \<Rightarrow> Inr (the (array_ref keys), hp'))
                         | None \<Rightarrow>
                             (case get_type iterable of
                                Inl err \<Rightarrow> Inl err
                              | Inr t \<Rightarrow>
                                  Inl (Error (''Expected iterable or object type in for loop: got ''
                                         @ t))))) of
                Inl err \<Rightarrow> throw err scope hp
              | Inr (a, hp) \<Rightarrow>
                  bind (for_collect ev loopvar test a [0..<length (array_at hp a)] [] scope hp)
                    (\<lambda>items scope hp.
                       bind (for_render h ev loopvar body items [0..<length items] [] True scope hp)
                         (\<lambda>(result, noIteration) scope hp.
                            if noIteration
                            then bind (evaluateBlock h ev defaultBlock scope hp)
                                   (\<lambda>defaultEvaluated scope hp.
                                      ok (StringValue (result @ string_payload defaultEvaluated))
                                        scope hp)
                            else ok (StringValue result) scope hp)))))"

subsection \<open>The remaining expressions\<close>

definition evaluateTestExpression ::
  "host \<Rightarrow> evaluator \<Rightarrow> node \<Rightarrow> bool \<Rightarrow> string \<Rightarrow> env \<Rightarrow> heap \<Rightarrow> runtime_value res" where
  "evaluateTestExpression h ev operandNode negate testName e hp =
     bind (ev operandNode e hp) (\<lambda>operand e hp.
       case tests_get h testName of
         None \<Rightarrow> throw (Error (''Unknown test: '' @ testName)) e hp
       | Some test \<Rightarrow>
           (case test [operand] of
              Inl err \<Rightarrow> throw err e hp
            | Inr result \<Rightarrow> ok (BooleanValue (if negate then \<not> result else result)) e hp))"

definition evaluateSelectExpression ::
  "evaluator \<Rightarrow> node \<Rightarrow> node \<Rightarrow> env \<Rightarrow> heap \<Rightarrow> runtime_value res" where
  "evaluateSelectExpression ev lhs test e hp =
     bind (ev test e hp) (\<lambda>predicate e hp.
       case to_bool hp predicate of
         Inl err \<Rightarrow> throw err e hp
       | Inr b \<Rightarrow> if \<not> b then ok UndefinedValue e hp else ev lhs e hp)"

definition evaluateUnaryExpression ::
  "evaluator \<Rightarrow> string \<Rightarrow> node \<Rightarrow> env \<Rightarrow> heap \<Rightarrow> runtime_value res" where
  "evaluateUnaryExpression ev op argumentNode e hp =
     bind (ev argumentNode e hp) (\<lambda>argument e hp.
       if op = ''not''
       then (case get_value argument of
               Inl err \<Rightarrow> throw err e hp
             | Inr p \<Rightarrow> ok (BooleanValue (\<not> payload_truthy p)) e hp)
       else throw (SyntaxError (''Unknown operator: '' @ op)) e hp)"

definition evaluateTernaryExpression ::
  "evaluator \<Rightarrow> node \<Rightarrow> node \<Rightarrow> node \<Rightarrow> env \<Rightarrow> heap \<Rightarrow> runtime_value res" where
  "evaluateTernaryExpression ev condition trueExpr falseExpr e hp =
     bind (ev condition e hp) (\<lambda>cond e hp.
       case to_bool hp cond of
         Inl err \<Rightarrow> throw err e hp
       | Inr b \<Rightarrow> if b then ev trueExpr e hp else ev falseExpr e hp)"

definition evaluateIdentifier :: "string \<Rightarrow> env \<Rightarrow> heap \<Rightarrow> runtime_value res" where
  "evaluateIdentifier name e hp = ok (lookupVariable name e) e hp"

definition evaluateFilterExpression ::
  "host \<Rightarrow> evaluator \<Rightarrow> node \<Rightarrow> node \<Rightarrow> env \<Rightarrow> heap \<Rightarrow> runtime_value res" where
  "evaluateFilterExpression h ev operandNode filterNode e hp =
     bind (ev operandNode e hp) (\<lambda>operand e hp. applyFilter h ev operand filterNode e hp)"

definition evaluateFilterStatement ::
  "host \<Rightarrow> evaluator \<Rightarrow> node \<Rightarrow> node list \<Rightarrow> env \<Rightarrow> heap \<Rightarrow> runtime_value res" where
  "evaluateFilterStatement h ev filterNode body e hp =
     bind (evaluateBlock h ev body e hp) (\<lambda>rendered e hp. applyFilter h ev rendered filterNode e hp)"

text \<open>The loop of the \<open>ObjectLiteral\<close> case; \<open>mapping\<close> is the map built so far.\<close>

fun evaluateObjectLiteral ::
  "evaluator \<Rightarrow> (node \<times> node) list \<Rightarrow> (string \<times> runtime_value) list \<Rightarrow> env \<Rightarrow> heap \<Rightarrow>
   runtime_value res" where
  "evaluateObjectLiteral ev [] mapping e hp =
     (case new_object mapping hp of (v, hp') \<Rightarrow> ok v e hp')"
| "evaluateObjectLiteral ev ((keyNode, valueNode) # entries) mapping e hp =
     bind (ev keyNode e hp) (\<lambda>evaluatedKey e hp.
       case evaluatedKey of
         StringValue key \<Rightarrow>
           bind (ev valueNode e hp) (\<lambda>val e hp.
             evaluateObjectLiteral ev entries (map_set key val mapping) e hp)
       | _ \<Rightarrow>
           (case get_type evaluatedKey of
              Inl err \<Rightarrow> throw err e hp
            | Inr t \<Rightarrow> throw (Error (''Object keys must be strings: got '' @ t)) e hp))"

subsection \<open>The evaluator\<close>

text \<open>The \<open>switch\<close> of \<open>evaluate\<close> on the node's type, with \<open>ev\<close> for the recursive calls.\<close>

definition evaluate_node :: "host \<Rightarrow> evaluator \<Rightarrow> node \<Rightarrow> env \<Rightarrow> heap \<Rightarrow> runtime_value res" where
  "evaluate_node h ev statement e hp =
     (case statement of
        Program body \<Rightarrow> evalProgram h ev body e hp
      | SetStatement assignee valueNode body \<Rightarrow> evaluateSet h ev assignee valueNode body e hp
      | IfStatement test body alternate \<Rightarrow> evaluateIf h ev test body alternate e hp
      | For loopvar iterable body defaultBlock \<Rightarrow>
          evaluateFor h ev loopvar iterable body defaultBlock e hp
      | Macro name nodeArgs body \<Rightarrow> evaluateMacro name nodeArgs body e hp
      | CallStatement callee args callerParams body \<Rightarrow>
          evaluateCallStatement h ev callee args callerParams body e hp
      | Break \<Rightarrow> throw BreakControl e hp
      | Continue \<Rightarrow> throw ContinueControl e hp
      | IntegerLiteral n \<Rightarrow> ok (IntegerValue n) e hp
      | FloatLiteral n \<Rightarrow> ok (FloatValue n) e hp
      | StringLiteral s \<Rightarrow> ok (StringValue s) e hp
      | ArrayLiteral elems \<Rightarrow>
          bind (evaluate_all ev elems e hp) (\<lambda>vs e hp.
            case new_array vs hp of (v, hp') \<Rightarrow> ok v e hp')
      | TupleLiteral elems \<Rightarrow>
          bind (evaluate_all ev elems e hp) (\<lambda>vs e hp.
            ok (TupleValue (length hp)) e (hp @ [ArrayCell vs]))
      | ObjectLiteral entries \<Rightarrow> evaluateObjectLiteral ev entries [] e hp
      | Identifier name \<Rightarrow> evaluateIdentifier name e hp
      | CallExpression callee args \<Rightarrow> evaluateCallExpression h ev callee args e hp
      | MemberExpression object property computed \<Rightarrow>
          evaluateMemberExpression h ev object property computed e hp
      | UnaryExpression op argument \<Rightarrow> evaluateUnaryExpression ev op argument e hp
      | BinaryExpression op left right \<Rightarrow> evaluateBinaryExpression h ev op left right e hp
      | FilterExpression operand filterNode \<Rightarrow> evaluateFilterExpression h ev operand filterNode e hp
      | FilterStatement filterNode body \<Rightarrow> evaluateFilterStatement h ev filterNode body e hp
      | TestExpression operand negate test \<Rightarrow> evaluateTestExpression h ev operand negate test e hp
      | SelectExpression lhs test \<Rightarrow> evaluateSelectExpression ev lhs test e hp
      | Ternary condition trueExpr falseExpr \<Rightarrow>
          evaluateTernaryExpression ev condition trueExpr falseExpr e hp
      | Comment \<Rightarrow> ok NullValue e hp
      | _ \<Rightarrow> throw (SyntaxError (''Unknown node type: '' @ node_type statement)) e hp)"

text \<open>\<open>evaluate\<close>, with the depth of host calls still available: every nested call of
  \<open>this.evaluate\<close> has one less, and with none left the host throws its stack-overflow
  error.\<close>

primrec evaluate :: "host \<Rightarrow> nat \<Rightarrow> node \<Rightarrow> env \<Rightarrow> heap \<Rightarrow> runtime_value res" where
  "evaluate h 0 statement e hp = throw stack_overflow e hp"
| "evaluate h (Suc depth) statement e hp = evaluate_node h (evaluate h depth) statement e hp"

text \<open>\<open>Interpreter.run\<close>, for an interpreter whose \<open>global\<close> environment is \<open>global\<close>.\<close>

definition run :: "host \<Rightarrow> nat \<Rightarrow> node \<Rightarrow> env \<Rightarrow> heap \<Rightarrow> runtime_value res" where
  "run h depth program global hp = evaluate h depth program global hp"

text \<open>\<open>setupGlobals\<close>: the calls of \<open>env.set\<close>, in order.\<close>

fun set_all :: "(string \<times> hostval) list \<Rightarrow> env \<Rightarrow> heap \<Rightarrow> unit res" where
  "set_all [] e hp = ok () e hp"
| "set_all ((name, x) # rest) e hp =
     bind (Environment_set name x e hp) (\<lambda>_ e hp. set_all rest e hp)"

definition setupGlobals :: "env \<Rightarrow> heap \<Rightarrow> unit res" where
  "setupGlobals e hp =
     set_all [(''false'', HBoolean False), (''true'', HBoolean True), (''none'', HNull),
              (''raise_exception'', HFunction RaiseException), (''range'', HFunction Range),
              (''strftime_now'', HFunction StrftimeNow),
              (''True'', HBoolean True), (''False'', HBoolean False), (''None'', HNull)] e hp"

subsection \<open>Python's \<open>str.split\<close>, for comparison\<close>

text \<open>The two definitions of this subsection are not translated from the source. They
  follow the words of the specification of \<open>split\<close>, to be compared with the builtin:
  with no separator, "split on runs of whitespace, trimming leading whitespace; when
  maxsplit is reached, the remainder (including interior whitespace) becomes the last
  element"; with a separator, "split; when maxsplit is reached, rejoin the tail with
  sep", that is, the text after the last split stays whole. \<open>limit\<close> is the number of
  splits still allowed, \<open>None\<close> for no limit.\<close>

function spec_split_whitespace :: "nat option \<Rightarrow> string \<Rightarrow> string list" where
  "spec_split_whitespace limit s =
     (let t = dropWhile is_space s in
      if t = [] then []
      else if limit = Some 0 then [t]
      else takeWhile non_space t #
           spec_split_whitespace (map_option (\<lambda>k. k - 1) limit) (dropWhile non_space t))"
  by pat_completeness auto
termination
proof (relation "measure (\<lambda>(limit, s). length s)")
  show "wf (measure (\<lambda>(limit, s). length s))" by simp
next
  fix limit :: "nat option" and s t :: string
  assume t: "t = dropWhile is_space s" and ne: "t \<noteq> []"
  from ne obtain c cs where c: "t = c # cs" by (cases t) auto
  have "\<not> is_space c" using t c hd_dropWhile[of is_space s] by (metis list.sel(1) ne)
  then have "length (dropWhile non_space t) < length t"
    using c by (simp add: non_space_def length_dropWhile_le le_imp_less_Suc)
  moreover have "length t \<le> length s" using t by (simp add: length_dropWhile_le)
  ultimately show "((map_option (\<lambda>k. k - 1) limit, dropWhile non_space t), (limit, s))
      \<in> measure (\<lambda>(limit, s). length s)"
    by simp
qed

function spec_split_separator :: "nat option \<Rightarrow> string \<Rightarrow> string \<Rightarrow> string list" where
  "spec_split_separator limit sep s =
     (if sep = [] \<or> limit = Some 0 then [s]
      else (case find_sep sep s of
              None \<Rightarrow> [s]
            | Some (before, after) \<Rightarrow>
                before # spec_split_separator (map_option (\<lambda>k. k - 1) limit) sep after))"
  by pat_completeness auto
termination
proof (relation "measure (\<lambda>(limit, sep, s). length s)")
  show "wf (measure (\<lambda>(limit, sep, s). length s))" by simp
next
  fix limit :: "nat option" and sep s :: string and x2 before after
  assume a: "\<not> (sep = [] \<or> limit = Some 0)" and found: "find_sep sep s = Some x2" "(before, after) = x2"
  have shorter: "find_sep sep t = Some (b, a) \<Longrightarrow> length a < length t" for t b a
  proof (induction t arbitrary: b a)
    case Nil
    then show ?case using a by simp
  next
    case (Cons c cs)
    show ?case
    proof (cases "take (length sep) (c # cs) = sep")
      case True
      then show ?thesis using Cons.prems a by (cases sep) auto
    next
      case False
      then show ?thesis using Cons by (fastforce split: option.splits)
    qed
  qed
  from found have "find_sep sep s = Some (before, after)" by simp
  then show "((map_option (\<lambda>k. k - 1) limit, sep, after), (limit, sep, s)) \<in> measure (\<lambda>(limit, sep, s). length s)"
    using shorter by simp
qed

text \<open>The \<open>maxsplit\<close> argument that asks for a limit: -1 for none.\<close>

definition limit_arg :: "nat option \<Rightarrow> jsnum" where
  "limit_arg limit = (case limit of None \<Rightarrow> num_of_int (- 1) | Some k \<Rightarrow> num_of_nat k)"

subsection \<open>A host for running examples\<close>

text \<open>An instance of the host record, used only to evaluate the examples below on
  concrete templates. None of them reaches one of its functions with an argument on
  which the choice made here matters.\<close>

definition demo_host :: host where
  "demo_host = \<lparr>
     h_toUpperCase = (\<lambda>s. s), h_toLowerCase = (\<lambda>s. s), h_localeCompare = (\<lambda>s t. Fin 0),
     h_parseInt = (\<lambda>s. NaN), h_parseFloat = (\<lambda>s. NaN), h_toNumber = (\<lambda>s. NaN),
     h_numberToString = (\<lambda>r. ''?''), h_jsonString = (\<lambda>s. s), h_jsonNode = (\<lambda>n. ''?''),
     h_functionSource = (\<lambda>f. ''function''), h_titleCase = (\<lambda>s. s),
     h_replace = (\<lambda>s a b c. s), h_slice = (\<lambda>n a b c. Inr []),
     h_call = (\<lambda>f ps hp. Inr HUndefined) \<rparr>"

section \<open>Properties\<close>

subsection \<open>Sequencing\<close>

lemma bind_Inr: "bind (Inr a, e, hp) f = f a e hp"
  by (simp add: bind_def)

lemma bind_Inl: "bind (Inl err, e, hp) f = (Inl err, e, hp)"
  by (simp add: bind_def)

subsection \<open>Blocks and programs render strings\<close>

lemma evaluateBlock_loop_outcome:
  "(\<exists>err e' hp'. evaluateBlock_loop h ev stmts result e hp = (Inl err, e', hp'))
   \<or> (\<exists>s e' hp'. evaluateBlock_loop h ev stmts result e hp = (Inr (StringValue s), e', hp'))"
proof (induction stmts arbitrary: result e hp)
  case Nil
  then show ?case by (simp add: ok_def)
next
  case (Cons statement stmts)
  obtain out e1 hp1 where r: "ev statement e hp = (out, e1, hp1)" by (cases "ev statement e hp")
  show ?case
  proof (cases out)
    case (Inl err)
    then show ?thesis using r by (simp add: bind_Inl)
  next
    case (Inr v)
    show ?thesis
    proof (cases "get_type v")
      case (Inl err)
      then show ?thesis using r Inr by (simp add: bind_Inr throw_def)
    next
      case t: (Inr t)
      show ?thesis
      proof (cases "t \<noteq> ''NullValue'' \<and> t \<noteq> ''UndefinedValue''")
        case True
        show ?thesis
        proof (cases "toString h hp1 v")
          case (Inl err)
          then show ?thesis using r Inr t True by (simp add: bind_Inr throw_def)
        next
          case s: (Inr s)
          show ?thesis using r Inr t True s Cons.IH[of "result @ s" e1 hp1]
            by (simp add: bind_Inr)
        qed
      next
        case False
        then show ?thesis using r Inr t Cons.IH[of result e1 hp1]
          by (auto simp add: bind_Inr)
      qed
    qed
  qed
qed

lemma evaluateBlock_loop_prefix:
  "evaluateBlock_loop h ev stmts (r1 @ r2) e hp =
     (case evaluateBlock_loop h ev stmts r2 e hp of
        (Inl err, e', hp') \<Rightarrow> (Inl err, e', hp')
      | (Inr v, e', hp') \<Rightarrow> (Inr (StringValue (r1 @ string_payload v)), e', hp'))"
proof (induction stmts arbitrary: r2 e hp)
  case Nil
  then show ?case by (simp add: ok_def string_payload_def)
next
  case (Cons statement stmts)
  obtain out e1 hp1 where r: "ev statement e hp = (out, e1, hp1)" by (cases "ev statement e hp")
  show ?case
  proof (cases out)
    case (Inl err)
    then show ?thesis using r by (simp add: bind_Inl)
  next
    case (Inr v)
    show ?thesis
    proof (cases "get_type v")
      case (Inl err)
      then show ?thesis using r Inr by (simp add: bind_Inr throw_def)
    next
      case t: (Inr t)
      show ?thesis
      proof (cases "t \<noteq> ''NullValue'' \<and> t \<noteq> ''UndefinedValue''")
        case True
        show ?thesis
        proof (cases "toString h hp1 v")
          case (Inl err)
          then show ?thesis using r Inr t True by (simp add: bind_Inr throw_def)
        next
          case s: (Inr s)
          show ?thesis using r Inr t True s Cons.IH[of "r2 @ s" e1 hp1]
            by (simp add: bind_Inr)
        qed
      next
        case False
        then show ?thesis using r Inr t Cons.IH[of r2 e1 hp1]
          by (auto simp add: bind_Inr)
      qed
    qed
  qed
qed

lemma get_type_skipped:
  "(get_type v = Inr ''NullValue'' \<or> get_type v = Inr ''UndefinedValue'') = (v = NullValue \<or> v = UndefinedValue)"
  by (cases v) (simp_all add: get_type_def)

text \<open>
  Claim C1. For every program body and every environment, \<open>run\<close> on the \<open>Program\<close> node
  either throws or returns a \<open>StringValue\<close>, and so does \<open>evaluateBlock\<close> on any list of
  statements, whatever the evaluator \<open>ev\<close> of single statements does. The block evaluator
  accumulates: the empty block gives the empty string; a statement that throws ends the
  block with its exception; a statement whose result is \<open>NullValue\<close> or \<open>UndefinedValue\<close>
  adds nothing; any other result adds its \<open>toString()\<close> in front of what the rest of the
  block renders.
\<close>

theorem run_returns_a_string:
  "((\<exists>err e' hp'. run h depth (Program body) global hp = (Inl err, e', hp'))
      \<or> (\<exists>s e' hp'. run h depth (Program body) global hp = (Inr (StringValue s), e', hp')))
   \<and> ((\<exists>err e' hp'. evaluateBlock h ev statements e hp = (Inl err, e', hp'))
      \<or> (\<exists>s e' hp'. evaluateBlock h ev statements e hp = (Inr (StringValue s), e', hp')))
   \<and> evaluateBlock h ev [] e hp = (Inr (StringValue []), e, hp)
   \<and> (ev statement e hp = (Inl err, e1, hp1) \<longrightarrow>
        evaluateBlock h ev (statement # statements) e hp = (Inl err, e1, hp1))
   \<and> (ev statement e hp = (Inr v, e1, hp1) \<and> (v = NullValue \<or> v = UndefinedValue) \<longrightarrow>
        evaluateBlock h ev (statement # statements) e hp = evaluateBlock h ev statements e1 hp1)
   \<and> (ev statement e hp = (Inr v, e1, hp1) \<and> v \<noteq> NullValue \<and> v \<noteq> UndefinedValue
        \<and> toString h hp1 v = Inr t
        \<and> evaluateBlock h ev statements e1 hp1 = (Inr (StringValue r), e2, hp2) \<longrightarrow>
        evaluateBlock h ev (statement # statements) e hp = (Inr (StringValue (t @ r)), e2, hp2))"
proof -
  have block: "(\<exists>err e' hp'. evaluateBlock h ev' stmts env hp0 = (Inl err, e', hp'))
      \<or> (\<exists>s e' hp'. evaluateBlock h ev' stmts env hp0 = (Inr (StringValue s), e', hp'))"
    for ev' stmts env hp0
    using evaluateBlock_loop_outcome[of h ev' stmts "[]" env hp0] by (simp add: evaluateBlock_def)
  have a: "(\<exists>err e' hp'. run h depth (Program body) global hp = (Inl err, e', hp'))
      \<or> (\<exists>s e' hp'. run h depth (Program body) global hp = (Inr (StringValue s), e', hp'))"
  proof (cases depth)
    case 0
    then show ?thesis by (simp add: run_def throw_def)
  next
    case (Suc d)
    then show ?thesis using block[of "evaluate h d" body global hp]
      by (simp add: run_def evaluate_node_def evalProgram_def)
  qed
  have c: "evaluateBlock h ev [] e hp = (Inr (StringValue []), e, hp)"
    by (simp add: evaluateBlock_def ok_def)
  have d: "evaluateBlock h ev (statement # statements) e hp = (Inl err, e1, hp1)"
    if "ev statement e hp = (Inl err, e1, hp1)"
    using that by (simp add: evaluateBlock_def bind_Inl)
  have f: "evaluateBlock h ev (statement # statements) e hp = evaluateBlock h ev statements e1 hp1"
    if "ev statement e hp = (Inr v, e1, hp1)" "v = NullValue \<or> v = UndefinedValue"
    using that by (auto simp add: evaluateBlock_def bind_Inr get_type_def)
  have g: "evaluateBlock h ev (statement # statements) e hp = (Inr (StringValue (t @ r)), e2, hp2)"
    if g1: "ev statement e hp = (Inr v, e1, hp1)" and g2: "v \<noteq> NullValue" and g3: "v \<noteq> UndefinedValue"
      and g4: "toString h hp1 v = Inr t"
      and g5: "evaluateBlock h ev statements e1 hp1 = (Inr (StringValue r), e2, hp2)"
  proof -
    have nh: "v \<noteq> HostUndefined" using g4 by (auto simp: toString_def)
    obtain ty where ty: "get_type v = Inr ty" "ty \<noteq> ''NullValue''" "ty \<noteq> ''UndefinedValue''"
      using nh g2 g3 by (cases v) (simp_all add: get_type_def)
    have "evaluateBlock h ev (statement # statements) e hp = evaluateBlock_loop h ev statements ([] @ t) e1 hp1"
      using g1 g4 ty by (simp add: evaluateBlock_def bind_Inr)
    also have "\<dots> = evaluateBlock_loop h ev statements (t @ []) e1 hp1" by simp
    also have "\<dots> = (Inr (StringValue (t @ r)), e2, hp2)"
      using g5 unfolding evaluateBlock_loop_prefix[of h ev statements t "[]" e1 hp1]
      by (simp add: evaluateBlock_def string_payload_def)
    finally show ?thesis .
  qed
  show ?thesis using a block[of ev statements e hp] c d f g by blast
qed

theorem run_returns_a_string_witness:
  "run demo_host 2 (Program [StringLiteral ''a'', Comment, IntegerLiteral (Fin 1)]) [new_frame] []
     = (Inr (StringValue ''a1''), [new_frame], [])"
proof -
  let ?ev = "evaluate demo_host 1"
  have s1: "?ev (StringLiteral ''a'') [new_frame] [] = (Inr (StringValue ''a''), [new_frame], [])"
    by (simp add: evaluate_node_def ok_def)
  have s2: "?ev Comment [new_frame] [] = (Inr NullValue, [new_frame], [])"
    by (simp add: evaluate_node_def ok_def)
  have s3: "?ev (IntegerLiteral (Fin 1)) [new_frame] [] = (Inr (IntegerValue (Fin 1)), [new_frame], [])"
    by (simp add: evaluate_node_def ok_def)
  have t1: "toString demo_host [] (StringValue ''a'') = Inr ''a''" by (simp add: toString_def)
  have t3: "toString demo_host [] (IntegerValue (Fin 1)) = Inr ''1''"
    by code_simp
  have b0: "evaluateBlock demo_host ?ev [] [new_frame] [] = (Inr (StringValue []), [new_frame], [])"
    using run_returns_a_string[where h=demo_host and ev="?ev" and e="[new_frame]" and hp="[]"] by blast
  have b3: "evaluateBlock demo_host ?ev [IntegerLiteral (Fin 1)] [new_frame] [] = (Inr (StringValue (''1'' @ [])), [new_frame], [])"
    using run_returns_a_string[where h=demo_host and ev="?ev" and e="[new_frame]" and hp="[]"
        and statement="IntegerLiteral (Fin 1)" and statements="[]" and v="IntegerValue (Fin 1)"
        and ?e1.0="[new_frame]" and ?hp1.0="[]" and t="''1''" and r="[]" and ?e2.0="[new_frame]" and ?hp2.0="[]"]
      s3 t3 b0 by simp
  have b2: "evaluateBlock demo_host ?ev [Comment, IntegerLiteral (Fin 1)] [new_frame] [] = (Inr (StringValue ''1''), [new_frame], [])"
    using run_returns_a_string[where h=demo_host and ev="?ev" and e="[new_frame]" and hp="[]"
        and statement="Comment" and statements="[IntegerLiteral (Fin 1)]" and v="NullValue"
        and ?e1.0="[new_frame]" and ?hp1.0="[]"]
      s2 b3 by simp
  have b1: "evaluateBlock demo_host ?ev [StringLiteral ''a'', Comment, IntegerLiteral (Fin 1)] [new_frame] []
      = (Inr (StringValue (''a'' @ ''1'')), [new_frame], [])"
    using run_returns_a_string[where h=demo_host and ev="?ev" and e="[new_frame]" and hp="[]"
        and statement="StringLiteral ''a''" and statements="[Comment, IntegerLiteral (Fin 1)]" and v="StringValue ''a''"
        and ?e1.0="[new_frame]" and ?hp1.0="[]" and t="''a''" and r="''1''" and ?e2.0="[new_frame]" and ?hp2.0="[]"]
      s1 t1 b2 by simp
  have "run demo_host 2 (Program [StringLiteral ''a'', Comment, IntegerLiteral (Fin 1)]) [new_frame] []
      = evaluateBlock demo_host ?ev [StringLiteral ''a'', Comment, IntegerLiteral (Fin 1)] [new_frame] []"
    by (simp add: run_def evaluate_node_def evalProgram_def numeral_2_eq_2)
  then show ?thesis using b1 by simp
qed

subsection \<open>Macros bind their parameters in a scope of the call site\<close>

text \<open>
  Claim C2. Defining a macro stores a function that holds the macro's node and no
  environment. A call expression, and likewise a call statement, whose callee evaluates
  to that function calls it with the environment of the call site (for a call statement,
  a child of it that binds \<open>caller\<close>), passing the positional arguments followed, when
  there are keyword arguments (always, for a call statement), by one
  \<open>KeywordArgumentsValue\<close> that holds them. The call takes that last value off as the
  caller's keyword arguments, and evaluates the body in a fresh child frame of the
  environment it was given, after binding the declared parameters there one by one.
  The parameter at index \<open>i\<close> takes the positional argument at \<open>i\<close> when there is one,
  with or without a default. With no positional argument, a parameter without default
  throws "Missing positional argument", and a parameter with a default takes the
  caller's keyword argument of its name, or else the value of its default expression
  evaluated in the macro's scope, where the earlier parameters are already bound. So a
  macro with the one parameter \<open>x = d\<close>, called with the keyword argument \<open>x = v\<close>,
  evaluates its body with \<open>x\<close> bound to \<open>v\<close> in a fresh frame above the call site.
\<close>

theorem macro_binds_in_call_scope:
  "evaluateMacro name nodeArgs body defEnv hp =
      (Inr NullValue, setVariable name (FunctionValue (MacroFunction name nodeArgs body)) defEnv, hp)
   \<and> (evaluateArguments ev argNodes e hp = (Inr (pos, kw), e1, hp1)
        \<and> ev callee e1 (if kw = [] then hp1 else hp1 @ [MapCell kw]) =
            (Inr (FunctionValue (MacroFunction name nodeArgs body)), scope, hp2) \<longrightarrow>
      evaluateCallExpression h ev callee argNodes e hp =
        call_function h ev (MacroFunction name nodeArgs body)
          (if kw = [] then pos else pos @ [KeywordArgumentsValue (length hp1)]) scope hp2)
   \<and> (evaluateArguments ev argNodes e hp = (Inr (pos, kw), e1, hp1)
        \<and> ev callee e1 (hp1 @ [MapCell kw]) =
            (Inr (FunctionValue (MacroFunction name nodeArgs body)), scope, hp2) \<longrightarrow>
      evaluateCallStatement h ev callee argNodes callerParams callerBody e hp =
        leave_scope
          (call_function h ev (MacroFunction name nodeArgs body)
             (pos @ [KeywordArgumentsValue (length hp1)])
             (setVariable ''caller'' (FunctionValue (CallerFunction callerParams callerBody))
                (new_frame # scope)) hp2))
   \<and> call_function h ev (MacroFunction name nodeArgs body) (pos @ [KeywordArgumentsValue a]) scope hp =
      leave_scope
        (bind (bind_macro_arguments ev nodeArgs 0 pos (Some a) (new_frame # scope) hp)
           (\<lambda>_ e hp. evaluateBlock h ev body e hp))
   \<and> (pos = [] \<or> (\<forall>a. last pos \<noteq> KeywordArgumentsValue a) \<longrightarrow>
      call_function h ev (MacroFunction name nodeArgs body) pos scope hp =
        leave_scope
          (bind (bind_macro_arguments ev nodeArgs 0 pos None (new_frame # scope) hp)
             (\<lambda>_ e hp. evaluateBlock h ev body e hp)))
   \<and> bind_macro_arguments ev [] i pos kwargs macroScope hp = (Inr (), macroScope, hp)
   \<and> bind_macro_arguments ev (nodeArg # rest) i pos kwargs macroScope hp =
        bind (bind_macro_argument ev nodeArg (js_index pos i) kwargs macroScope hp)
          (\<lambda>_ e hp. bind_macro_arguments ev rest (i + 1) pos kwargs e hp)
   \<and> (i < length pos \<and> pos ! i \<noteq> HostUndefined \<longrightarrow>
        bind_macro_argument ev (Identifier x) (js_index pos i) kwargs macroScope hp =
          (Inr (), setVariable x (pos ! i) macroScope, hp)
        \<and> bind_macro_argument ev (KeywordArgumentExpression x d) (js_index pos i) kwargs macroScope hp =
          (Inr (), setVariable x (pos ! i) macroScope, hp))
   \<and> (length pos \<le> i \<longrightarrow>
        bind_macro_argument ev (Identifier x) (js_index pos i) kwargs macroScope hp =
          (Inl (Error (''Missing positional argument: '' @ x)), macroScope, hp))
   \<and> (length pos \<le> i \<and> kwargs = Some a \<and> map_of (map_at hp a) x = Some v \<and> v \<noteq> HostUndefined \<longrightarrow>
        bind_macro_argument ev (KeywordArgumentExpression x d) (js_index pos i) kwargs macroScope hp =
          (Inr (), setVariable x v macroScope, hp))
   \<and> (length pos \<le> i \<and> (kwargs = None \<or> (kwargs = Some a \<and> map_of (map_at hp a) x = None)) \<longrightarrow>
        bind_macro_argument ev (KeywordArgumentExpression x d) (js_index pos i) kwargs macroScope hp =
          bind (ev d macroScope hp) (\<lambda>val e hp. ok () (setVariable x val e) hp))
   \<and> (evaluateArguments ev argNodes e hp = (Inr ([], kw), e1, hp1)
        \<and> map_of kw x = Some v \<and> v \<noteq> HostUndefined
        \<and> ev callee e1 (hp1 @ [MapCell kw]) =
            (Inr (FunctionValue (MacroFunction name [KeywordArgumentExpression x d] body)),
             scope, hp1 @ [MapCell kw]) \<longrightarrow>
      evaluateCallExpression h ev callee argNodes e hp =
        leave_scope (evaluateBlock h ev body (setVariable x v (new_frame # scope)) (hp1 @ [MapCell kw])))"
proof -
  have a: "evaluateMacro name nodeArgs body defEnv hp =
      (Inr NullValue, setVariable name (FunctionValue (MacroFunction name nodeArgs body)) defEnv, hp)"
    by (simp add: evaluateMacro_def ok_def)
  have bG: "evaluateCallExpression h ev callee argNodes e hp =
        call_function h ev (MacroFunction name nodeArgs body)
          (if kw = [] then pos else pos @ [KeywordArgumentsValue (length hp1)]) scope hp2"
    if "evaluateArguments ev argNodes e hp = (Inr (pos, kw), e1, hp1)"
      "ev callee e1 (if kw = [] then hp1 else hp1 @ [MapCell kw]) =
            (Inr (FunctionValue (MacroFunction name nodeArgs body)), scope, hp2)"
    for name nodeArgs body pos kw e1 hp1 scope hp2
    using that
    by (cases "kw = []") (simp_all add: evaluateCallExpression_def bind_Inr call_value_def new_kwargs_def)
  note b = bG[of pos kw e1 hp1 name nodeArgs body scope hp2]
  have b2: "evaluateCallStatement h ev callee argNodes callerParams callerBody e hp =
        leave_scope
          (call_function h ev (MacroFunction name nodeArgs body)
             (pos @ [KeywordArgumentsValue (length hp1)])
             (setVariable ''caller'' (FunctionValue (CallerFunction callerParams callerBody))
                (new_frame # scope)) hp2)"
    if "evaluateArguments ev argNodes e hp = (Inr (pos, kw), e1, hp1)"
      "ev callee e1 (hp1 @ [MapCell kw]) =
            (Inr (FunctionValue (MacroFunction name nodeArgs body)), scope, hp2)"
    using that
    by (simp add: evaluateCallStatement_def bind_Inr new_kwargs_def new_Environment_def Let_def)
  have s1: "split_kwargs (pos @ [KeywordArgumentsValue a]) = (pos, Some a)" for pos a
    by (simp add: split_kwargs_def)
  have s2: "split_kwargs pos = (pos, None)" if "pos = [] \<or> (\<forall>a. last pos \<noteq> KeywordArgumentsValue a)"
    using that by (cases "last pos") (auto simp add: split_kwargs_def)
  have c1G: "call_function h ev (MacroFunction name nodeArgs body) (pos @ [KeywordArgumentsValue a]) scope hp =
      leave_scope
        (bind (bind_macro_arguments ev nodeArgs 0 pos (Some a) (new_frame # scope) hp)
           (\<lambda>_ e hp. evaluateBlock h ev body e hp))"
    for nodeArgs pos a scope hp
    by (simp add: call_function_def macro_call_def new_Environment_def s1)
  note c1 = c1G[of nodeArgs pos a scope hp]
  have c2: "call_function h ev (MacroFunction name nodeArgs body) pos scope hp =
        leave_scope
          (bind (bind_macro_arguments ev nodeArgs 0 pos None (new_frame # scope) hp)
             (\<lambda>_ e hp. evaluateBlock h ev body e hp))"
    if "pos = [] \<or> (\<forall>a. last pos \<noteq> KeywordArgumentsValue a)"
    using s2[OF that] by (simp add: call_function_def macro_call_def new_Environment_def)
  have d0: "bind_macro_arguments ev [] i pos kwargs macroScope hp = (Inr (), macroScope, hp)"
    by (simp add: ok_def)
  have d: "bind_macro_arguments ev (nodeArg # rest) i pos kwargs macroScope hp =
        bind (bind_macro_argument ev nodeArg (js_index pos i) kwargs macroScope hp)
          (\<lambda>_ e hp. bind_macro_arguments ev rest (i + 1) pos kwargs e hp)"
    by simp
  have f: "bind_macro_argument ev (Identifier x) (js_index pos i) kwargs macroScope hp =
          (Inr (), setVariable x (pos ! i) macroScope, hp)
        \<and> bind_macro_argument ev (KeywordArgumentExpression x d) (js_index pos i) kwargs macroScope hp =
          (Inr (), setVariable x (pos ! i) macroScope, hp)"
    if "i < length pos" "pos ! i \<noteq> HostUndefined"
    using that by (simp add: bind_macro_argument_def js_index_def ok_def nullish_or_def)
  have g: "bind_macro_argument ev (Identifier x) (js_index pos i) kwargs macroScope hp =
          (Inl (Error (''Missing positional argument: '' @ x)), macroScope, hp)"
    if "length pos \<le> i"
    using that by (simp add: bind_macro_argument_def js_index_def throw_def)
  have kG: "bind_macro_argument ev (KeywordArgumentExpression x d) (js_index pos i) kwargs macroScope hp =
          (Inr (), setVariable x v macroScope, hp)"
    if "length pos \<le> i" "kwargs = Some a" "map_of (map_at hp a) x = Some v" "v \<noteq> HostUndefined"
    for pos i kwargs a hp v macroScope
    using that by (simp add: bind_macro_argument_def js_index_def ok_def nullish_or_def map_get_def)
  note k = kG[of pos i kwargs a hp v macroScope]
  have l: "bind_macro_argument ev (KeywordArgumentExpression x d) (js_index pos i) kwargs macroScope hp =
          bind (ev d macroScope hp) (\<lambda>val e hp. ok () (setVariable x val e) hp)"
    if "length pos \<le> i" "kwargs = None \<or> (kwargs = Some a \<and> map_of (map_at hp a) x = None)"
    using that by (auto simp add: bind_macro_argument_def js_index_def nullish_or_def map_get_def)
  have m: "evaluateCallExpression h ev callee argNodes e hp =
        leave_scope (evaluateBlock h ev body (setVariable x v (new_frame # scope)) (hp1 @ [MapCell kw]))"
    if m1: "evaluateArguments ev argNodes e hp = (Inr ([], kw), e1, hp1)"
      and m2: "map_of kw x = Some v" and m3: "v \<noteq> HostUndefined"
      and m4: "ev callee e1 (hp1 @ [MapCell kw]) =
            (Inr (FunctionValue (MacroFunction name [KeywordArgumentExpression x d] body)),
             scope, hp1 @ [MapCell kw])"
  proof -
    from m2 have ne: "kw \<noteq> []" by auto
    have cell: "map_of (map_at (hp1 @ [MapCell kw]) (length hp1)) x = Some v"
      using m2 by (simp add: map_at_def)
    have "evaluateCallExpression h ev callee argNodes e hp =
        call_function h ev (MacroFunction name [KeywordArgumentExpression x d] body)
          ([] @ [KeywordArgumentsValue (length hp1)]) scope (hp1 @ [MapCell kw])"
      using bG[OF m1] m4 ne by simp
    also have "\<dots> = leave_scope
        (bind (bind_macro_arguments ev [KeywordArgumentExpression x d] 0 [] (Some (length hp1))
                 (new_frame # scope) (hp1 @ [MapCell kw]))
           (\<lambda>_ e hp. evaluateBlock h ev body e hp))"
      by (rule c1G)
    also have "\<dots> = leave_scope
        (evaluateBlock h ev body (setVariable x v (new_frame # scope)) (hp1 @ [MapCell kw]))"
      using kG[of "[]" 0 "Some (length hp1)" "length hp1" "hp1 @ [MapCell kw]" v "new_frame # scope"]
        cell m3
      by (simp add: bind_Inr ok_def)
    finally show ?thesis .
  qed
  show ?thesis using a b b2 c1 c2 d0 d f g k l m by blast
qed


theorem macro_binds_in_call_scope_witness:
  "call_function demo_host (evaluate demo_host 3)
      (MacroFunction ''m'' [Identifier ''a'', KeywordArgumentExpression ''b'' (IntegerLiteral (Fin 2))]
         [Identifier ''a'', Identifier ''b'', Identifier ''x''])
      ([IntegerValue (Fin 1)] @ [KeywordArgumentsValue 0]) [[(''x'', StringValue ''!'')]]
      [MapCell [(''b'', IntegerValue (Fin 5))]]
     = (Inr (StringValue ''15!''), [[(''x'', StringValue ''!'')]], [MapCell [(''b'', IntegerValue (Fin 5))]])
   \<and> call_function demo_host (evaluate demo_host 3)
      (MacroFunction ''m'' [Identifier ''a'', KeywordArgumentExpression ''b'' (IntegerLiteral (Fin 2))]
         [Identifier ''a'', Identifier ''b'', Identifier ''x''])
      [IntegerValue (Fin 1)] [[(''x'', StringValue ''!'')]] []
     = (Inr (StringValue ''12!''), [[(''x'', StringValue ''!'')]], [])
   \<and> bind_macro_argument (evaluate demo_host 3) (Identifier ''a'') (js_index [] 0) None [new_frame] []
     = (Inl (Error ''Missing positional argument: a''), [new_frame], [])
   \<and> evaluateCallExpression demo_host (evaluate demo_host 3) (Identifier ''m'')
        [KeywordArgumentExpression ''b'' (IntegerLiteral (Fin 5))]
        [[(''m'', FunctionValue (MacroFunction ''m''
             [KeywordArgumentExpression ''b'' (IntegerLiteral (Fin 2))] [Identifier ''b'']))]] []
     = (Inr (StringValue ''5''),
        [[(''m'', FunctionValue (MacroFunction ''m''
             [KeywordArgumentExpression ''b'' (IntegerLiteral (Fin 2))] [Identifier ''b'']))]],
        [MapCell [(''b'', IntegerValue (Fin 5))]])
   \<and> fst (evaluateCallStatement demo_host (evaluate demo_host 3) (Identifier ''m'')
        [KeywordArgumentExpression ''b'' (IntegerLiteral (Fin 5))] None [StringLiteral ''hi'']
        [[(''m'', FunctionValue (MacroFunction ''m''
             [KeywordArgumentExpression ''b'' (IntegerLiteral (Fin 2))]
             [Identifier ''b'', CallExpression (Identifier ''caller'') []]))]] [])
     = Inr (StringValue ''5hi'')"
proof -
  let ?ev = "evaluate demo_host 3"
  let ?kw = "[(''b'', IntegerValue (Fin 5))]"
  let ?args = "[KeywordArgumentExpression ''b'' (IntegerLiteral (Fin 5))]"
  let ?params = "[KeywordArgumentExpression ''b'' (IntegerLiteral (Fin 2))]"
  let ?E = "[[(''m'', FunctionValue (MacroFunction ''m'' ?params [Identifier ''b'']))]]"
  let ?body2 = "[Identifier ''b'', CallExpression (Identifier ''caller'') []]"
  let ?E2 = "[[(''m'', FunctionValue (MacroFunction ''m'' ?params ?body2))]]"
  have a: "call_function demo_host ?ev
      (MacroFunction ''m'' [Identifier ''a'', KeywordArgumentExpression ''b'' (IntegerLiteral (Fin 2))]
         [Identifier ''a'', Identifier ''b'', Identifier ''x''])
      ([IntegerValue (Fin 1)] @ [KeywordArgumentsValue 0]) [[(''x'', StringValue ''!'')]] [MapCell ?kw]
     = (Inr (StringValue ''15!''), [[(''x'', StringValue ''!'')]], [MapCell ?kw])"
    unfolding macro_binds_in_call_scope[where h=demo_host and ev="?ev" and name="''m''"
        and nodeArgs="[Identifier ''a'', KeywordArgumentExpression ''b'' (IntegerLiteral (Fin 2))]"
        and body="[Identifier ''a'', Identifier ''b'', Identifier ''x'']"
        and pos="[IntegerValue (Fin 1)]" and a=0 and scope="[[(''x'', StringValue ''!'')]]"
        and hp="[MapCell ?kw]",
        THEN conjunct2, THEN conjunct2, THEN conjunct2, THEN conjunct1]
    by code_simp
  have b0: "[IntegerValue (Fin 1)] = [] \<or> (\<forall>a. last [IntegerValue (Fin 1)] \<noteq> KeywordArgumentsValue a)"
    by simp
  have b: "call_function demo_host ?ev
      (MacroFunction ''m'' [Identifier ''a'', KeywordArgumentExpression ''b'' (IntegerLiteral (Fin 2))]
         [Identifier ''a'', Identifier ''b'', Identifier ''x''])
      [IntegerValue (Fin 1)] [[(''x'', StringValue ''!'')]] []
     = (Inr (StringValue ''12!''), [[(''x'', StringValue ''!'')]], [])"
    unfolding macro_binds_in_call_scope[where h=demo_host and ev="?ev" and name="''m''"
        and nodeArgs="[Identifier ''a'', KeywordArgumentExpression ''b'' (IntegerLiteral (Fin 2))]"
        and body="[Identifier ''a'', Identifier ''b'', Identifier ''x'']"
        and pos="[IntegerValue (Fin 1)]" and scope="[[(''x'', StringValue ''!'')]]" and hp="[]",
        THEN conjunct2, THEN conjunct2, THEN conjunct2, THEN conjunct2, THEN conjunct1, THEN mp, OF b0]
    by code_simp
  have c: "bind_macro_argument ?ev (Identifier ''a'') (js_index [] 0) None [new_frame] []
     = (Inl (Error ''Missing positional argument: a''), [new_frame], [])"
    using macro_binds_in_call_scope[where ev="?ev" and pos="[]" and i=0 and x="''a''"
        and kwargs=None and macroScope="[new_frame]" and hp="[]"]
    by simp
  have h1: "evaluateArguments ?ev ?args ?E [] = (Inr ([], ?kw), ?E, [])" by code_simp
  have h2: "map_of ?kw ''b'' = Some (IntegerValue (Fin 5))" by simp
  have h3: "IntegerValue (Fin 5) \<noteq> HostUndefined" by simp
  have h4: "?ev (Identifier ''m'') ?E ([] @ [MapCell ?kw]) =
      (Inr (FunctionValue (MacroFunction ''m'' ?params [Identifier ''b''])), ?E, [] @ [MapCell ?kw])"
    by code_simp
  have "evaluateCallExpression demo_host ?ev (Identifier ''m'') ?args ?E [] =
      leave_scope (evaluateBlock demo_host ?ev [Identifier ''b'']
        (setVariable ''b'' (IntegerValue (Fin 5)) (new_frame # ?E)) ([] @ [MapCell ?kw]))"
    by (rule macro_binds_in_call_scope[where h=demo_host and ev="?ev" and callee="Identifier ''m''"
          and argNodes="?args" and e="?E" and hp="[]" and kw="?kw" and ?e1.0="?E" and ?hp1.0="[]"
          and x="''b''" and v="IntegerValue (Fin 5)" and name="''m''"
          and d="IntegerLiteral (Fin 2)" and body="[Identifier ''b'']" and scope="?E",
          THEN conjunct2, THEN conjunct2, THEN conjunct2, THEN conjunct2, THEN conjunct2,
          THEN conjunct2, THEN conjunct2, THEN conjunct2, THEN conjunct2, THEN conjunct2,
          THEN conjunct2, THEN mp])
       (intro conjI h1 h2 h3 h4)
  also have "\<dots> = (Inr (StringValue ''5''), ?E, [MapCell ?kw])" by code_simp
  finally have d: "evaluateCallExpression demo_host ?ev (Identifier ''m'') ?args ?E [] =
      (Inr (StringValue ''5''), ?E, [MapCell ?kw])" .
  have g1: "evaluateArguments ?ev ?args ?E2 [] = (Inr ([], ?kw), ?E2, [])" by code_simp
  have g4: "?ev (Identifier ''m'') ?E2 ([] @ [MapCell ?kw]) =
      (Inr (FunctionValue (MacroFunction ''m'' ?params ?body2)), ?E2, [] @ [MapCell ?kw])"
    by code_simp
  have e0: "evaluateCallStatement demo_host ?ev (Identifier ''m'') ?args None [StringLiteral ''hi''] ?E2 [] =
      leave_scope
        (call_function demo_host ?ev (MacroFunction ''m'' ?params ?body2)
           ([] @ [KeywordArgumentsValue (length ([] :: heap))])
           (setVariable ''caller'' (FunctionValue (CallerFunction None [StringLiteral ''hi'']))
              (new_frame # ?E2)) ([] @ [MapCell ?kw]))"
    by (rule macro_binds_in_call_scope[where h=demo_host and ev="?ev" and callee="Identifier ''m''"
          and argNodes="?args" and e="?E2" and hp="[]" and pos="[]" and kw="?kw" and ?e1.0="?E2"
          and ?hp1.0="[]" and name="''m''" and nodeArgs="?params" and body="?body2" and scope="?E2"
          and ?hp2.0="[] @ [MapCell ?kw]" and callerParams=None and callerBody="[StringLiteral ''hi'']",
          THEN conjunct2, THEN conjunct2, THEN conjunct1, THEN mp])
       (intro conjI g1 g4)
  have e: "fst (evaluateCallStatement demo_host ?ev (Identifier ''m'') ?args None
      [StringLiteral ''hi''] ?E2 []) = Inr (StringValue ''5hi'')"
    unfolding e0 by code_simp
  show ?thesis using a b c d e by simp
qed

lemma scenario_macro:
  "evaluate demo_host 6 (Program [
     Macro ''m'' [Identifier ''a'', KeywordArgumentExpression ''b'' (IntegerLiteral (Fin 2))]
       [Identifier ''a'', StringLiteral ''-'', Identifier ''b'', StringLiteral ''-'',
        CallExpression (Identifier ''caller'') []],
     CallStatement (Identifier ''m'') [IntegerLiteral (Fin 1)] None [StringLiteral ''hi'']]) [new_frame] []
   = (Inr (StringValue ''1-2-hi''),
      [new_frame @ [(''m'', FunctionValue (MacroFunction ''m''
          [Identifier ''a'', KeywordArgumentExpression ''b'' (IntegerLiteral (Fin 2))]
          [Identifier ''a'', StringLiteral ''-'', Identifier ''b'', StringLiteral ''-'',
           CallExpression (Identifier ''caller'') []]))]],
      [MapCell []])"
  by code_simp

lemma scenario_call_site:
  "fst (evaluate demo_host 6 (Program [
     Macro ''m'' [] [Identifier ''x''],
     For (Identifier ''x'') (ArrayLiteral [IntegerLiteral (Fin 1), IntegerLiteral (Fin 2)])
       [CallExpression (Identifier ''m'') []] []]) [new_frame] [])
   = Inr (StringValue ''12'')"
  by code_simp

subsection \<open>Variable lookup\<close>

lemma lookupVariable_find:
  "lookupVariable name e =
     (case find (\<lambda>f. map_has f name) e of
        None \<Rightarrow> UndefinedValue
      | Some f \<Rightarrow> nullish_or (map_get f name) UndefinedValue)"
proof (induction e)
  case Nil
  then show ?case by (simp add: lookupVariable_def)
next
  case (Cons f e)
  then show ?case by (simp add: lookupVariable_def)
qed

text \<open>
  Claim C3. \<open>lookupVariable\<close> is total and never returns the host's \<open>undefined\<close>: when no
  frame of the chain has the name it returns \<open>UndefinedValue\<close>, and otherwise the value
  bound in the nearest frame that has it. Evaluating an \<open>Identifier\<close> returns what
  \<open>lookupVariable\<close> gives and leaves the state alone, so for an unbound name it returns
  \<open>UndefinedValue\<close> and does not throw (given one level of host stack).
\<close>

theorem lookupVariable_never_fails:
  "(find (\<lambda>f. map_has f name) e = None \<longrightarrow> lookupVariable name e = UndefinedValue)
   \<and> (find (\<lambda>f. map_has f name) e = Some f \<and> map_of f name = Some v \<and> v \<noteq> HostUndefined
        \<longrightarrow> lookupVariable name e = v)
   \<and> lookupVariable name e \<noteq> HostUndefined
   \<and> evaluate h (Suc depth) (Identifier name) e hp = (Inr (lookupVariable name e), e, hp)
   \<and> (find (\<lambda>f. map_has f name) e = None \<longrightarrow>
        evaluate h (Suc depth) (Identifier name) e hp = (Inr UndefinedValue, e, hp))"
proof -
  have a: "lookupVariable name e \<noteq> HostUndefined"
    by (simp add: lookupVariable_find nullish_or_def split: option.splits)
  have b: "evaluate h (Suc depth) (Identifier name) e hp = (Inr (lookupVariable name e), e, hp)"
    by (simp add: evaluate_node_def evaluateIdentifier_def ok_def)
  show ?thesis using a b
    by (auto simp: lookupVariable_find nullish_or_def map_get_def)
qed

theorem lookupVariable_never_fails_witness:
  "lookupVariable ''y'' [[(''x'', IntegerValue (Fin 1))], [(''x'', IntegerValue (Fin 2))]] = UndefinedValue
   \<and> lookupVariable ''x'' [[(''z'', NullValue)], [(''x'', IntegerValue (Fin 1))], [(''x'', IntegerValue (Fin 2))]]
       = IntegerValue (Fin 1)
   \<and> evaluate demo_host (Suc 0) (Identifier ''y'') [[(''x'', IntegerValue (Fin 1))]] []
       = (Inr UndefinedValue, [[(''x'', IntegerValue (Fin 1))]], [])"
proof -
  have n: "find (\<lambda>f. map_has f ''y'') [[(''x'', IntegerValue (Fin 1))], [(''x'', IntegerValue (Fin 2))]] = None"
    by (simp add: map_has_def)
  have n2: "find (\<lambda>f. map_has f ''y'') [[(''x'', IntegerValue (Fin 1))]] = None"
    by (simp add: map_has_def)
  have s: "find (\<lambda>f. map_has f ''x'') [[(''z'', NullValue)], [(''x'', IntegerValue (Fin 1))], [(''x'', IntegerValue (Fin 2))]]
      = Some [(''x'', IntegerValue (Fin 1))] \<and> map_of [(''x'', IntegerValue (Fin 1))] ''x'' = Some (IntegerValue (Fin 1))
        \<and> IntegerValue (Fin 1) \<noteq> HostUndefined"
    by (simp add: map_has_def)
  show ?thesis
    using lookupVariable_never_fails[of "''y''" "[[(''x'', IntegerValue (Fin 1))], [(''x'', IntegerValue (Fin 2))]]"] n
      lookupVariable_never_fails[of "''x''" "[[(''z'', NullValue)], [(''x'', IntegerValue (Fin 1))], [(''x'', IntegerValue (Fin 2))]]"
         "[(''x'', IntegerValue (Fin 1))]" "IntegerValue (Fin 1)"] s
      lookupVariable_never_fails[of "''y''" "[[(''x'', IntegerValue (Fin 1))]]" _ _ demo_host 0 "[]"] n2
    by blast
qed

subsection \<open>Numeric operators\<close>

lemma evaluateBinaryExpression_operation:
  assumes "ev lnode e hp = (Inr l, e1, hp1)" and "ev rnode e1 hp1 = (Inr r, e2, hp2)"
    and "op \<noteq> ''and''" "op \<noteq> ''or''" "op \<noteq> ''==''" "op \<noteq> ''!=''"
  shows "evaluateBinaryExpression h ev op lnode rnode e hp =
           (case binary_operation h op l r hp2 of (res, hp') \<Rightarrow> (res, e2, hp'))"
  using assms by (simp add: evaluateBinaryExpression_def bind_Inr)

lemma numeric_operation_tags:
  assumes "is_numeric l" "is_numeric r"
  shows "op \<in> {''+'', ''-'', ''*'', ''%''} \<Longrightarrow>
           \<exists>v. numeric_operation op l r = Some v \<and>
               type_name v = (if is_float l \<or> is_float r then ''FloatValue'' else ''IntegerValue'')"
    and "\<exists>v. numeric_operation ''/'' l r = Some v \<and> type_name v = ''FloatValue''"
    and "op \<in> {''<'', ''<='', ''>'', ''>=''} \<Longrightarrow>
           \<exists>v. numeric_operation op l r = Some v \<and> type_name v = ''BooleanValue''"
  by (auto simp: numeric_operation_def Let_def)

lemma binary_operation_numeric:
  assumes "is_numeric l" "is_numeric r" "op \<noteq> ''~''"
  shows "binary_operation h op l r hp =
          (case numeric_operation op l r of
             Some v \<Rightarrow> (Inr v, hp)
           | None \<Rightarrow> (string_operations h op l r hp, hp))"
  using assms
  by (cases l; cases r) (simp_all add: binary_operation_def operand_chain_def split: option.splits)

text \<open>
  Claim C4. When both operands of a binary expression evaluate to numbers
  (\<open>IntegerValue\<close> or \<open>FloatValue\<close>): \<open>+\<close>, \<open>-\<close>, \<open>*\<close> and \<open>%\<close> return an \<open>IntegerValue\<close> when
  both are \<open>IntegerValue\<close> and a \<open>FloatValue\<close> otherwise; \<open>/\<close> returns a \<open>FloatValue\<close> always;
  \<open><\<close>, \<open><=\<close>, \<open>>\<close> and \<open>>=\<close> return a \<open>BooleanValue\<close>. None of them throws.
\<close>

theorem numeric_operators_keep_or_promote:
  assumes left: "ev lnode e hp = (Inr l, e1, hp1)" and right: "ev rnode e1 hp1 = (Inr r, e2, hp2)"
    and num: "is_numeric l" "is_numeric r"
  shows "(op \<in> {''+'', ''-'', ''*'', ''%''} \<longrightarrow>
            (\<exists>v. evaluateBinaryExpression h ev op lnode rnode e hp = (Inr v, e2, hp2) \<and>
                 type_name v = (if type_name l = ''IntegerValue'' \<and> type_name r = ''IntegerValue''
                                then ''IntegerValue'' else ''FloatValue'')))
       \<and> (\<exists>v. evaluateBinaryExpression h ev ''/'' lnode rnode e hp = (Inr v, e2, hp2) \<and>
                 type_name v = ''FloatValue'')
       \<and> (op \<in> {''<'', ''<='', ''>'', ''>=''} \<longrightarrow>
            (\<exists>v. evaluateBinaryExpression h ev op lnode rnode e hp = (Inr v, e2, hp2) \<and>
                 type_name v = ''BooleanValue''))"
proof -
  have tags: "(type_name l = ''IntegerValue'' \<and> type_name r = ''IntegerValue'') = (\<not> (is_float l \<or> is_float r))"
    using num by (cases l; cases r) simp_all
  have a: "\<exists>v. evaluateBinaryExpression h ev op lnode rnode e hp = (Inr v, e2, hp2) \<and>
                 type_name v = (if type_name l = ''IntegerValue'' \<and> type_name r = ''IntegerValue''
                                then ''IntegerValue'' else ''FloatValue'')"
    if "op \<in> {''+'', ''-'', ''*'', ''%''}"
  proof -
    from numeric_operation_tags(1)[OF num that] obtain v where
      v: "numeric_operation op l r = Some v"
         "type_name v = (if is_float l \<or> is_float r then ''FloatValue'' else ''IntegerValue'')"
      by blast
    have "evaluateBinaryExpression h ev op lnode rnode e hp = (Inr v, e2, hp2)"
      using that v(1) evaluateBinaryExpression_operation[OF left right, of op h]
        binary_operation_numeric[OF num, of op h hp2] by auto
    then show ?thesis using v(2) tags by auto
  qed
  have b: "\<exists>v. evaluateBinaryExpression h ev ''/'' lnode rnode e hp = (Inr v, e2, hp2) \<and>
                 type_name v = ''FloatValue''"
  proof -
    from numeric_operation_tags(2)[OF num] obtain v where
      v: "numeric_operation ''/'' l r = Some v" "type_name v = ''FloatValue''" by blast
    have "evaluateBinaryExpression h ev ''/'' lnode rnode e hp = (Inr v, e2, hp2)"
      using v(1) evaluateBinaryExpression_operation[OF left right, of "''/''" h]
        binary_operation_numeric[OF num, of "''/''" h hp2] by auto
    then show ?thesis using v(2) by auto
  qed
  have c: "\<exists>v. evaluateBinaryExpression h ev op lnode rnode e hp = (Inr v, e2, hp2) \<and>
                 type_name v = ''BooleanValue''"
    if "op \<in> {''<'', ''<='', ''>'', ''>=''}"
  proof -
    from numeric_operation_tags(3)[OF num that] obtain v where
      v: "numeric_operation op l r = Some v" "type_name v = ''BooleanValue''" by blast
    have "evaluateBinaryExpression h ev op lnode rnode e hp = (Inr v, e2, hp2)"
      using that v(1) evaluateBinaryExpression_operation[OF left right, of op h]
        binary_operation_numeric[OF num, of op h hp2] by auto
    then show ?thesis using v(2) by auto
  qed
  show ?thesis using a b c by blast
qed

theorem numeric_operators_keep_or_promote_witness:
  "(\<exists>v. evaluateBinaryExpression demo_host (evaluate demo_host 1) ''+'' (IntegerLiteral (Fin 1)) (IntegerLiteral (Fin 2)) [new_frame] []
          = (Inr v, [new_frame], []) \<and> type_name v = ''IntegerValue'')
   \<and> (\<exists>v. evaluateBinaryExpression demo_host (evaluate demo_host 1) ''*'' (IntegerLiteral (Fin 1)) (FloatLiteral (Fin 2)) [new_frame] []
          = (Inr v, [new_frame], []) \<and> type_name v = ''FloatValue'')
   \<and> (\<exists>v. evaluateBinaryExpression demo_host (evaluate demo_host 1) ''/'' (IntegerLiteral (Fin 1)) (IntegerLiteral (Fin 2)) [new_frame] []
          = (Inr v, [new_frame], []) \<and> type_name v = ''FloatValue'')
   \<and> (\<exists>v. evaluateBinaryExpression demo_host (evaluate demo_host 1) ''<'' (IntegerLiteral (Fin 1)) (IntegerLiteral (Fin 2)) [new_frame] []
          = (Inr v, [new_frame], []) \<and> type_name v = ''BooleanValue'')"
proof -
  have i1: "evaluate demo_host 1 (IntegerLiteral (Fin 1)) [new_frame] [] = (Inr (IntegerValue (Fin 1)), [new_frame], [])"
    by (simp add: evaluate_node_def ok_def)
  have i2: "evaluate demo_host 1 (IntegerLiteral (Fin 2)) [new_frame] [] = (Inr (IntegerValue (Fin 2)), [new_frame], [])"
    by (simp add: evaluate_node_def ok_def)
  have f2: "evaluate demo_host 1 (FloatLiteral (Fin 2)) [new_frame] [] = (Inr (FloatValue (Fin 2)), [new_frame], [])"
    by (simp add: evaluate_node_def ok_def)
  show ?thesis
    using numeric_operators_keep_or_promote[where ev="evaluate demo_host 1" and h=demo_host and op="''+''", OF i1 i2]
      numeric_operators_keep_or_promote[where ev="evaluate demo_host 1" and h=demo_host and op="''*''", OF i1 f2]
      numeric_operators_keep_or_promote[where ev="evaluate demo_host 1" and h=demo_host and op="''<''", OF i1 i2]
    by simp
qed

subsection \<open>The \<open>default\<close> filter\<close>

text \<open>In the call form, with a value and a flag, and with a value alone.\<close>

lemma default_filter_call_form:
  assumes "evaluateArguments ev argNodes e hp = (Inr ([d, BooleanValue flag], []), e1, hp1)"
    and "d \<noteq> HostUndefined" and "operand \<noteq> HostUndefined"
  shows "applyFilter h ev operand (CallExpression (Identifier ''default'') argNodes) e hp =
           (Inr (if operand = UndefinedValue \<or> (flag \<and> \<not> truthy hp1 operand) then d else operand),
            e1, hp1)"
  using assms
  by (simp add: applyFilter_def applyFilter_call_def default_filter_def bind_Inr argument_or_def
      js_index_def nullish_or_def ok_def to_bool_def Let_def)

lemma default_filter_one_argument:
  assumes "evaluateArguments ev argNodes e hp = (Inr ([d], []), e1, hp1)"
    and "d \<noteq> HostUndefined"
  shows "applyFilter h ev operand (CallExpression (Identifier ''default'') argNodes) e hp =
           (Inr (if operand = UndefinedValue then d else operand), e1, hp1)"
  using assms
  by (simp add: applyFilter_def applyFilter_call_def default_filter_def bind_Inr argument_or_def
      js_index_def nullish_or_def ok_def map_get_def Let_def)

text \<open>
  Claim C5. The \<open>default\<close> filter is meant to work for every receiver in both surface
  forms. The code handles it only in the call form. Written as a bare identifier, the
  name is looked up among the filters of the receiver's type, and \<open>default\<close> is not one
  of them for any type: for every receiver the application throws and leaves the
  environment and the heap as they were. The template \<open>{{ missing | default }}\<close> throws
  that the filter cannot be applied to an UndefinedValue, while the call form
  \<open>{{ missing | default('-') }}\<close> renders the given value.
\<close>

theorem default_filter_identifier_form_fails:
  "(\<exists>err. applyFilter h ev operand (Identifier ''default'') e hp = (Inl err, e, hp))
   \<and> evaluate h (Suc (Suc depth)) (FilterExpression (Identifier ''missing'') (Identifier ''default''))
        [new_frame] []
      = (Inl (Error (''Cannot apply filter '' @ dquote @ ''default'' @ dquote @
                      '' to type: UndefinedValue'')), [new_frame], [])
   \<and> fst (evaluate h (Suc (Suc depth)) (FilterExpression (Identifier ''missing'')
              (CallExpression (Identifier ''default'') [StringLiteral ''-''])) [new_frame] [])
      = Inr (StringValue ''-'')"
proof -
  have a: "\<exists>err. applyFilter_identifier h ''default'' operand hp = (Inl err, hp)"
    by (cases operand)
       (simp_all add: applyFilter_identifier_def array_filter_def string_filter_def
          numeric_filter_def object_filter_def boolean_filter_def Let_def)
  have b: "evaluate h (Suc (Suc depth)) (FilterExpression (Identifier ''missing'') (Identifier ''default''))
        [new_frame] []
      = (Inl (Error (''Cannot apply filter '' @ dquote @ ''default'' @ dquote @
                      '' to type: UndefinedValue'')), [new_frame], [])"
    by (simp add: evaluate_node_def evaluateFilterExpression_def evaluateIdentifier_def ok_def bind_Inr
      lookupVariable_def new_frame_def map_has_def applyFilter_def applyFilter_identifier_def
      cannot_apply_def get_type_def)
  have c: "fst (evaluate h (Suc (Suc depth)) (FilterExpression (Identifier ''missing'')
              (CallExpression (Identifier ''default'') [StringLiteral ''-''])) [new_frame] [])
      = Inr (StringValue ''-'')"
    by (simp add: evaluate_node_def evaluateFilterExpression_def evaluateIdentifier_def ok_def bind_Inr
      lookupVariable_def new_frame_def map_has_def applyFilter_def applyFilter_call_def
      default_filter_def evaluateArguments_def argument_or_def js_index_def nullish_or_def map_get_def
      Let_def)
  show ?thesis using a b c by (auto simp: applyFilter_def)
qed

subsection \<open>Undefined and null operands\<close>

text \<open>
  Claim C7. For an operator other than \<open>and\<close>, \<open>or\<close>, \<open>==\<close> and \<open>!=\<close>, once both operands
  are evaluated: with an \<open>UndefinedValue\<close> on the right, \<open>in\<close> returns false and \<open>not in\<close>
  returns true; every other combination with an \<open>UndefinedValue\<close> operand throws
  "Cannot perform operation ... on undefined values"; and with no \<open>UndefinedValue\<close> but a
  \<open>NullValue\<close> operand every operator throws "Cannot perform operation on null values".
\<close>

theorem undefined_and_null_operands:
  assumes left: "ev lnode e hp = (Inr l, e1, hp1)" and right: "ev rnode e1 hp1 = (Inr r, e2, hp2)"
    and op: "op \<noteq> ''and''" "op \<noteq> ''or''" "op \<noteq> ''==''" "op \<noteq> ''!=''"
  shows "(r = UndefinedValue \<and> op = ''in'' \<longrightarrow>
            evaluateBinaryExpression h ev op lnode rnode e hp = (Inr (BooleanValue False), e2, hp2))
       \<and> (r = UndefinedValue \<and> op = ''not in'' \<longrightarrow>
            evaluateBinaryExpression h ev op lnode rnode e hp = (Inr (BooleanValue True), e2, hp2))
       \<and> ((l = UndefinedValue \<or> r = UndefinedValue) \<and>
            \<not> (r = UndefinedValue \<and> (op = ''in'' \<or> op = ''not in'')) \<longrightarrow>
            evaluateBinaryExpression h ev op lnode rnode e hp =
              (Inl (Error (''Cannot perform operation '' @ op @ '' on undefined values'')), e2, hp2))
       \<and> (l \<noteq> UndefinedValue \<and> r \<noteq> UndefinedValue \<and> (l = NullValue \<or> r = NullValue) \<longrightarrow>
            evaluateBinaryExpression h ev op lnode rnode e hp =
              (Inl (Error ''Cannot perform operation on null values''), e2, hp2))"
  unfolding evaluateBinaryExpression_operation[OF left right op]
  by (simp add: binary_operation_def)

theorem undefined_and_null_operands_witness:
  "evaluateBinaryExpression demo_host (evaluate demo_host 1) ''in'' (IntegerLiteral (Fin 1)) (Identifier ''missing'') [new_frame] []
     = (Inr (BooleanValue False), [new_frame], [])
   \<and> evaluateBinaryExpression demo_host (evaluate demo_host 1) ''not in'' (IntegerLiteral (Fin 1)) (Identifier ''missing'') [new_frame] []
     = (Inr (BooleanValue True), [new_frame], [])
   \<and> evaluateBinaryExpression demo_host (evaluate demo_host 1) ''+'' (IntegerLiteral (Fin 1)) (Identifier ''missing'') [new_frame] []
     = (Inl (Error ''Cannot perform operation + on undefined values''), [new_frame], [])
   \<and> evaluateBinaryExpression demo_host (evaluate demo_host 1) ''+'' (IntegerLiteral (Fin 1)) (Comment) [new_frame] []
     = (Inl (Error ''Cannot perform operation on null values''), [new_frame], [])"
proof -
  have l: "evaluate demo_host 1 (IntegerLiteral (Fin 1)) [new_frame] [] = (Inr (IntegerValue (Fin 1)), [new_frame], [])"
    by (simp add: evaluate_node_def ok_def)
  have r: "evaluate demo_host 1 (Identifier ''missing'') [new_frame] [] = (Inr UndefinedValue, [new_frame], [])"
    by (simp add: evaluate_node_def ok_def evaluateIdentifier_def lookupVariable_def new_frame_def map_has_def)
  have n: "evaluate demo_host 1 Comment [new_frame] [] = (Inr NullValue, [new_frame], [])"
    by (simp add: evaluate_node_def ok_def)
  show ?thesis
    using undefined_and_null_operands[where ev="evaluate demo_host 1" and h=demo_host and op="''in''", OF l r]
      undefined_and_null_operands[where ev="evaluate demo_host 1" and h=demo_host and op="''not in''", OF l r]
      undefined_and_null_operands[where ev="evaluate demo_host 1" and h=demo_host and op="''+''", OF l r]
      undefined_and_null_operands[where ev="evaluate demo_host 1" and h=demo_host and op="''+''", OF l n]
    by simp
qed

subsection \<open>The \<open>split\<close> builtin against Python's \<open>str.split\<close>\<close>

declare matchAll_nonspace.simps [simp del] spec_split_whitespace.simps [simp del]
  js_split.simps [simp del] spec_split_separator.simps [simp del]

lemma limit_arg_unlimited: "num_eq (limit_arg limit) (num_of_int (- 1)) \<longleftrightarrow> limit = None"
  by (cases limit) (auto simp: limit_arg_def num_eq_def num_of_int_def num_of_nat_def)

lemma limit_arg_le: "num_le (limit_arg (Some k)) (num_of_nat n) \<longleftrightarrow> k \<le> n"
  by (auto simp: limit_arg_def num_le_def num_eq_def num_of_nat_def)

lemma limit_arg_lt: "num_lt (limit_arg (Some k)) (num_of_nat n) \<longleftrightarrow> k < n"
  by (auto simp: limit_arg_def num_of_nat_def)

lemma split_loop_spec:
  "text = pre @ s \<Longrightarrow> i = length pre \<Longrightarrow>
   split_loop text (limit_arg limit) (matchAll_nonspace i s) result =
     result @ spec_split_whitespace (map_option (\<lambda>k. k - length result) limit) s"
proof (induction i s arbitrary: pre result rule: matchAll_nonspace.induct)
  case (1 i s)
  define t where "t = dropWhile is_space s"
  define ws where "ws = takeWhile is_space s"
  have s: "s = ws @ t" by (simp add: t_def ws_def)
  show ?case
  proof (cases "t = []")
    case True
    then show ?thesis
      by (simp add: matchAll_nonspace.simps[of i s] spec_split_whitespace.simps[of _ s] t_def)
  next
    case False
    define m where "m = takeWhile non_space t"
    define start where "start = i + (length s - length t)"
    have start: "start = length (pre @ ws)" using s 1(3) by (simp add: start_def)
    have t: "t = m @ dropWhile non_space t" by (simp add: m_def)
    have rest: "drop (start + length m) text = dropWhile non_space t"
    proof -
      have "text = (pre @ ws @ m) @ dropWhile non_space t" using 1(2) s t by simp
      moreover have "start + length m = length (pre @ ws @ m)" using start by simp
      ultimately show ?thesis by (metis append_eq_conv_conj)
    qed
    have ma: "matchAll_nonspace i s = (m, start) # matchAll_nonspace (start + length m) (dropWhile non_space t)"
      using False by (simp add: matchAll_nonspace.simps[of i s] t_def m_def start_def Let_def)
    show ?thesis
    proof (cases "limit \<noteq> None \<and> the limit \<le> length result")
      case True
      then obtain k where k: "limit = Some k" "k \<le> length result" by auto
      have "spec_split_whitespace (Some (k - length result)) s = [t]"
        using False k by (simp add: spec_split_whitespace.simps[of _ s] t_def[symmetric])
      then show ?thesis using k ma rest t
        by (simp add: limit_arg_unlimited limit_arg_le)
    next
      case F2: False
      have cond: "\<not> (\<not> num_eq (limit_arg limit) (num_of_int (- 1)) \<and> num_le (limit_arg limit) (num_of_nat (length result)))"
        using F2 by (cases limit) (auto simp: limit_arg_unlimited limit_arg_le)
      have IH: "split_loop text (limit_arg limit) (matchAll_nonspace (start + length m) (dropWhile non_space t)) (result @ [m])
          = (result @ [m]) @ spec_split_whitespace (map_option (\<lambda>k. k - length (result @ [m])) limit) (dropWhile non_space t)"
      proof (rule 1(1)[OF t_def False m_def start_def, of "pre @ ws @ m"])
        show "text = (pre @ ws @ m) @ dropWhile non_space t" using 1(2) s t by simp
        show "start + length m = length (pre @ ws @ m)" using start by simp
      qed
      have lim: "map_option (\<lambda>k. k - length result) limit \<noteq> Some 0"
        using F2 by (cases limit) auto
      have "spec_split_whitespace (map_option (\<lambda>k. k - length result) limit) s
          = m # spec_split_whitespace (map_option (\<lambda>k. k - 1) (map_option (\<lambda>k. k - length result) limit)) (dropWhile non_space t)"
        using F2 by (subst spec_split_whitespace.simps) (auto simp add: False t_def[symmetric] m_def[symmetric] Let_def)
      moreover have "map_option (\<lambda>k. k - 1) (map_option (\<lambda>k. k - length result) limit) = map_option (\<lambda>k. k - length (result @ [m])) limit"
        by (cases limit) auto
      ultimately show ?thesis using ma cond IH by auto
    qed
  qed
qed

lemma split_whitespace_spec:
  "split_whitespace v (limit_arg limit) = spec_split_whitespace limit v"
proof -
  have "split_loop (trimStart v) (limit_arg limit) (matchAll_nonspace 0 (trimStart v)) []
      = [] @ spec_split_whitespace (map_option (\<lambda>k. k - length ([]::string list)) limit) (trimStart v)"
    by (rule split_loop_spec) auto
  moreover have "map_option (\<lambda>k. k - length ([]::string list)) limit = limit" by (cases limit) auto
  moreover have "spec_split_whitespace limit (trimStart v) = spec_split_whitespace limit v"
    unfolding trimStart_def spec_split_whitespace.simps[of limit v]
      spec_split_whitespace.simps[of limit "dropWhile is_space v"] by simp
  ultimately show ?thesis by (simp add: split_whitespace_def Let_def)
qed

lemma find_sep_Some: "find_sep sep s = Some (b, a) \<Longrightarrow> s = b @ sep @ a"
proof (induction s arbitrary: b a)
  case Nil
  then show ?case by (auto split: if_splits)
next
  case (Cons c cs)
  show ?case
  proof (cases "take (length sep) (c # cs) = sep")
    case True
    then show ?thesis using Cons.prems by (metis append_Nil append_take_drop_id find_sep.simps(2) option.inject prod.inject)
  next
    case False
    then show ?thesis using Cons by (auto split: option.splits)
  qed
qed

lemma js_split_nonempty: "js_split sep s \<noteq> [] \<or> (sep = [] \<and> s = [])"
  by (subst js_split.simps) (auto split: option.splits)

lemma join_Cons: "ps \<noteq> [] \<Longrightarrow> join sep (p # ps) = p @ sep @ join sep ps"
  by (cases ps) auto

lemma join_js_split: "sep \<noteq> [] \<Longrightarrow> join sep (js_split sep s) = s"
proof (induction sep s rule: js_split.induct)
  case (1 sep s)
  show ?case
  proof (cases "find_sep sep s")
    case None
    then show ?thesis using 1(2) by (subst js_split.simps) simp
  next
    case (Some ba)
    obtain b a where ba: "ba = (b, a)" by (cases ba)
    have ne: "js_split sep a \<noteq> []" using js_split_nonempty[of sep a] 1(2) by simp
    have "join sep (js_split sep a) = a" using 1(1)[OF 1(2) Some ba[symmetric]] 1(2) by simp
    then show ?thesis using Some ba 1(2) ne find_sep_Some[of sep s b a]
      by (subst js_split.simps) (simp add: join_Cons)
  qed
qed

lemma js_splice_nat: "k \<le> length xs \<Longrightarrow> js_splice xs (limit_arg (Some k)) = (take k xs, drop k xs)"
  by (simp add: js_splice_def limit_arg_def num_of_nat_def rat_trunc_def Let_def)

lemma split_separator_spec:
  "sep \<noteq> [] \<Longrightarrow> split_separator v sep (limit_arg limit) = spec_split_separator limit sep v"
proof (induction limit sep v rule: spec_split_separator.induct)
  case (1 limit sep s)
  note sep = 1(2)
  show ?case
  proof (cases "limit = Some 0")
    case True
    have "length (js_split sep s) > 0" using js_split_nonempty[of sep s] sep by simp
    then show ?thesis using True sep join_js_split[of sep s]
      by (subst spec_split_separator.simps)
         (simp add: split_separator_def limit_arg_unlimited limit_arg_lt js_splice_nat)
  next
    case False
    show ?thesis
    proof (cases "find_sep sep s")
      case None
      then have js: "js_split sep s = [s]" using sep by (subst js_split.simps) simp
      have "\<not> (\<not> num_eq (limit_arg limit) (num_of_int (- 1)) \<and> num_lt (limit_arg limit) (num_of_nat (length [s])))"
        using False by (cases limit) (auto simp: limit_arg_unlimited limit_arg_lt)
      then show ?thesis using None sep False js
        by (subst spec_split_separator.simps) (auto simp add: split_separator_def)
    next
      case (Some ba)
      obtain b a where ba: "ba = (b, a)" by (cases ba)
      let ?l = "map_option (\<lambda>k. k - 1) limit"
      have IH: "split_separator a sep (limit_arg ?l) = spec_split_separator ?l sep a"
        using 1(1)[OF _ Some ba[symmetric]] sep False by simp
      have js: "js_split sep s = b # js_split sep a"
        using Some ba sep by (subst js_split.simps) simp
      have spec: "spec_split_separator limit sep s = b # spec_split_separator ?l sep a"
        using Some ba sep False by (subst spec_split_separator.simps) simp
      show ?thesis
      proof (cases limit)
        case None
        then show ?thesis using IH js spec
          by (simp add: split_separator_def limit_arg_unlimited)
      next
        case (Some k)
        then obtain k' where k: "k = Suc k'" using False by (cases k) auto
        show ?thesis
        proof (cases "k' < length (js_split sep a)")
          case True
          then show ?thesis using IH js spec Some k
            by (simp add: split_separator_def limit_arg_unlimited limit_arg_lt js_splice_nat Let_def)
        next
          case F: False
          then show ?thesis using IH js spec Some k
            by (simp add: split_separator_def limit_arg_unlimited limit_arg_lt Let_def)
        qed
      qed
    qed
  qed
qed

text \<open>
  Claim C6. For every string receiver \<open>v\<close> and a \<open>maxsplit\<close> that is -1 (no limit) or a
  natural number: called with no argument or with a null \<open>sep\<close>, the \<open>split\<close> builtin
  returns a fresh array of the pieces that splitting on runs of white space gives,
  leading white space trimmed, and once \<open>maxsplit\<close> pieces are produced the whole
  remainder, interior and trailing white space included, is the last piece. With a
  non-empty string \<open>sep\<close> it splits at every occurrence, and once \<open>maxsplit\<close> splits are
  done the rest of the text is the last piece, so that joining the pieces with \<open>sep\<close>
  gives \<open>v\<close> back. An empty \<open>sep\<close> is the error "empty separator".
  Below -1 the code does something else, where Python's \<open>str.split\<close>, which the source
  says it follows, reads every negative \<open>maxsplit\<close> as no limit. With \<open>maxsplit\<close> -2 the
  text \<open>a,b,c,d\<close> split at the comma gives the three pieces \<open>a\<close>, \<open>b\<close> and \<open>c,d\<close> where
  splitting at every occurrence gives four, and the text \<open> a b c \<close> split on white space
  gives the one piece \<open>a b c \<close> where splitting on every run gives three.
\<close>

theorem split_follows_python_from_minus_one:
  "string_split v [] hp =
     (Inr (ArrayValue (length hp)),
      hp @ [ArrayCell (map StringValue (spec_split_whitespace None v))])
   \<and> string_split v [NullValue, IntegerValue (limit_arg limit)] hp =
     (Inr (ArrayValue (length hp)),
      hp @ [ArrayCell (map StringValue (spec_split_whitespace limit v))])
   \<and> (sep \<noteq> [] \<longrightarrow>
        string_split v [StringValue sep, IntegerValue (limit_arg limit)] hp =
          (Inr (ArrayValue (length hp)),
           hp @ [ArrayCell (map StringValue (spec_split_separator limit sep v))]))
   \<and> (sep \<noteq> [] \<longrightarrow> join sep (spec_split_separator limit sep v) = v)
   \<and> string_split v [StringValue [], IntegerValue n] hp = (Inl (Error ''empty separator''), hp)
   \<and> string_split v [StringValue []] hp = (Inl (Error ''empty separator''), hp)
   \<and> string_split ''a,b,c,d'' [StringValue '','', IntegerValue (Fin (- 2))] [] =
       (Inr (ArrayValue 0), [ArrayCell [StringValue ''a'', StringValue ''b'', StringValue ''c,d'']])
   \<and> spec_split_separator None '','' ''a,b,c,d'' = [''a'', ''b'', ''c'', ''d'']
   \<and> string_split '' a b c '' [NullValue, IntegerValue (Fin (- 2))] [] =
       (Inr (ArrayValue 0), [ArrayCell [StringValue ''a b c '']])
   \<and> spec_split_whitespace None '' a b c '' = [''a'', ''b'', ''c'']"
proof -
  have unlimited: "num_of_int (- 1) = limit_arg None" by (simp add: limit_arg_def)
  have a: "string_split v [] hp =
     (Inr (ArrayValue (length hp)),
      hp @ [ArrayCell (map StringValue (spec_split_whitespace None v))])"
    by (simp add: string_split_def js_index_def nullish_or_def new_array_def unlimited
        split_whitespace_spec)
  have b: "string_split v [NullValue, IntegerValue (limit_arg limit)] hp =
     (Inr (ArrayValue (length hp)),
      hp @ [ArrayCell (map StringValue (spec_split_whitespace limit v))])"
    by (simp add: string_split_def js_index_def nullish_or_def new_array_def
        split_whitespace_spec)
  have c: "string_split v [StringValue sep, IntegerValue (limit_arg limit)] hp =
          (Inr (ArrayValue (length hp)),
           hp @ [ArrayCell (map StringValue (spec_split_separator limit sep v))])"
    if "sep \<noteq> []"
    using that by (simp add: string_split_def js_index_def nullish_or_def new_array_def
        split_separator_spec)
  have d: "join sep (spec_split_separator limit sep v) = v" if "sep \<noteq> []"
    using that
  proof (induction limit sep v rule: spec_split_separator.induct)
    case (1 limit sep s)
    show ?case
    proof (cases "limit = Some 0")
      case True
      then show ?thesis by (subst spec_split_separator.simps) simp
    next
      case False
      show ?thesis
      proof (cases "find_sep sep s")
        case None
        then show ?thesis by (subst spec_split_separator.simps) simp
      next
        case (Some ba)
        obtain b a where ba: "ba = (b, a)" by (cases ba)
        let ?l = "map_option (\<lambda>k. k - 1) limit"
        have IH: "join sep (spec_split_separator ?l sep a) = a"
          using 1(1)[OF _ Some ba[symmetric]] 1(2) False by simp
        have ne: "spec_split_separator ?l sep a \<noteq> []"
          by (subst spec_split_separator.simps) (auto split: option.splits)
        show ?thesis using Some ba 1(2) False IH ne find_sep_Some[of sep s b a]
          by (subst spec_split_separator.simps) (simp add: join_Cons)
      qed
    qed
  qed
  have e: "string_split v [StringValue [], IntegerValue n] hp = (Inl (Error ''empty separator''), hp)"
    by (simp add: string_split_def js_index_def nullish_or_def)
  have f: "string_split v [StringValue []] hp = (Inl (Error ''empty separator''), hp)"
    by (simp add: string_split_def js_index_def nullish_or_def)
  have g: "string_split ''a,b,c,d'' [StringValue '','', IntegerValue (Fin (- 2))] [] =
       (Inr (ArrayValue 0), [ArrayCell [StringValue ''a'', StringValue ''b'', StringValue ''c,d'']])"
    by code_simp
  have g': "spec_split_separator None '','' ''a,b,c,d'' = [''a'', ''b'', ''c'', ''d'']"
    by code_simp
  have k: "string_split '' a b c '' [NullValue, IntegerValue (Fin (- 2))] [] =
       (Inr (ArrayValue 0), [ArrayCell [StringValue ''a b c '']])"
    by code_simp
  have k': "spec_split_whitespace None '' a b c '' = [''a'', ''b'', ''c'']"
    by code_simp
  show ?thesis using a b c d e f g g' k k' by blast
qed

lemma demo_ws: "spec_split_whitespace (Some 1) '' a b  c '' = [''a'', ''b  c '']"
  by code_simp

lemma demo_sep: "spec_split_separator (Some 1) '','' ''a,b,c'' = [''a'', ''b,c'']"
  by code_simp

theorem split_follows_python_from_minus_one_witness:
  "string_split '' a b  c '' [NullValue, IntegerValue (num_of_nat 1)] [] =
     (Inr (ArrayValue 0), [ArrayCell [StringValue ''a'', StringValue ''b  c '']])
   \<and> string_split ''a,b,c'' [StringValue '','', IntegerValue (num_of_nat 1)] [] =
     (Inr (ArrayValue 0), [ArrayCell [StringValue ''a'', StringValue ''b,c'']])"
proof -
  have l: "limit_arg (Some 1) = num_of_nat 1" by (simp add: limit_arg_def)
  have ne: "'','' \<noteq> []" by simp
  have ws: "string_split '' a b  c '' [NullValue, IntegerValue (limit_arg (Some 1))] [] =
     (Inr (ArrayValue (length ([] :: heap))),
      [] @ [ArrayCell (map StringValue (spec_split_whitespace (Some 1) '' a b  c ''))])"
    using split_follows_python_from_minus_one[of "'' a b  c ''" "[]" "Some 1" "'',''"] by blast
  have sp: "string_split ''a,b,c'' [StringValue '','', IntegerValue (limit_arg (Some 1))] [] =
     (Inr (ArrayValue (length ([] :: heap))),
      [] @ [ArrayCell (map StringValue (spec_split_separator (Some 1) '','' ''a,b,c''))])"
    using split_follows_python_from_minus_one[of "''a,b,c''" "[]" "Some 1" "'',''"] ne by blast
  from ws[unfolded l demo_ws] sp[unfolded l demo_sep] show ?thesis by simp
qed

subsection \<open>Filters that reorder an array\<close>

text \<open>
  Claim C8. The filters \<open>reverse\<close> and \<open>sort\<close> are meant to leave their operand as it
  was. In the code they call the host's in-place \<open>reverse()\<close> and \<open>sort()\<close> on the
  operand's own element array and wrap that same array in the result: the filter
  returns the operand's reference, and the cell it refers to now holds the reversed
  (sorted) elements. So after \<open>{% set a = [1, 2] %}\<close> the template
  \<open>{{ a | reverse | join }}{{ a | join }}\<close> renders 2121 and not 2112. Reversing twice
  restores the elements, and \<open>a | reverse | reverse == a\<close> is true, both sides being
  the same array.
\<close>

theorem reverse_and_sort_change_their_operand:
  "applyFilter_identifier h ''reverse'' (ArrayValue a) hp =
     (Inr (ArrayValue a), store a (ArrayCell (rev (array_at hp a))) hp)
   \<and> applyFilter_identifier h ''reverse'' (ArrayValue 0)
        [ArrayCell [IntegerValue (Fin 1), IntegerValue (Fin 2)]] =
     (Inr (ArrayValue 0), [ArrayCell [IntegerValue (Fin 2), IntegerValue (Fin 1)]])
   \<and> applyFilter_identifier h ''sort'' (ArrayValue 0)
        [ArrayCell [IntegerValue (Fin 2), IntegerValue (Fin 1)]] =
     (Inr (ArrayValue 0), [ArrayCell [IntegerValue (Fin 1), IntegerValue (Fin 2)]])
   \<and> fst (evaluate demo_host 5 (Program [
        SetStatement (Identifier ''a'')
          (Some (ArrayLiteral [IntegerLiteral (Fin 1), IntegerLiteral (Fin 2)])) [],
        FilterExpression (FilterExpression (Identifier ''a'') (Identifier ''reverse''))
          (Identifier ''join''),
        FilterExpression (Identifier ''a'') (Identifier ''join'')]) [new_frame] [])
      = Inr (StringValue ''2121'')
   \<and> fst (evaluate demo_host 5 (Program [
        SetStatement (Identifier ''a'')
          (Some (ArrayLiteral [IntegerLiteral (Fin 1), IntegerLiteral (Fin 2)])) [],
        BinaryExpression ''==''
          (FilterExpression (FilterExpression (Identifier ''a'') (Identifier ''reverse''))
             (Identifier ''reverse''))
          (Identifier ''a''),
        FilterExpression (Identifier ''a'') (Identifier ''join'')]) [new_frame] [])
      = Inr (StringValue ''true12'')"
proof -
  have a: "applyFilter_identifier h ''reverse'' (ArrayValue a) hp =
     (Inr (ArrayValue a), store a (ArrayCell (rev (array_at hp a))) hp)" for a hp
    by (simp add: applyFilter_identifier_def array_filter_def Let_def)
  have b: "applyFilter_identifier h ''reverse'' (ArrayValue 0)
        [ArrayCell [IntegerValue (Fin 1), IntegerValue (Fin 2)]] =
     (Inr (ArrayValue 0), [ArrayCell [IntegerValue (Fin 2), IntegerValue (Fin 1)]])"
    by (simp add: a store_def array_at_def)
  have c: "applyFilter_identifier h ''sort'' (ArrayValue 0)
        [ArrayCell [IntegerValue (Fin 2), IntegerValue (Fin 1)]] =
     (Inr (ArrayValue 0), [ArrayCell [IntegerValue (Fin 1), IntegerValue (Fin 2)]])"
    by (simp add: applyFilter_identifier_def array_filter_def Let_def store_def array_at_def
        js_sort_def sort_compare_def num_sub_def)
  have d: "fst (evaluate demo_host 5 (Program [
        SetStatement (Identifier ''a'')
          (Some (ArrayLiteral [IntegerLiteral (Fin 1), IntegerLiteral (Fin 2)])) [],
        FilterExpression (FilterExpression (Identifier ''a'') (Identifier ''reverse''))
          (Identifier ''join''),
        FilterExpression (Identifier ''a'') (Identifier ''join'')]) [new_frame] [])
      = Inr (StringValue ''2121'')"
    by code_simp
  have e: "fst (evaluate demo_host 5 (Program [
        SetStatement (Identifier ''a'')
          (Some (ArrayLiteral [IntegerLiteral (Fin 1), IntegerLiteral (Fin 2)])) [],
        BinaryExpression ''==''
          (FilterExpression (FilterExpression (Identifier ''a'') (Identifier ''reverse''))
             (Identifier ''reverse''))
          (Identifier ''a''),
        FilterExpression (Identifier ''a'') (Identifier ''join'')]) [new_frame] [])
      = Inr (StringValue ''true12'')"
    by code_simp
  show ?thesis using a b c d e by simp
qed

subsection \<open>The loop object\<close>




subsection \<open>Seeding the environment\<close>

lemma map_has_map_set: "map_has (map_set k v m) k"
  by (induction m) (auto simp: map_has_def)

lemma map_get_map_set: "map_get (map_set k v m) k = v"
  by (induction m) (auto simp: map_get_def)

lemma declared_then_refused:
  assumes "declareVariable name v e = Inr e1"
  shows "declareVariable name w e1 = Inl (SyntaxError (''Variable already declared: '' @ name))"
proof (cases e)
  case Nil
  then show ?thesis using assms by (auto simp: map_has_def)
next
  case (Cons f parents)
  then show ?thesis using assms by (auto simp: map_has_map_set split: if_splits)
qed

text \<open>
  Claim C10. After a call \<open>Environment.set(name, x1)\<close> that returned, a second call
  \<open>set(name, x2)\<close> on the same environment, with any host value \<open>x2\<close> the converter
  accepts, throws "Variable already declared: name" and leaves the environment as it
  was; whereas \<open>setVariable\<close> overwrites the binding without complaint, and a lookup
  then reads the new value.
\<close>

theorem set_twice_is_refused:
  assumes first: "Environment_set name x1 e hp = (Inr v1, e1, hp1)"
    and conv: "convertToRuntimeValues x2 hp1 = (Inr v2, hp2)"
  shows "Environment_set name x2 e1 hp1 =
           (Inl (SyntaxError (''Variable already declared: '' @ name)), e1, hp2)
         \<and> (v \<noteq> HostUndefined \<longrightarrow> lookupVariable name (setVariable name v e1) = v)"
proof -
  from first obtain w where d: "declareVariable name w e = Inr e1"
    by (auto simp: Environment_set_def split: prod.splits sum.splits)
  have "declareVariable name v2 e1 = Inl (SyntaxError (''Variable already declared: '' @ name))"
    using declared_then_refused[OF d] by simp
  then have a: "Environment_set name x2 e1 hp1 =
           (Inl (SyntaxError (''Variable already declared: '' @ name)), e1, hp2)"
    using conv by (simp add: Environment_set_def)
  have b: "lookupVariable name (setVariable name v e1) = v" if "v \<noteq> HostUndefined"
  proof (cases e1)
    case Nil
    then show ?thesis using that
      by (simp add: lookupVariable_def map_has_def map_get_def nullish_or_def)
  next
    case (Cons f parents)
    then show ?thesis using that
      by (simp add: lookupVariable_def map_has_map_set map_get_map_set nullish_or_def)
  qed
  show ?thesis using a b by simp
qed

theorem set_twice_is_refused_witness:
  "Environment_set ''x'' (HNumber (Fin 1)) [new_frame] [] =
     (Inr (IntegerValue (Fin 1)), [new_frame @ [(''x'', IntegerValue (Fin 1))]], [])
   \<and> Environment_set ''x'' (HString ''a'') [new_frame @ [(''x'', IntegerValue (Fin 1))]] [] =
     (Inl (SyntaxError ''Variable already declared: x''), [new_frame @ [(''x'', IntegerValue (Fin 1))]], [])
   \<and> lookupVariable ''x'' (setVariable ''x'' (StringValue ''b'') [new_frame @ [(''x'', IntegerValue (Fin 1))]])
       = StringValue ''b''"
proof -
  have first: "Environment_set ''x'' (HNumber (Fin 1)) [new_frame] [] =
     (Inr (IntegerValue (Fin 1)), [new_frame @ [(''x'', IntegerValue (Fin 1))]], [])"
    by (simp add: Environment_set_def new_frame_def map_has_def)
  have conv: "convertToRuntimeValues (HString ''a'') [] = (Inr (StringValue ''a''), [])" by simp
  show ?thesis
    using set_twice_is_refused[OF first conv, of "StringValue ''b''"] first by simp
qed

end
